(* ===== verification/Prelude.thy ===== *)
theory Prelude
  imports Main
begin

text \<open>
  Shared vocabulary of the TNP portal model: the types that name identifiers and
  clock values, the JavaScript idioms the server code is written in (the \<open>||\<close>
  default of a possibly absent or falsy value, \<open>Math.ceil\<close> of a quotient of two
  integers), and generic lemmas on lists and integer division that the component
  theories share. The named collection \<open>js_simps\<close> gathers the unfolding facts of
  these idioms, so that component proofs say \<open>simp add: js_simps\<close>.
\<close>

named_theorems js_simps "unfolding facts of the JavaScript idioms of the model"

type_synonym post_id = nat
type_synonym user_id = nat
type_synonym time = nat \<comment> \<open>milliseconds, the value of \<open>Date.now()\<close> at a save\<close>

section \<open>JavaScript defaults: \<open>x || d\<close>\<close>

text \<open>
  A request field that is absent is \<open>undefined\<close>, modelled as \<open>None\<close>. The
  expression \<open>x || d\<close> yields \<open>d\<close> when \<open>x\<close> is falsy: \<open>undefined\<close>, the empty
  string, \<open>false\<close>, or the number \<open>0\<close> (\<open>NaN\<close> is \<open>undefined\<close> here, the result
  of \<open>parseInt\<close> on a non-number).
\<close>

definition str_or :: "string option \<Rightarrow> string \<Rightarrow> string" where
  "str_or x d = (case x of None \<Rightarrow> d | Some s \<Rightarrow> if s = [] then d else s)"

definition bool_or :: "bool option \<Rightarrow> bool \<Rightarrow> bool" where
  "bool_or x d = (case x of None \<Rightarrow> d | Some b \<Rightarrow> b \<or> d)"

definition int_or :: "int option \<Rightarrow> int \<Rightarrow> int" where
  "int_or x d = (case x of None \<Rightarrow> d | Some n \<Rightarrow> if n = 0 then d else n)"

definition str_truthy :: "string option \<Rightarrow> bool" where
  "str_truthy x = (case x of None \<Rightarrow> False | Some s \<Rightarrow> s \<noteq> [])"

declare str_or_def [js_simps] bool_or_def [js_simps] int_or_def [js_simps]
  str_truthy_def [js_simps]

section \<open>\<open>Math.ceil (a / b)\<close> on integers\<close>

text \<open>
  For integers \<open>a\<close> and \<open>b \<noteq> 0\<close>, \<open>Math.ceil (a / b)\<close> is the least integer not
  below the rational quotient. HOL's \<open>div\<close> on \<open>int\<close> rounds towards minus
  infinity, so the ceiling is \<open>- ((- a) div b)\<close>, for either sign of \<open>b\<close>.
\<close>

definition js_ceil_div :: "int \<Rightarrow> int \<Rightarrow> int" where
  "js_ceil_div a b = - ((- a) div b)"

lemma js_ceil_div_bounds:
  assumes "0 < b"
  shows "a \<le> js_ceil_div a b * b" and "(js_ceil_div a b - 1) * b < a"
proof -
  let ?q = "(- a) div b" and ?r = "(- a) mod b"
  have eq: "?q * b + ?r = - a" by (rule div_mult_mod_eq)
  have "0 \<le> ?r" "?r < b" using assms by simp_all
  with eq have "?q * b \<le> - a" "- a < ?q * b + b" by linarith+
  then show "a \<le> js_ceil_div a b * b" and "(js_ceil_div a b - 1) * b < a"
    by (simp_all add: js_ceil_div_def algebra_simps)
qed

lemma js_ceil_div_nonneg: "0 \<le> a \<Longrightarrow> 0 < b \<Longrightarrow> 0 \<le> js_ceil_div a b"
  by (simp add: js_ceil_div_def div_nonpos_pos_le0)

lemma js_ceil_div_pos: "0 < n \<Longrightarrow> 0 < b \<Longrightarrow> 0 < js_ceil_div n b"
  using js_ceil_div_bounds(1)[of b n] by (metis mult_nonpos_nonneg not_le order.strict_trans2 less_le)

section \<open>Pages of a list\<close>

text \<open>
  A result page is \<open>take l (drop s xs)\<close>. Consecutive pages concatenate to a
  prefix of the list; this is the fact the listing's refinement proofs share.
\<close>

lemma take_drop_concat_pages:
  "concat (map (\<lambda>k. take l (drop (k * l) xs)) [0..<n]) = take (n * l) xs"
proof (induction n)
  case 0
  then show ?case by simp
next
  case (Suc n)
  have "take (n * l) xs @ take l (drop (n * l) xs) = take (n * l + l) xs"
    by (simp add: take_add)
  then show ?case using Suc.IH by (simp add: add.commute)
qed

lemma js_ceil_div_le_1:
  assumes "n \<le> 200"
  shows "js_ceil_div n 200 \<le> 1"
proof -
  have "(js_ceil_div n 200 - 1) * 200 < n" by (rule js_ceil_div_bounds(2)) simp
  then have "js_ceil_div n 200 * 200 < n + 200" by (simp add: algebra_simps)
  then show ?thesis using assms by linarith
qed

end
