(* ===== verification/Text.thy ===== *)
theory Text
  imports Prelude
begin

text \<open>
  The string operations of the server, written as the JavaScript built-ins they
  call: the whitespace class \<open>\s\<close> of regular expressions and of
  \<open>String.prototype.trim\<close> (Mongoose's \<open>trim: true\<close> setter), the split
  \<open>text.split(/\s+/)\<close> used by the \<open>readingTime\<close> virtual
  (src/server/models/Post.js, lines 88-93), and the tag stripping
  \<open>content.replace(/<[^>]*>/g, '')\<close> of the excerpt hook (Post.js, line 112).
  Characters are Isabelle \<open>char\<close>s; the model covers the ASCII whitespace
  characters (space, tab, line feed, vertical tab, form feed, carriage return).
\<close>

definition is_js_space :: "char \<Rightarrow> bool" where
  "is_js_space c \<longleftrightarrow> c = CHR '' '' \<or> c = CHR 0x09 \<or> c = CHR 0x0A \<or> c = CHR 0x0B
     \<or> c = CHR 0x0C \<or> c = CHR 0x0D"

definition js_trim :: "string \<Rightarrow> string" where
  "js_trim s = rev (dropWhile is_js_space (rev (dropWhile is_js_space s)))"

function split_ws :: "string \<Rightarrow> string list" where
  "split_ws [] = [[]]"
| "split_ws (c # cs) =
     (if is_js_space c then [] # split_ws (dropWhile is_js_space cs)
      else (case split_ws cs of [] \<Rightarrow> [[c]] | w # ws \<Rightarrow> (c # w) # ws))"
  by pat_completeness auto
termination
  by (relation "measure length") (auto simp: le_imp_less_Suc length_dropWhile_le)

definition js_words :: "string \<Rightarrow> string list" where
  "js_words s = filter (\<lambda>w. w \<noteq> []) (split_ws s)"

function strip_tags :: "string \<Rightarrow> string" where
  "strip_tags [] = []"
| "strip_tags (c # cs) =
     (if c = CHR ''<'' \<and> CHR ''>'' \<in> set cs
      then strip_tags (tl (dropWhile (\<lambda>x. x \<noteq> CHR ''>'') cs))
      else c # strip_tags cs)"
  by pat_completeness auto
termination
  by (relation "measure length")
     (auto simp: le_imp_less_Suc length_dropWhile_le less_Suc_eq_le
       intro: order.trans[OF diff_le_self length_dropWhile_le])


text \<open>A word of a text: non-empty, with no whitespace.\<close>

definition space_free :: "string \<Rightarrow> bool" where
  "space_free w \<longleftrightarrow> w \<noteq> [] \<and> (\<forall>c\<in>set w. \<not> is_js_space c)"

text \<open>A string in which no \<open><\<close> is followed by a \<open>>\<close>: nothing the tag regex matches.\<close>

fun tag_free :: "string \<Rightarrow> bool" where
  "tag_free [] = True"
| "tag_free (c # cs) = ((c = CHR ''<'' \<longrightarrow> CHR ''>'' \<notin> set cs) \<and> tag_free cs)"

text \<open>\<open>String.prototype.toUpperCase\<close> on ASCII letters (the author initials of PostCard.jsx and PostDetail.jsx).\<close>

definition js_upper :: "char \<Rightarrow> char" where
  "js_upper c = (if 97 \<le> (of_char c :: nat) \<and> (of_char c :: nat) \<le> 122 then char_of ((of_char c :: nat) - 32) else c)"

section \<open>Lemmas\<close>

lemma split_ws_nonempty: "split_ws s \<noteq> []"
  by (induction s rule: split_ws.induct) (auto split: list.split)

lemma split_ws_word_append:
  assumes "\<forall>c\<in>set w. \<not> is_js_space c"
  shows "split_ws (w @ rest) = (w @ hd (split_ws rest)) # tl (split_ws rest)"
  using assms
proof (induction w)
  case Nil
  then show ?case using split_ws_nonempty[of rest] by simp
next
  case (Cons c w)
  then show ?case by (simp split: list.split)
qed

lemma split_ws_space: "is_js_space c \<Longrightarrow> split_ws (c # rest) = [] # split_ws (dropWhile is_js_space rest)"
  by simp

lemma js_words_join:
  assumes "\<forall>w\<in>set ws. space_free w"
  shows "js_words (concat (map (\<lambda>w. w @ '' '') ws)) = ws"
  using assms
proof (induction ws)
  case Nil
  then show ?case by (simp add: js_words_def)
next
  case (Cons w ws)
  let ?rest = "concat (map (\<lambda>w. w @ '' '') ws)"
  have sp: "is_js_space CHR '' ''" by (simp add: is_js_space_def)
  have dw: "dropWhile is_js_space ?rest = ?rest"
    using Cons.prems by (cases ws) (auto simp: space_free_def neq_Nil_conv)
  have "split_ws (w @ '' '' @ ?rest) = w # split_ws ?rest"
    using Cons.prems sp dw by (simp add: split_ws_word_append space_free_def)
  then show ?case using Cons by (simp add: js_words_def space_free_def)
qed

lemma set_strip_tags: "set (strip_tags s) \<subseteq> set s"
proof (induction s rule: strip_tags.induct)
  case 1
  then show ?case by simp
next
  case (2 c cs)
  have "set (tl (dropWhile (\<lambda>x. x \<noteq> CHR ''>'') cs)) \<subseteq> set cs"
    by (metis list.set_sel(2) set_dropWhileD subsetI tl_Nil)
  then show ?case using 2 by auto
qed

lemma tag_free_strip_tags: "tag_free (strip_tags s)"
  by (induction s rule: strip_tags.induct) (use set_strip_tags in auto)

lemma strip_tags_tag_free: "tag_free s \<Longrightarrow> strip_tags s = s"
  by (induction s rule: strip_tags.induct) auto

lemma strip_tags_idem: "strip_tags (strip_tags s) = strip_tags s"
  by (rule strip_tags_tag_free[OF tag_free_strip_tags])

lemma length_strip_tags: "length (strip_tags s) \<le> length s"
proof (induction s rule: strip_tags.induct)
  case (2 c cs)
  have "length (tl (dropWhile (\<lambda>x. x \<noteq> CHR ''>'') cs)) \<le> length cs"
    using length_dropWhile_le[of "\<lambda>x. x \<noteq> CHR ''>''" cs] by simp
  then show ?case using 2 by auto
qed simp


lemma tag_free_no_lt: "CHR ''<'' \<notin> set s \<Longrightarrow> tag_free s"
  by (induction s) auto

lemma dropWhile_rev_split: "rev (dropWhile P (rev u)) @ rev (takeWhile P (rev u)) = u"
  by (metis rev_append rev_rev_ident takeWhile_dropWhile_id)

lemma js_trim_idem: "js_trim (js_trim s) = js_trim s"
proof -
  let ?u = "dropWhile is_js_space s"
  let ?v = "rev (dropWhile is_js_space (rev ?u))"
  have hu: "?u = [] \<or> \<not> is_js_space (hd ?u)" using hd_dropWhile[of is_js_space s] by blast
  have split: "?v @ rev (takeWhile is_js_space (rev ?u)) = ?u" by (rule dropWhile_rev_split)
  have hv: "dropWhile is_js_space ?v = ?v"
  proof (cases ?v)
    case Nil
    then show ?thesis by (metis dropWhile.simps(1))
  next
    case (Cons c cs)
    with split have eq: "?u = c # (cs @ rev (takeWhile is_js_space (rev ?u)))" by simp
    from hu eq have "\<not> is_js_space c" by (metis list.distinct(1) list.sel(1))
    with Cons show ?thesis by simp
  qed
  have lv: "dropWhile is_js_space (rev ?v) = rev ?v"
  proof (cases "rev ?v")
    case Nil
    then show ?thesis by (metis dropWhile.simps(1))
  next
    case (Cons c cs)
    then have "dropWhile is_js_space (rev ?u) \<noteq> []" by auto
    then have "\<not> is_js_space (hd (dropWhile is_js_space (rev ?u)))" by (rule hd_dropWhile)
    with Cons show ?thesis by simp
  qed
  show ?thesis unfolding js_trim_def using hv lv by simp
qed

end
