(* ===== verification/Post.thy ===== *)
theory Post
  imports Text
begin

text \<open>
  The Post schema of src/server/models/Post.js: the category enumeration, the
  document's fields (a record \<open>summary\<close> of every field but \<open>content\<close>, extended by
  \<open>content\<close> to the record \<open>post\<close>, so that the list projection
  \<open>select('-content')\<close> is the record truncation), the schema validators, the
  \<open>readingTime\<close> virtual, the excerpt pre-save hook, and Mongoose's save pipeline
  for one document: validation first, then the timestamp hook and the excerpt hook.
  Identifiers are not a field: the store keys documents by \<open>post_id\<close>.
\<close>

section \<open>Categories\<close>

datatype category = Job | Internship | Training | Placement | Announcement | General

fun category_name :: "category \<Rightarrow> string" where
  "category_name Job = ''job''"
| "category_name Internship = ''internship''"
| "category_name Training = ''training''"
| "category_name Placement = ''placement''"
| "category_name Announcement = ''announcement''"
| "category_name General = ''general''"

text \<open>The \<open>enum\<close> list of the schema, in its order (Post.js, line 26).\<close>

definition category_enum :: "category list" where
  "category_enum = [Job, Internship, Training, Placement, Announcement, General]"

definition parse_category :: "string \<Rightarrow> category option" where
  "parse_category s = find (\<lambda>c. category_name c = s) category_enum"

section \<open>Documents\<close>

record attachment =
  att_name :: string
  att_url :: string
  att_size :: int
  att_type :: string

text \<open>
  Field types follow the schema: strings as \<open>string\<close>, the JavaScript numbers
  \<open>views\<close> and \<open>likes\<close> as \<open>int\<close> (the schema sets no minimum), timestamps as
  \<open>time\<close>. \<open>category\<close> is the stored string, checked by the enum validator; an
  absent \<open>excerpt\<close> is the empty string, which both the validator and the hook's
  \<open>!this.excerpt\<close> treat as the absent value.
\<close>

record summary =
  title :: string
  excerpt :: string
  author :: string
  category :: string
  tags :: "string list"
  featured :: bool
  published :: bool
  views :: int
  likes :: int
  imageUrl :: string
  attachments :: "attachment list"
  createdAt :: time
  updatedAt :: time

record post = summary +
  content :: string

section \<open>Validators\<close>

text \<open>
  Mongoose runs the validators of every path of the document and collects one error
  per failing path: \<open>required\<close> fails on a missing or empty string, \<open>maxlength\<close> and
  \<open>minlength\<close> compare the length, \<open>enum\<close> checks membership. The result is the list
  of failing paths in schema order; the empty list means the document is valid.
\<close>

definition validate_post :: "post \<Rightarrow> string list" where
  "validate_post p =
     (if title p = [] \<or> 200 < length (title p) then [''title''] else []) @
     (if content p = [] \<or> length (content p) < 10 then [''content''] else []) @
     (if 300 < length (excerpt p) then [''excerpt''] else []) @
     (if author p = [] then [''author''] else []) @
     (if parse_category (category p) = None then [''category''] else [])"

section \<open>Derived fields\<close>

text \<open>
  The \<open>readingTime\<close> virtual (Post.js, lines 88-93). Its argument is the
  document's \<open>content\<close> as serialised: \<open>None\<close> when the path was not selected.
\<close>

definition reading_time :: "string option \<Rightarrow> int" where
  "reading_time c =
     (let text = str_or c [];
          wordCount = int (length (js_words text))
      in int_or (Some (js_ceil_div wordCount 200)) 1)"

text \<open>The excerpt computed by the pre-save hook (Post.js, lines 110-118).\<close>

definition make_excerpt :: "string \<Rightarrow> string" where
  "make_excerpt c =
     (let plainText = strip_tags (str_or (Some c) [])
      in take 300 plainText @ (if 300 < length plainText then ''...'' else []))"

definition excerpt_hook :: "bool \<Rightarrow> post \<Rightarrow> post" where
  "excerpt_hook content_modified p =
     (if content_modified \<and> excerpt p = [] then p\<lparr>excerpt := make_excerpt (content p)\<rparr> else p)"

section \<open>Construction and save\<close>

text \<open>
  The fields the create route passes to \<open>new Post({...})\<close>
  (src/server/routes/posts.js, lines 57-65), after its \<open>||\<close> defaults. Title and
  content may be absent from the request body.
\<close>

record post_input =
  in_title :: "string option"
  in_content :: "string option"
  in_category :: string
  in_tags :: "string list"
  in_featured :: bool
  in_imageUrl :: string
  in_author :: string

text \<open>
  The constructor applies the schema defaults (\<open>published\<close> true, counters 0, no
  attachments, no excerpt) and the \<open>trim\<close> setters of title, author and tags; an
  absent title or content is the empty string, which fails \<open>required\<close> as
  \<open>undefined\<close> does. The timestamps are set by the save.
\<close>

definition new_document :: "post_input \<Rightarrow> post" where
  "new_document i =
     \<lparr>title = js_trim (str_or (in_title i) []), excerpt = [], author = js_trim (in_author i),
      category = in_category i, tags = map js_trim (in_tags i), featured = in_featured i,
      published = True, views = 0, likes = 0, imageUrl = in_imageUrl i, attachments = [],
      createdAt = 0, updatedAt = 0, content = str_or (in_content i) []\<rparr>"

text \<open>
  \<open>document.save()\<close>: Mongoose's built-in pre-save validation runs before every
  other hook, so the excerpt written by the hook is never validated in the save that
  writes it. A loaded document (\<open>Some old\<close>) is stamped only when a field changed;
  a new one (\<open>None\<close>) gets both timestamps. The content counts as modified for a
  new document and when its value changed for a loaded one.
\<close>

definition save_document :: "time \<Rightarrow> post option \<Rightarrow> post \<Rightarrow> string list + post" where
  "save_document now old p =
     (let errs = validate_post p in
      if errs \<noteq> [] then Inl errs
      else
        let stamped = (case old of
                         None \<Rightarrow> p\<lparr>createdAt := now, updatedAt := now\<rparr>
                       | Some q \<Rightarrow> if q = p then p else p\<lparr>updatedAt := now\<rparr>);
            content_modified = (case old of None \<Rightarrow> True | Some q \<Rightarrow> content q \<noteq> content p)
        in Inr (excerpt_hook content_modified stamped))"

section \<open>Lemmas\<close>

subsection \<open>Categories\<close>

lemma parse_category_name [simp]: "parse_category (category_name c) = Some c"
  by (cases c) (simp_all add: parse_category_def category_enum_def)

lemma parse_category_SomeD: "parse_category s = Some c \<Longrightarrow> category_name c = s"
  by (auto simp: parse_category_def category_enum_def split: if_splits)

lemma category_name_inj: "category_name c = category_name d \<longleftrightarrow> c = d"
  by (metis option.inject parse_category_name)

subsection \<open>Derived fields\<close>

lemma make_excerpt_eq:
  "make_excerpt c = take 300 (strip_tags c) @ (if 300 < length (strip_tags c) then ''...'' else [])"
  by (simp add: make_excerpt_def str_or_def)

lemma length_make_excerpt:
  "length (make_excerpt c) = (if 300 < length (strip_tags c) then 303 else length (strip_tags c))"
  by (simp add: make_excerpt_eq)

lemma make_excerpt_short: "length (strip_tags c) \<le> 300 \<Longrightarrow> make_excerpt c = strip_tags c"
  by (simp add: make_excerpt_eq)

lemma excerpt_hook_set [simp]: "excerpt p \<noteq> [] \<Longrightarrow> excerpt_hook m p = p"
  by (simp add: excerpt_hook_def)

lemma reading_time_eq:
  "reading_time c = max 1 (js_ceil_div (int (length (js_words (str_or c [])))) 200)"
proof -
  let ?n = "int (length (js_words (str_or c [])))"
  have "js_ceil_div ?n 200 = 0 \<longleftrightarrow> ?n = 0"
  proof
    assume "js_ceil_div ?n 200 = 0"
    then show "?n = 0" using js_ceil_div_pos[of ?n 200] by linarith
  qed (simp add: js_ceil_div_def)
  moreover have "0 \<le> js_ceil_div ?n 200" by (simp add: js_ceil_div_nonneg)
  ultimately show ?thesis by (auto simp: reading_time_def int_or_def Let_def)
qed

lemma reading_time_ge_1: "1 \<le> reading_time c"
  by (simp add: reading_time_eq)

lemma reading_time_None: "reading_time None = 1"
  by (simp add: reading_time_def str_or_def js_words_def int_or_def js_ceil_div_def)

subsection \<open>Save\<close>

lemma save_document_Inl_iff: "(\<exists>e. save_document now old p = Inl e) \<longleftrightarrow> validate_post p \<noteq> []"
  by (simp add: save_document_def Let_def)

lemma save_document_Inr:
  assumes "save_document now old p = Inr q"
  shows "validate_post p = []"
    and "summary.truncate q\<lparr>excerpt := excerpt p, createdAt := createdAt p, updatedAt := updatedAt p\<rparr>
         = summary.truncate p"
    and "content q = content p"
  using assms by (auto simp: save_document_def Let_def excerpt_hook_def summary.defs
      split: option.splits if_splits)
lemma save_document_keeps:
  assumes "save_document now old p = Inr q"
  shows "title q = title p" "content q = content p" "author q = author p" "category q = category p"
    "tags q = tags p" "featured q = featured p" "views q = views p" "likes q = likes p"
  using arg_cong[OF save_document_Inr(2)[OF assms], of title] arg_cong[OF save_document_Inr(2)[OF assms], of author]
    arg_cong[OF save_document_Inr(2)[OF assms], of category] arg_cong[OF save_document_Inr(2)[OF assms], of tags]
    arg_cong[OF save_document_Inr(2)[OF assms], of featured] arg_cong[OF save_document_Inr(2)[OF assms], of views]
    arg_cong[OF save_document_Inr(2)[OF assms], of likes] save_document_Inr(3)[OF assms]
  by (simp_all add: summary.truncate_def)

lemma save_document_same_content:
  "content q = content p \<Longrightarrow>
   save_document now (Some p) q =
     (if validate_post q \<noteq> [] then Inl (validate_post q) else Inr (if p = q then q else q\<lparr>updatedAt := now\<rparr>))"
  by (simp add: save_document_def excerpt_hook_def Let_def)

lemma validate_post_counters [simp]:
  "validate_post (p\<lparr>views := v\<rparr>) = validate_post p"
  "validate_post (p\<lparr>likes := v\<rparr>) = validate_post p"
  "validate_post (p\<lparr>updatedAt := t\<rparr>) = validate_post p"
  by (simp_all add: validate_post_def)

lemma post_update_self [simp]:
  "p\<lparr>views := v\<rparr> = p \<longleftrightarrow> views p = v"
  "p\<lparr>likes := v\<rparr> = p \<longleftrightarrow> likes p = v"
  "p\<lparr>featured := b\<rparr> = p \<longleftrightarrow> featured p = b"
  "p = p\<lparr>views := v\<rparr> \<longleftrightarrow> views p = v"
  "p = p\<lparr>likes := v\<rparr> \<longleftrightarrow> likes p = v"
  "p = p\<lparr>featured := b\<rparr> \<longleftrightarrow> featured p = b"
  by (cases p; auto)+

lemma length_make_excerpt_le: "length (make_excerpt c) \<le> 303"
  by (simp add: length_make_excerpt)

text \<open>The reading time of a content of \<open>n\<close> space-separated words is the larger of 1 and the ceiling of \<open>n / 200\<close>; an empty content reads in 1 minute.\<close>

lemma reading_time_words:
  assumes "list_all space_free ws"
  shows "reading_time (Some (concat (map (\<lambda>w. w @ '' '') ws))) = max 1 (js_ceil_div (int (length ws)) 200) \<and>
         reading_time (Some []) = 1"
proof -
  have "js_words (concat (map (\<lambda>w. w @ '' '') ws)) = ws"
    using assms by (simp add: js_words_join list_all_iff)
  then show ?thesis by (simp add: reading_time_eq str_or_def js_words_def js_ceil_div_def)
qed

end
