(* ===== verification/Store.thy ===== *)
theory Store
  imports Post
begin

text \<open>
  The posts collection as the server's Mongoose calls see it: a map from document
  identifiers to documents and the allocator of fresh identifiers (MongoDB's
  ObjectIds are unique and grow with insertion time, which the counter
  \<open>next_id\<close> stands for). \<open>documents\<close> is the collection in its natural
  (insertion) order, the order a query sees before its sort. The invariant
  \<open>wf_store\<close> says that every key was allocated and that every stored document
  satisfies \<open>post_inv\<close>: what the save pipeline of Post guarantees of a document it
  writes, with the excerpt bounded by 303 characters (300 plus the ellipsis), not by
  the schema's 300.
\<close>

record store =
  posts :: "post_id \<rightharpoonup> post"
  next_id :: post_id

definition empty_store :: store where
  "empty_store = \<lparr>posts = Map.empty, next_id = 0\<rparr>"

text \<open>\<open>post.save()\<close> of a new document: the document gets the next identifier.\<close>

definition insert_doc :: "post \<Rightarrow> store \<Rightarrow> post_id \<times> store" where
  "insert_doc p s = (next_id s, s\<lparr>posts := (posts s)(next_id s \<mapsto> p), next_id := Suc (next_id s)\<rparr>)"

text \<open>\<open>post.save()\<close> of a loaded document writes it back under its identifier.\<close>

definition replace_doc :: "post_id \<Rightarrow> post \<Rightarrow> store \<Rightarrow> store" where
  "replace_doc i p s = s\<lparr>posts := (posts s)(i \<mapsto> p)\<rparr>"

text \<open>\<open>Post.findByIdAndDelete(id)\<close>.\<close>

definition delete_doc :: "post_id \<Rightarrow> store \<Rightarrow> store" where
  "delete_doc i s = s\<lparr>posts := (posts s)(i := None)\<rparr>"

definition documents :: "store \<Rightarrow> (post_id \<times> post) list" where
  "documents s = List.map_filter (\<lambda>i. map_option (Pair i) (posts s i)) [0..<next_id s]"

definition post_inv :: "post \<Rightarrow> bool" where
  "post_inv p \<longleftrightarrow>
     title p \<noteq> [] \<and> length (title p) \<le> 200 \<and> 10 \<le> length (content p) \<and>
     author p \<noteq> [] \<and> parse_category (category p) \<noteq> None \<and>
     length (excerpt p) \<le> 303 \<and> 0 \<le> views p \<and> 0 \<le> likes p"

definition wf_store :: "store \<Rightarrow> bool" where
  "wf_store s \<longleftrightarrow> dom (posts s) \<subseteq> {..<next_id s} \<and> (\<forall>p\<in>ran (posts s). post_inv p)"

section \<open>Lemmas\<close>

lemmas store_ops_defs = insert_doc_def replace_doc_def delete_doc_def

lemma wf_empty_store: "wf_store empty_store"
  by (simp add: wf_store_def empty_store_def)

lemma fresh_next_id: "wf_store s \<Longrightarrow> posts s (next_id s) = None"
  by (auto simp: wf_store_def)

lemma wf_store_lookup: "wf_store s \<Longrightarrow> posts s i = Some p \<Longrightarrow> post_inv p"
  by (auto simp: wf_store_def ran_def)

lemma wf_insert_doc:
  assumes "wf_store s" "post_inv p"
  shows "wf_store (snd (insert_doc p s))"
proof -
  have "posts s (next_id s) = None" using assms(1) by (rule fresh_next_id)
  then show ?thesis using assms
    by (auto simp: wf_store_def insert_doc_def ran_map_upd)
qed

lemma wf_replace_doc:
  assumes "wf_store s" "posts s i = Some q" "post_inv p"
  shows "wf_store (replace_doc i p s)"
proof -
  have "ran ((posts s)(i \<mapsto> p)) \<subseteq> insert p (ran (posts s))"
    by (auto simp: ran_def)
  then show ?thesis using assms
    by (auto simp: wf_store_def replace_doc_def)
qed

lemma wf_delete_doc: "wf_store s \<Longrightarrow> wf_store (delete_doc i s)"
  by (auto simp: wf_store_def delete_doc_def ran_def)

lemma insert_doc_lookup:
  "wf_store s \<Longrightarrow> insert_doc p s = (i, s') \<Longrightarrow> posts s' i = Some p \<and> posts s i = None"
  by (auto simp: insert_doc_def wf_store_def)

lemma map_filter_Pair:
  "List.map_filter (\<lambda>i. map_option (Pair i) (m i)) xs = map (\<lambda>i. (i, the (m i))) (filter (\<lambda>i. m i \<noteq> None) xs)"
  by (induction xs) (auto split: option.splits)

lemma set_documents: "set (documents s) = {(i, p). posts s i = Some p \<and> i < next_id s}"
  by (auto simp: documents_def map_filter_Pair)

lemma distinct_documents: "distinct (map fst (documents s))"
  by (simp add: documents_def map_filter_Pair comp_def)

lemma save_document_post_inv:
  assumes "save_document now old p = Inr q" "0 \<le> views p" "0 \<le> likes p"
  shows "post_inv q"
proof -
  have v: "validate_post p = []" using assms(1) by (simp add: save_document_def Let_def split: if_splits)
  obtain st m where q: "q = excerpt_hook m st" and st: "summary.truncate st\<lparr>createdAt := createdAt p, updatedAt := updatedAt p\<rparr> = summary.truncate p \<and> content st = content p"
    using assms(1) v by (auto simp: save_document_def Let_def summary.defs split: option.splits)
  have "post_inv st" using v st assms(2,3)
    by (auto simp: post_inv_def validate_post_def summary.defs split: if_splits)
  then show ?thesis unfolding q excerpt_hook_def
    by (auto simp: post_inv_def length_make_excerpt_le)
qed

lemma replace_doc_same: "posts s i = Some p \<Longrightarrow> replace_doc i p s = s"
  by (simp add: replace_doc_def fun_upd_idem)

end
