(* ===== verification/Query.thy ===== *)
theory Query
  imports Store
begin

text \<open>
  The listing query engine: the static \<open>Post.getPosts(page, limit, filters)\<close>
  (src/server/models/Post.js, lines 121-155) and the featured list of
  src/server/routes/posts.js (lines 165-180). \<open>getPosts\<close> builds a MongoDB query
  object from the filters, runs \<open>find(query).sort({updatedAt: -1}).skip(skip)
  .limit(limit).select('-content')\<close> and \<open>countDocuments(query)\<close>, and computes the
  pagination record. The model keeps that shape: \<open>build_query\<close> is the query object,
  \<open>matches\<close> is MongoDB's evaluation of it on one document, \<open>find_sorted\<close> the
  sorted match list, \<open>get_posts\<close> the whole static.

  Free-text search (\<open>$text\<close>) is answered by MongoDB's text index, whose
  tokenising, stemming and stop words are not part of this program: the index is a
  parameter \<open>ti\<close> of type \<open>text_index\<close>, a predicate on a search string and a
  document. Documents with equal \<open>updatedAt\<close> keep their insertion order (MongoDB
  leaves the order of ties unspecified; this is one admissible order). The callers
  always pass a limit different from 0 (the routes' \<open>|| 10\<close>); a negative limit is
  MongoDB's single-batch limit of its absolute value, and a negative skip is refused
  by the server (\<open>BadSkip\<close>).
\<close>

record filters =
  f_category :: "string option"
  f_search :: "string option"
  f_tags :: "string list option"

record mongo_query =
  q_published :: bool
  q_featured :: "bool option"
  q_category :: "string option"
  q_text :: "string option"
  q_tags_in :: "string list option"

type_synonym text_index = "string \<Rightarrow> post \<Rightarrow> bool"

type_synonym list_item = "post_id \<times> summary"

record pagination =
  current :: int
  pages :: int
  total :: int
  hasNext :: bool
  hasPrev :: bool

datatype mongo_error = BadSkip

definition build_query :: "filters \<Rightarrow> mongo_query" where
  "build_query f =
     \<lparr>q_published = True, q_featured = None,
      q_category = (if str_truthy (f_category f) then f_category f else None),
      q_text = (if str_truthy (f_search f) then f_search f else None),
      q_tags_in = (case f_tags f of None \<Rightarrow> None | Some ts \<Rightarrow> if ts \<noteq> [] then Some ts else None)\<rparr>"

definition matches :: "text_index \<Rightarrow> mongo_query \<Rightarrow> post \<Rightarrow> bool" where
  "matches ti q p \<longleftrightarrow>
     published p = q_published q \<and>
     (case q_featured q of None \<Rightarrow> True | Some b \<Rightarrow> featured p = b) \<and>
     (case q_category q of None \<Rightarrow> True | Some c \<Rightarrow> category p = c) \<and>
     (case q_text q of None \<Rightarrow> True | Some t \<Rightarrow> ti t p) \<and>
     (case q_tags_in q of None \<Rightarrow> True | Some ts \<Rightarrow> list_ex (\<lambda>t. t \<in> set (tags p)) ts)"

definition matching :: "text_index \<Rightarrow> mongo_query \<Rightarrow> store \<Rightarrow> (post_id \<times> post) list" where
  "matching ti q s = filter (\<lambda>(i, p). matches ti q p) (documents s)"

definition find_sorted :: "text_index \<Rightarrow> mongo_query \<Rightarrow> store \<Rightarrow> (post_id \<times> post) list" where
  "find_sorted ti q s = sort_key (\<lambda>(i, p). - int (updatedAt p)) (matching ti q s)"

definition project :: "post_id \<times> post \<Rightarrow> list_item" where
  "project d = (fst d, summary.truncate (snd d))"

definition limit_docs :: "int \<Rightarrow> 'a list \<Rightarrow> 'a list" where
  "limit_docs l xs = take (nat \<bar>l\<bar>) xs"

definition get_posts ::
  "text_index \<Rightarrow> int \<Rightarrow> int \<Rightarrow> filters \<Rightarrow> store \<Rightarrow> mongo_error + list_item list \<times> pagination" where
  "get_posts ti page limit f s =
     (let skip = (page - 1) * limit;
          q = build_query f
      in if skip < 0 then Inl BadSkip
         else
           let posts = map project (limit_docs limit (drop (nat skip) (find_sorted ti q s)));
               total = int (length (matching ti q s))
           in Inr (posts, \<lparr>current = page, pages = js_ceil_div total limit, total = total,
                           hasNext = page < js_ceil_div total limit, hasPrev = page > 1\<rparr>))"

text \<open>\<open>Post.find({featured: true, published: true}).sort({updatedAt: -1}).limit(5)\<close>.\<close>

definition featured_query :: mongo_query where
  "featured_query = \<lparr>q_published = True, q_featured = Some True, q_category = None,
                      q_text = None, q_tags_in = None\<rparr>"

definition featured_list :: "text_index \<Rightarrow> store \<Rightarrow> list_item list" where
  "featured_list ti s = map project (take 5 (find_sorted ti featured_query s))"

section \<open>Lemmas\<close>

lemma set_find_sorted: "set (find_sorted ti q s) = set (matching ti q s)"
  by (simp add: find_sorted_def)

lemma length_find_sorted: "length (find_sorted ti q s) = length (matching ti q s)"
  by (simp add: find_sorted_def)

lemma distinct_find_sorted: "distinct (map fst (find_sorted ti q s))"
proof -
  have "distinct (map fst (matching ti q s))"
    using distinct_documents[of s] by (simp add: matching_def distinct_map_filter)
  then show ?thesis by (simp add: find_sorted_def distinct_map)
qed

lemma sorted_find_sorted:
  "sorted_wrt (\<lambda>a b. updatedAt (snd b) \<le> updatedAt (snd a)) (find_sorted ti q s)"
proof -
  have "sorted (map (\<lambda>(i, p). - int (updatedAt p)) (find_sorted ti q s))"
    unfolding find_sorted_def by (rule sorted_sort_key)
  then show ?thesis
    by (simp add: sorted_map case_prod_beta)
qed

lemma get_posts_page:
  assumes "0 < limit" "1 \<le> page"
  shows "get_posts ti page limit f s =
           Inr (map project (take (nat limit) (drop (nat (page - 1) * nat limit) (find_sorted ti (build_query f) s))),
                \<lparr>current = page, pages = js_ceil_div (int (length (matching ti (build_query f) s))) limit,
                 total = int (length (matching ti (build_query f) s)),
                 hasNext = page < js_ceil_div (int (length (matching ti (build_query f) s))) limit,
                 hasPrev = 1 < page\<rparr>)"
proof -
  have h: "\<not> (page - 1) * limit < 0"
    using assms mult_nonneg_nonneg[of "page - 1" limit] by linarith
  show ?thesis
    unfolding get_posts_def Let_def if_not_P[OF h]
    using assms by (simp add: limit_docs_def nat_mult_distrib)
qed

lemma get_posts_BadSkip: "get_posts ti page limit f s = Inl e \<longleftrightarrow> (page - 1) * limit < 0"
  by (cases e) (simp add: get_posts_def Let_def)

lemma matches_build_query:
  "matches ti (build_query f) p \<longleftrightarrow>
     published p \<and>
     (str_truthy (f_category f) \<longrightarrow> f_category f = Some (category p)) \<and>
     (\<forall>t. str_truthy (f_search f) \<longrightarrow> f_search f = Some t \<longrightarrow> ti t p) \<and>
     (\<forall>ts. f_tags f = Some ts \<longrightarrow> ts \<noteq> [] \<longrightarrow> (\<exists>t\<in>set ts. t \<in> set (tags p)))"
  by (auto simp: matches_def build_query_def str_truthy_def list_ex_iff split: option.splits)

lemma find_sorted_member:
  "(i, p) \<in> set (find_sorted ti q s) \<longleftrightarrow> posts s i = Some p \<and> i < next_id s \<and> matches ti q p"
  by (auto simp: set_find_sorted matching_def set_documents)

lemma get_posts_items:
  assumes "get_posts ti page limit f s = Inr (items, pg)"
  shows "set items \<subseteq> project ` set (find_sorted ti (build_query f) s)"
proof -
  from assms obtain skip where
    "items = map project (limit_docs limit (drop skip (find_sorted ti (build_query f) s)))"
    by (auto simp: get_posts_def Let_def split: if_splits)
  then show ?thesis by (auto simp: limit_docs_def dest: in_set_takeD in_set_dropD)
qed

text \<open>C2: Every item of a successful listing is a stored document, shown without its content, that is published and satisfies every filter the request carries: the category when one is given, the text search when one is given, and at least one of the requested tags when any are given.\<close>

theorem get_posts_items_sound:
  assumes "get_posts ti page limit f s = Inr (items, pg)"
  shows "\<forall>(i, sm)\<in>set items. \<exists>p. posts s i = Some p \<and> sm = summary.truncate p \<and>
           published p \<and>
           (str_truthy (f_category f) \<longrightarrow> f_category f = Some (category p)) \<and>
           (\<forall>t. str_truthy (f_search f) \<longrightarrow> f_search f = Some t \<longrightarrow> ti t p) \<and>
           (\<forall>ts. f_tags f = Some ts \<longrightarrow> ts \<noteq> [] \<longrightarrow> (\<exists>t\<in>set ts. t \<in> set (tags p)))"
proof -
  have "set items \<subseteq> project ` set (find_sorted ti (build_query f) s)"
    using assms by (rule get_posts_items)
  then have "\<forall>(i, sm)\<in>set items. \<exists>p. posts s i = Some p \<and> sm = summary.truncate p \<and>
               matches ti (build_query f) p"
    by (fastforce simp: find_sorted_member project_def)
  then show ?thesis unfolding matches_build_query by blast
qed

text \<open>C1: For a positive page size and a page from 1, the listing's \<open>pages\<close> is the ceiling of \<open>total / limit\<close> (the least count of pages that holds every match); the last page has no next page; the first page of a listing with several pages has a next and no previous page.\<close>

theorem get_posts_pagination:
  assumes "0 < limit" "1 \<le> page" "get_posts ti page limit f s = Inr (items, pg)"
  shows "total pg \<le> pages pg * limit \<and> (pages pg - 1) * limit < total pg \<and>
         (page = pages pg \<longrightarrow> \<not> hasNext pg) \<and>
         (page = 1 \<and> 1 < pages pg \<longrightarrow> \<not> hasPrev pg \<and> hasNext pg)"
  using assms get_posts_page[OF assms(1,2)] js_ceil_div_bounds[OF assms(1)] by auto

text \<open>C3: Paging is a refinement of the sorted match list: for a positive page size the items of pages 1 to \<open>n\<close>, concatenated, are the first \<open>n * limit\<close> matches in \<open>updatedAt\<close>-descending order, so reading the pages in order never repeats or skips a match of an unchanged collection.\<close>

theorem get_posts_all_pages:
  assumes "0 < limit"
  shows "concat (map (\<lambda>k. fst (projr (get_posts ti (int k) limit f s))) [1..<Suc n]) =
         map project (take (n * nat limit) (find_sorted ti (build_query f) s))"
proof -
  let ?fs = "find_sorted ti (build_query f) s" and ?L = "nat limit"
  have up: "[1..<Suc n] = map Suc [0..<n]" by (simp add: map_Suc_upt)
  have "\<forall>k\<in>set [0..<n]. fst (projr (get_posts ti (int (Suc k)) limit f s)) =
          map project (take ?L (drop (k * ?L) ?fs))"
    using assms by (simp add: get_posts_page)
  then have "map (\<lambda>k. fst (projr (get_posts ti (int k) limit f s))) [1..<Suc n] =
        map (\<lambda>k. map project (take ?L (drop (k * ?L) ?fs))) [0..<n]"
    unfolding up by simp
  also have "concat \<dots> = map project (concat (map (\<lambda>k. take ?L (drop (k * ?L) ?fs)) [0..<n]))"
    by (simp add: map_concat comp_def)
  finally show ?thesis by (simp add: take_drop_concat_pages)
qed

lemma hd_sort_key_min:
  assumes "x \<in> set xs" "\<forall>y\<in>set xs. y \<noteq> x \<longrightarrow> f x < f y"
  shows "hd (sort_key f xs) = x"
proof (cases "sort_key f xs")
  case Nil
  then show ?thesis using assms(1) by (metis empty_iff set_sort list.set(1))
next
  case (Cons y ys)
  have "sorted (map f (y # ys))" using Cons by (metis sorted_sort_key)
  then have le: "\<forall>z\<in>set ys. f y \<le> f z" by simp
  have sy: "set (y # ys) = set xs" using Cons by (metis set_sort)
  show ?thesis
  proof (rule ccontr)
    assume "hd (sort_key f xs) \<noteq> x"
    then have "y \<noteq> x" using Cons by simp
    then have "x \<in> set ys" "f x < f y" using assms sy by auto
    then show False using le by fastforce
  qed
qed

text \<open>C24: A page beyond the last one (for a positive page size) is empty, has no next page, has a previous page exactly when it is not page 1, and still reports the full match count and the page count of the listing.\<close>

theorem get_posts_beyond_last:
  assumes "0 < limit" "1 \<le> page" "get_posts ti page limit f s = Inr (items, pg)" "pages pg < page"
  shows "items = [] \<and> \<not> hasNext pg \<and> hasPrev pg = (1 < page) \<and>
         total pg = int (length (matching ti (build_query f) s)) \<and> pages pg = js_ceil_div (total pg) limit"
proof -
  let ?n = "int (length (matching ti (build_query f) s))"
  have e: "items = map project (take (nat limit) (drop (nat (page - 1) * nat limit) (find_sorted ti (build_query f) s)))"
    and p: "pg = \<lparr>current = page, pages = js_ceil_div ?n limit, total = ?n,
                 hasNext = page < js_ceil_div ?n limit, hasPrev = 1 < page\<rparr>"
    using assms(3) get_posts_page[OF assms(1,2)] by auto
  have "?n \<le> js_ceil_div ?n limit * limit" using js_ceil_div_bounds(1)[OF assms(1)] .
  also have "\<dots> \<le> (page - 1) * limit" using assms(1,4) p by (simp add: mult_right_mono)
  finally have "?n \<le> (page - 1) * limit" .
  moreover have "int (nat (page - 1) * nat limit) = (page - 1) * limit" using assms(1,2) by simp
  ultimately have "length (find_sorted ti (build_query f) s) \<le> nat (page - 1) * nat limit"
    unfolding length_find_sorted by linarith
  then have "items = []" unfolding e by simp
  then show ?thesis using assms(4) p by simp
qed

text \<open>A listing with no match (for a positive page size) is empty, reports a total of 0 and 0 pages (the implementation's choice the specification leaves open), and has no next page.\<close>

lemma get_posts_no_match:
  assumes "0 < limit" "1 \<le> page" "get_posts ti page limit f s = Inr (items, pg)"
    and "matching ti (build_query f) s = []"
  shows "items = [] \<and> total pg = 0 \<and> pages pg = 0 \<and> \<not> hasNext pg"
proof -
  have "find_sorted ti (build_query f) s = []" using assms(4) by (simp add: find_sorted_def)
  then show ?thesis using assms(2,3,4) get_posts_page[OF assms(1,2), of ti f s] by (auto simp: js_ceil_div_def)
qed

end
