(* ===== verification/Auth.thy ===== *)
theory Auth
  imports Post
begin

text \<open>
  The identity side of the server: the \<open>auth\<close> and \<open>adminAuth\<close> middleware of
  src/server/middleware/auth.js, and the ownership test the update and delete routes
  of src/server/routes/posts.js repeat (lines 91 and 126). The user document comes
  from src/server/models/User.js, which is not among the repository's sources; its
  shape (a name, a role among user, moderator and admin, an active flag) is taken
  from the specification. Token verification (\<open>jwt.verify\<close> of the jsonwebtoken
  library with the server's secret) is a parameter: a function from the token to
  the decoded user id, an expiry or an invalid-token failure. Casting the decoded id
  to an ObjectId (Mongoose's \<open>findById\<close>) is a parameter too; a failed cast throws
  inside the middleware and ends in its 500 branch.
\<close>

datatype role = User | Moderator | Admin

record user =
  name :: string
  role :: role
  isActive :: bool

datatype jwt_result = JwtValid string | JwtExpired | JwtInvalid

type_synonym jwt_verifier = "string \<Rightarrow> jwt_result"

datatype auth_error = NoToken | TokenExpired | InvalidToken | UserNotFoundOrInactive
  | AuthServerError | AccessDenied

text \<open>\<open>String.prototype.replace\<close> with a string pattern: the first occurrence only.\<close>

fun replace_first :: "string \<Rightarrow> string \<Rightarrow> string \<Rightarrow> string" where
  "replace_first pat rep [] = (if pat = [] then rep else [])"
| "replace_first pat rep (c # cs) =
     (if take (length pat) (c # cs) = pat then rep @ drop (length pat) (c # cs)
      else c # replace_first pat rep cs)"

text \<open>
  \<open>auth\<close> (auth.js, lines 4-33): the token is the \<open>Authorization\<close> header with the
  first \<open>'Bearer '\<close> removed; an absent or empty token, a failed verification, and a
  missing or inactive user are 401 answers; a throw is the 500 answer.
\<close>

definition auth ::
  "jwt_verifier \<Rightarrow> (string \<Rightarrow> user_id option) \<Rightarrow> (user_id \<rightharpoonup> user) \<Rightarrow> string option \<Rightarrow> auth_error + user" where
  "auth verify cast users header =
     (case map_option (replace_first ''Bearer '' []) header of
        None \<Rightarrow> Inl NoToken
      | Some token \<Rightarrow>
          if token = [] then Inl NoToken
          else (case verify token of
                  JwtExpired \<Rightarrow> Inl TokenExpired
                | JwtInvalid \<Rightarrow> Inl InvalidToken
                | JwtValid uid \<Rightarrow>
                    (case cast uid of
                       None \<Rightarrow> Inl AuthServerError
                     | Some i \<Rightarrow>
                         (case users i of
                            None \<Rightarrow> Inl UserNotFoundOrInactive
                          | Some u \<Rightarrow> if isActive u then Inr u else Inl UserNotFoundOrInactive))))"

text \<open>\<open>adminAuth\<close> (auth.js, lines 35-47): \<open>auth\<close>, then a role check.\<close>

definition adminAuth ::
  "jwt_verifier \<Rightarrow> (string \<Rightarrow> user_id option) \<Rightarrow> (user_id \<rightharpoonup> user) \<Rightarrow> string option \<Rightarrow> auth_error + user" where
  "adminAuth verify cast users header =
     (case auth verify cast users header of
        Inl e \<Rightarrow> Inl e
      | Inr u \<Rightarrow> if role u = Admin \<or> role u = Moderator then Inr u else Inl AccessDenied)"

text \<open>
  The guard of the update and delete routes, as written:
  \<open>post.author !== req.user.name && req.user.role !== 'admin' && req.user.role !== 'moderator'\<close>.
\<close>

definition forbidden :: "user \<Rightarrow> post \<Rightarrow> bool" where
  "forbidden u p \<longleftrightarrow> author p \<noteq> name u \<and> role u \<noteq> Admin \<and> role u \<noteq> Moderator"

text \<open>The specification's policy \<open>canMutate(identity, post)\<close> (section 4.3).\<close>

definition canMutate :: "user \<Rightarrow> post \<Rightarrow> bool" where
  "canMutate u p \<longleftrightarrow> name u = author p \<or> role u \<in> {Admin, Moderator}"

section \<open>Lemmas\<close>

lemma replace_first_Bearer: "replace_first ''Bearer '' [] (''Bearer '' @ t) = t"
  by simp

lemma auth_Inr:
  "auth verify cast users header = Inr u \<Longrightarrow>
     \<exists>h uid i. header = Some h \<and> verify (replace_first ''Bearer '' [] h) = JwtValid uid \<and>
       cast uid = Some i \<and> users i = Some u \<and> isActive u"
  by (auto simp: auth_def split: option.splits if_splits jwt_result.splits)

lemma adminAuth_role: "adminAuth verify cast users header = Inr u \<Longrightarrow> role u \<in> {Admin, Moderator}"
  by (auto simp: adminAuth_def split: sum.splits if_splits)

lemma forbidden_iff_not_canMutate: "forbidden u p \<longleftrightarrow> \<not> canMutate u p"
  by (auto simp: forbidden_def canMutate_def)

end
