(* ===== verification/Routes.thy ===== *)
theory Routes
  imports Query Auth
begin

text \<open>
  The Express router of src/server/routes/posts.js, one handler per route. A handler
  takes the environment (the token verifier, the users collection, the ObjectId cast
  and the text index, none of which the post routes change), the time of the request,
  the posts collection and the request's parameters, and returns the new collection
  with the response. Every \<open>return res.status(...)\<close> is a branch, and every throw
  inside the handler's \<open>try\<close> (a failed cast of the id, a validation error of
  \<open>save()\<close>, MongoDB's refusal of a negative skip) is the \<open>catch\<close> branch's 500
  answer. A handler awaits its store calls one after another and the model runs a
  request as one step: interleavings of requests are runs of \<open>handle\<close> over lists.
\<close>

record env =
  verify :: jwt_verifier
  users :: "user_id \<rightharpoonup> user"
  cast_id :: "string \<Rightarrow> post_id option"
  text_idx :: text_index

text \<open>The body fields the create and update routes destructure (lines 55 and 83).\<close>

record create_body =
  cb_title :: "string option"
  cb_content :: "string option"
  cb_category :: "string option"
  cb_tags :: "string list option"
  cb_featured :: "bool option"
  cb_imageUrl :: "string option"

record update_body =
  ub_title :: "string option"
  ub_content :: "string option"
  ub_category :: "string option"
  ub_tags :: "string list option"
  ub_featured :: "bool option"
  ub_imageUrl :: "string option"
  ub_published :: "bool option"

text \<open>
  Query-string numbers arrive as the result of \<open>parseInt\<close>: \<open>None\<close> for
  \<open>NaN\<close> (an absent or non-numeric parameter). The raw \<open>tags\<close> parameter is a
  string split at commas.
\<close>

datatype request =
    ListPosts "int option" "int option" "string option" "string option" "string option"
  | GetPost string
  | CreatePost "string option" create_body
  | UpdatePost "string option" string update_body
  | DeletePost "string option" string
  | LikePost "string option" string
  | FeaturedPosts
  | PostsByCategory string "int option" "int option"
  | SearchPosts string "int option" "int option"

datatype response =
    ListOk "list_item list" pagination
  | PostOk post_id post
  | Created post_id post
  | Deleted
  | Liked int
  | FeaturedOk "list_item list"
  | Unauthorized auth_error
  | Forbidden
  | NotFound
  | ServerError

fun status :: "response \<Rightarrow> nat" where
  "status (Created _ _) = 201"
| "status (Unauthorized e) = (if e = AuthServerError then 500 else 401)"
| "status Forbidden = 403"
| "status NotFound = 404"
| "status ServerError = 500"
| "status _ = 200"

text \<open>\<open>String.prototype.split(',')\<close>.\<close>

fun split_comma :: "string \<Rightarrow> string list" where
  "split_comma [] = [[]]"
| "split_comma (c # cs) =
     (if c = CHR '','' then [] # split_comma cs
      else (case split_comma cs of [] \<Rightarrow> [[c]] | w # ws \<Rightarrow> (c # w) # ws))"

definition authenticate :: "env \<Rightarrow> string option \<Rightarrow> auth_error + user" where
  "authenticate e header = auth (verify e) (cast_id e) (users e) header"

section \<open>Handlers\<close>

text \<open>\<open>GET /\<close> (lines 8-27), \<open>GET /category/:category\<close> (lines 183-200) and
  \<open>GET /search/:query\<close> (lines 203-220) all answer with \<open>getPosts\<close>.\<close>

definition list_response :: "env \<Rightarrow> store \<Rightarrow> int option \<Rightarrow> int option \<Rightarrow> filters \<Rightarrow> response" where
  "list_response e s page limit f =
     (case get_posts (text_idx e) (int_or page 1) (int_or limit 10) f s of
        Inl _ \<Rightarrow> ServerError
      | Inr (ps, pg) \<Rightarrow> ListOk ps pg)"

definition list_posts ::
  "env \<Rightarrow> store \<Rightarrow> int option \<Rightarrow> int option \<Rightarrow> string option \<Rightarrow> string option \<Rightarrow> string option \<Rightarrow> response" where
  "list_posts e s page limit cat search tagq =
     list_response e s page limit
       \<lparr>f_category = cat, f_search = search,
        f_tags = Some (if str_truthy tagq then split_comma (str_or tagq []) else [])\<rparr>"

definition posts_by_category :: "env \<Rightarrow> store \<Rightarrow> string \<Rightarrow> int option \<Rightarrow> int option \<Rightarrow> response" where
  "posts_by_category e s cat page limit =
     list_response e s page limit \<lparr>f_category = Some cat, f_search = None, f_tags = None\<rparr>"

definition search_posts :: "env \<Rightarrow> store \<Rightarrow> string \<Rightarrow> int option \<Rightarrow> int option \<Rightarrow> response" where
  "search_posts e s q page limit =
     list_response e s page limit \<lparr>f_category = None, f_search = Some q, f_tags = None\<rparr>"

text \<open>\<open>GET /:id\<close> (lines 30-50): find, increment \<open>views\<close>, save, answer.\<close>

definition get_post :: "env \<Rightarrow> time \<Rightarrow> store \<Rightarrow> string \<Rightarrow> store \<times> response" where
  "get_post e now s idstr =
     (case cast_id e idstr of
        None \<Rightarrow> (s, ServerError)
      | Some i \<Rightarrow>
          (case posts s i of
             None \<Rightarrow> (s, NotFound)
           | Some p \<Rightarrow>
               (case save_document now (Some p) (p\<lparr>views := views p + 1\<rparr>) of
                  Inl _ \<Rightarrow> (s, ServerError)
                | Inr q \<Rightarrow> (replace_doc i q s, PostOk i q))))"

text \<open>\<open>POST /\<close> (lines 53-78), behind \<open>auth\<close>.\<close>

definition create_input :: "user \<Rightarrow> create_body \<Rightarrow> post_input" where
  "create_input u b =
     \<lparr>in_title = cb_title b, in_content = cb_content b,
      in_category = str_or (cb_category b) ''general'',
      in_tags = (case cb_tags b of None \<Rightarrow> [] | Some ts \<Rightarrow> ts),
      in_featured = bool_or (cb_featured b) False,
      in_imageUrl = str_or (cb_imageUrl b) [], in_author = name u\<rparr>"

definition create_post :: "env \<Rightarrow> time \<Rightarrow> store \<Rightarrow> string option \<Rightarrow> create_body \<Rightarrow> store \<times> response" where
  "create_post e now s header b =
     (case authenticate e header of
        Inl err \<Rightarrow> (s, Unauthorized err)
      | Inr u \<Rightarrow>
          (case save_document now None (new_document (create_input u b)) of
             Inl _ \<Rightarrow> (s, ServerError)
           | Inr p \<Rightarrow> (let (i, s') = insert_doc p s in (s', Created i p))))"

text \<open>The field assignments of \<open>PUT /:id\<close> (lines 96-102), with the \<open>trim\<close> setters.\<close>

definition apply_update :: "update_body \<Rightarrow> post \<Rightarrow> post" where
  "apply_update b p =
     (let p1 = (if str_truthy (ub_title b) then p\<lparr>title := js_trim (str_or (ub_title b) [])\<rparr> else p);
          p2 = (if str_truthy (ub_content b) then p1\<lparr>content := str_or (ub_content b) []\<rparr> else p1);
          p3 = (if str_truthy (ub_category b) then p2\<lparr>category := str_or (ub_category b) []\<rparr> else p2);
          p4 = (case ub_tags b of None \<Rightarrow> p3 | Some ts \<Rightarrow> p3\<lparr>tags := map js_trim ts\<rparr>);
          p5 = (case ub_featured b of None \<Rightarrow> p4 | Some v \<Rightarrow> p4\<lparr>featured := v\<rparr>);
          p6 = (case ub_imageUrl b of None \<Rightarrow> p5 | Some v \<Rightarrow> p5\<lparr>imageUrl := v\<rparr>)
      in (case ub_published b of None \<Rightarrow> p6 | Some v \<Rightarrow> p6\<lparr>published := v\<rparr>))"

text \<open>\<open>PUT /:id\<close> (lines 81-116), behind \<open>auth\<close>.\<close>

definition update_post ::
  "env \<Rightarrow> time \<Rightarrow> store \<Rightarrow> string option \<Rightarrow> string \<Rightarrow> update_body \<Rightarrow> store \<times> response" where
  "update_post e now s header idstr b =
     (case authenticate e header of
        Inl err \<Rightarrow> (s, Unauthorized err)
      | Inr u \<Rightarrow>
          (case cast_id e idstr of
             None \<Rightarrow> (s, ServerError)
           | Some i \<Rightarrow>
               (case posts s i of
                  None \<Rightarrow> (s, NotFound)
                | Some p \<Rightarrow>
                    if forbidden u p then (s, Forbidden)
                    else (case save_document now (Some p) (apply_update b p) of
                            Inl _ \<Rightarrow> (s, ServerError)
                          | Inr q \<Rightarrow> (replace_doc i q s, PostOk i q)))))"

text \<open>\<open>DELETE /:id\<close> (lines 118-140), behind \<open>auth\<close>.\<close>

definition delete_post :: "env \<Rightarrow> store \<Rightarrow> string option \<Rightarrow> string \<Rightarrow> store \<times> response" where
  "delete_post e s header idstr =
     (case authenticate e header of
        Inl err \<Rightarrow> (s, Unauthorized err)
      | Inr u \<Rightarrow>
          (case cast_id e idstr of
             None \<Rightarrow> (s, ServerError)
           | Some i \<Rightarrow>
               (case posts s i of
                  None \<Rightarrow> (s, NotFound)
                | Some p \<Rightarrow> if forbidden u p then (s, Forbidden) else (delete_doc i s, Deleted))))"

text \<open>\<open>POST /:id/like\<close> (lines 143-162), behind \<open>auth\<close>: no check of who likes.\<close>

definition like_post :: "env \<Rightarrow> time \<Rightarrow> store \<Rightarrow> string option \<Rightarrow> string \<Rightarrow> store \<times> response" where
  "like_post e now s header idstr =
     (case authenticate e header of
        Inl err \<Rightarrow> (s, Unauthorized err)
      | Inr u \<Rightarrow>
          (case cast_id e idstr of
             None \<Rightarrow> (s, ServerError)
           | Some i \<Rightarrow>
               (case posts s i of
                  None \<Rightarrow> (s, NotFound)
                | Some p \<Rightarrow>
                    (case save_document now (Some p) (p\<lparr>likes := likes p + 1\<rparr>) of
                       Inl _ \<Rightarrow> (s, ServerError)
                     | Inr q \<Rightarrow> (replace_doc i q s, Liked (likes q))))))"

text \<open>The empty update body: every field absent.\<close>

definition no_update :: update_body where
  "no_update = \<lparr>ub_title = None, ub_content = None, ub_category = None, ub_tags = None,
                ub_featured = None, ub_imageUrl = None, ub_published = None\<rparr>"

section \<open>The server as a step function\<close>

fun handle :: "env \<Rightarrow> time \<Rightarrow> store \<Rightarrow> request \<Rightarrow> store \<times> response" where
  "handle e now s (ListPosts page limit cat search tagq) = (s, list_posts e s page limit cat search tagq)"
| "handle e now s (GetPost idstr) = get_post e now s idstr"
| "handle e now s (CreatePost h b) = create_post e now s h b"
| "handle e now s (UpdatePost h idstr b) = update_post e now s h idstr b"
| "handle e now s (DeletePost h idstr) = delete_post e s h idstr"
| "handle e now s (LikePost h idstr) = like_post e now s h idstr"
| "handle e now s FeaturedPosts = (s, FeaturedOk (featured_list (text_idx e) s))"
| "handle e now s (PostsByCategory cat page limit) = (s, posts_by_category e s cat page limit)"
| "handle e now s (SearchPosts q page limit) = (s, search_posts e s q page limit)"

text \<open>A run: requests served one after another, each at its time.\<close>

fun run :: "env \<Rightarrow> store \<Rightarrow> (time \<times> request) list \<Rightarrow> store \<times> response list" where
  "run e s [] = (s, [])"
| "run e s ((t, r) # rs) =
     (let (s1, a) = handle e t s r; (s2, as) = run e s1 rs in (s2, a # as))"

section \<open>Lemmas\<close>

lemma run_Cons_fst: "fst (run e s ((t, r) # rs)) = fst (run e (fst (handle e t s r)) rs)"
  by (simp add: split_def Let_def)

lemma run_Cons_snd: "snd (run e s ((t, r) # rs)) = snd (handle e t s r) # snd (run e (fst (handle e t s r)) rs)"
  by (simp add: split_def Let_def)

declare run.simps(2) [simp del]

lemma get_post_found:
  assumes "cast_id e idstr = Some i" "posts s i = Some p" "validate_post p = []"
  shows "get_post e now s idstr =
           (replace_doc i (p\<lparr>views := views p + 1, updatedAt := now\<rparr>) s,
            PostOk i (p\<lparr>views := views p + 1, updatedAt := now\<rparr>))"
  using assms by (simp add: get_post_def save_document_same_content)

lemma get_post_invalid:
  assumes "cast_id e idstr = Some i" "posts s i = Some p" "validate_post p \<noteq> []"
  shows "get_post e now s idstr = (s, ServerError)"
  using assms by (simp add: get_post_def save_document_same_content)

lemma authenticated_handlers:
  assumes "authenticate e h = Inr u" "cast_id e idstr = Some i"
  shows "update_post e now s h idstr b =
           (case posts s i of None \<Rightarrow> (s, NotFound)
            | Some p \<Rightarrow> if forbidden u p then (s, Forbidden)
                else (case save_document now (Some p) (apply_update b p) of
                        Inl _ \<Rightarrow> (s, ServerError) | Inr q \<Rightarrow> (replace_doc i q s, PostOk i q)))"
    and "delete_post e s h idstr =
           (case posts s i of None \<Rightarrow> (s, NotFound)
            | Some p \<Rightarrow> if forbidden u p then (s, Forbidden) else (delete_doc i s, Deleted))"
    and "like_post e now s h idstr =
           (case posts s i of None \<Rightarrow> (s, NotFound)
            | Some p \<Rightarrow> (case save_document now (Some p) (p\<lparr>likes := likes p + 1\<rparr>) of
                           Inl _ \<Rightarrow> (s, ServerError) | Inr q \<Rightarrow> (replace_doc i q s, Liked (likes q))))"
  using assms by (simp_all add: update_post_def delete_post_def like_post_def)

lemma apply_update_featured: "apply_update (no_update\<lparr>ub_featured := Some v\<rparr>) p = p\<lparr>featured := v\<rparr>"
  by (simp add: apply_update_def no_update_def str_truthy_def)

lemma apply_update_counters [simp]:
  "views (apply_update b p) = views p" "likes (apply_update b p) = likes p"
  by (simp_all add: apply_update_def Let_def split: option.splits)

lemma stored_counters_nonneg: "wf_store s \<Longrightarrow> posts s i = Some p \<Longrightarrow> 0 \<le> views p \<and> 0 \<le> likes p"
  by (auto dest: wf_store_lookup simp: post_inv_def)

lemma wf_save_replace:
  assumes "wf_store s" "posts s i = Some p" "save_document now (Some p) p' = Inr q"
    and "0 \<le> views p'" "0 \<le> likes p'"
  shows "wf_store (replace_doc i q s)"
  using assms save_document_post_inv wf_replace_doc by blast

lemma handle_wf:
  assumes wf: "wf_store s"
  shows "wf_store (fst (handle e now s r))"
proof (cases r)
  case (GetPost idstr)
  { fix i p q assume "posts s i = Some p" "save_document now (Some p) (p\<lparr>views := views p + 1\<rparr>) = Inr q"
    then have "wf_store (replace_doc i q s)"
      using wf stored_counters_nonneg[OF wf] by (intro wf_save_replace[of s i p]) auto }
  then show ?thesis using GetPost wf by (auto simp: get_post_def split: option.splits sum.splits)
next
  case (CreatePost h b)
  { fix u p assume "save_document now None (new_document (create_input u b)) = Inr p"
    then have "post_inv p" by (rule save_document_post_inv) (simp_all add: new_document_def)
    then have "wf_store (snd (insert_doc p s))" using wf by (rule wf_insert_doc[rotated]) }
  then show ?thesis using CreatePost wf by (auto simp: create_post_def split_def Let_def split: sum.splits)
next
  case (UpdatePost h idstr b)
  { fix i p q assume "posts s i = Some p" "save_document now (Some p) (apply_update b p) = Inr q"
    then have "wf_store (replace_doc i q s)"
      using wf stored_counters_nonneg[OF wf] by (intro wf_save_replace[of s i p]) auto }
  then show ?thesis using UpdatePost wf by (auto simp: update_post_def split: option.splits sum.splits)
next
  case (DeletePost h idstr)
  then show ?thesis using wf
    by (auto simp: delete_post_def intro!: wf_delete_doc split: option.splits sum.splits)
next
  case (LikePost h idstr)
  { fix i p q assume "posts s i = Some p" "save_document now (Some p) (p\<lparr>likes := likes p + 1\<rparr>) = Inr q"
    then have "wf_store (replace_doc i q s)"
      using wf stored_counters_nonneg[OF wf] by (intro wf_save_replace[of s i p]) auto }
  then show ?thesis using LikePost wf by (auto simp: like_post_def split: option.splits sum.splits)
qed (simp_all add: wf)


lemma create_post_Created:
  assumes "authenticate e h = Inr u" "create_post e now s h b = (s', Created i p)"
  shows "s' = snd (insert_doc p s) \<and> i = next_id s \<and> posts s' i = Some p \<and>
         validate_post (new_document (create_input u b)) = [] \<and>
         p = (new_document (create_input u b))\<lparr>createdAt := now, updatedAt := now,
               excerpt := make_excerpt (content (new_document (create_input u b)))\<rparr>"
  using assms
  by (auto simp: create_post_def save_document_def Let_def excerpt_hook_def new_document_def
      insert_doc_def split: sum.splits if_splits)

section \<open>Properties of the handlers\<close>

text \<open>C4: Each fetch of an existing post through \<open>GET /:id\<close> whose document passes validation adds exactly one to its stored \<open>views\<close>: after a run of \<open>n\<close> fetches the counter has grown by \<open>n\<close>.\<close>

theorem get_post_repeated:
  assumes "cast_id e idstr = Some i" "posts s i = Some p" "validate_post p = []"
  shows "\<exists>q. posts (fst (run e s (map (\<lambda>t. (t, GetPost idstr)) ts))) i = Some q \<and>
             views q = views p + int (length ts) \<and> validate_post q = []"
  using assms(2,3)
proof (induction ts arbitrary: s p)
  case Nil
  then show ?case by simp
next
  case (Cons t ts)
  let ?p' = "p\<lparr>views := views p + 1, updatedAt := t\<rparr>"
  have step: "handle e t s (GetPost idstr) = (replace_doc i ?p' s, PostOk i ?p')"
    using get_post_found[OF assms(1) Cons.prems] by simp
  have "posts (replace_doc i ?p' s) i = Some ?p'" by (simp add: replace_doc_def)
  moreover have "validate_post ?p' = []" using Cons.prems(2) by simp
  ultimately obtain q where "posts (fst (run e (replace_doc i ?p' s) (map (\<lambda>t. (t, GetPost idstr)) ts))) i = Some q"
      "views q = views ?p' + int (length ts)" "validate_post q = []"
    using Cons.IH by blast
  then show ?case using step by (auto simp: run_Cons_fst)
qed

text \<open>C5: For an authenticated caller and a well-formed identifier that names no document, fetching, updating, deleting and liking all answer 404 and leave the collection unchanged.\<close>

theorem missing_post_not_found:
  assumes "authenticate e h = Inr u" "cast_id e idstr = Some i" "posts s i = None"
  shows "get_post e now s idstr = (s, NotFound) \<and> update_post e now s h idstr b = (s, NotFound) \<and>
         delete_post e s h idstr = (s, NotFound) \<and> like_post e now s h idstr = (s, NotFound)"
  using assms by (simp add: authenticated_handlers get_post_def)

text \<open>C6: For an authenticated caller and an existing post, \<open>DELETE /:id\<close> deletes the post exactly when the specification's policy \<open>canMutate\<close> allows it (author name equal, or role admin or moderator), and answers 403 otherwise.\<close>

theorem delete_post_policy:
  assumes "authenticate e h = Inr u" "cast_id e idstr = Some i" "posts s i = Some p"
  shows "delete_post e s h idstr = (if canMutate u p then (delete_doc i s, Deleted) else (s, Forbidden))"
  using assms by (simp add: authenticated_handlers forbidden_iff_not_canMutate)

text \<open>C7: For an authenticated caller and an existing post, \<open>PUT /:id\<close> answers 403 and changes nothing exactly when \<open>canMutate\<close> denies the caller.\<close>

theorem update_post_policy:
  assumes "authenticate e h = Inr u" "cast_id e idstr = Some i" "posts s i = Some p"
  shows "(update_post e now s h idstr b = (s, Forbidden)) \<longleftrightarrow> \<not> canMutate u p"
  using assms by (auto simp: authenticated_handlers forbidden_iff_not_canMutate split: sum.splits)

text \<open>C8: An authorised update whose body carries only \<open>featured: true\<close> succeeds on a valid post, sets \<open>featured\<close> and leaves title, content, category and tags unchanged.\<close>

theorem update_featured_only:
  assumes "authenticate e h = Inr u" "cast_id e idstr = Some i" "posts s i = Some p"
    and "canMutate u p" "validate_post p = []"
  shows "\<exists>q. update_post e now s h idstr (no_update\<lparr>ub_featured := Some True\<rparr>) = (replace_doc i q s, PostOk i q) \<and>
             featured q \<and> title q = title p \<and> content q = content p \<and> category q = category p \<and>
             tags q = tags p"
proof -
  have v: "validate_post (p\<lparr>featured := True\<rparr>) = []" using assms(5) by (simp add: validate_post_def)
  show ?thesis using assms v
    by (simp add: authenticated_handlers forbidden_iff_not_canMutate apply_update_featured
        save_document_same_content)
qed

text \<open>C9: Every run of requests from a well-formed collection ends in a well-formed collection: identifiers stay allocated, counters stay non-negative, stored documents keep a valid title, content, author and category, and excerpts stay within 303 characters.\<close>

theorem run_preserves_wf: "wf_store s \<Longrightarrow> wf_store (fst (run e s rs))"
proof (induction rs arbitrary: s)
  case Nil
  then show ?case by simp
next
  case (Cons a rs)
  obtain t r where "a = (t, r)" by (cases a)
  then show ?case using Cons handle_wf by (simp add: run_Cons_fst)
qed

text \<open>C27: Viewing a post moves it to the top of every listing it matches: the view is saved with a new \<open>updatedAt\<close>, and listings sort by \<open>updatedAt\<close> descending (the specification names edits as the only cause of resurfacing).\<close>

theorem view_resurfaces:
  assumes "wf_store s" "cast_id e idstr = Some i" "posts s i = Some p" "validate_post p = []"
    and "\<forall>j q. posts s j = Some q \<longrightarrow> updatedAt q < now"
    and "matches ti qy (p\<lparr>views := views p + 1, updatedAt := now\<rparr>)"
  shows "hd (find_sorted ti qy (fst (get_post e now s idstr))) = (i, p\<lparr>views := views p + 1, updatedAt := now\<rparr>)"
proof -
  let ?p' = "p\<lparr>views := views p + 1, updatedAt := now\<rparr>"
  let ?s' = "replace_doc i ?p' s"
  have g: "fst (get_post e now s idstr) = ?s'" using get_post_found[OF assms(2,3,4)] by simp
  have i: "i < next_id s" using assms(1,3) by (auto simp: wf_store_def)
  have mem: "(i, ?p') \<in> set (matching ti qy ?s')"
    using i assms(6) by (simp add: matching_def set_documents replace_doc_def)
  have "\<forall>y\<in>set (matching ti qy ?s'). y \<noteq> (i, ?p') \<longrightarrow>
          (\<lambda>(i, p). - int (updatedAt p)) (i, ?p') < (\<lambda>(i, p). - int (updatedAt p)) y"
    using assms(5) by (auto simp: matching_def set_documents replace_doc_def split: if_splits)
  then show ?thesis unfolding g find_sorted_def using mem by (rule hd_sort_key_min[rotated])
qed

text \<open>C28: An identifier that is not a valid ObjectId makes every route that takes one answer 500 and change nothing, where the specification asks for NotFound.\<close>

theorem malformed_id_server_error:
  assumes "authenticate e h = Inr u" "cast_id e idstr = None"
  shows "get_post e now s idstr = (s, ServerError) \<and> update_post e now s h idstr b = (s, ServerError) \<and>
         delete_post e s h idstr = (s, ServerError) \<and> like_post e now s h idstr = (s, ServerError)"
  using assms by (simp add: get_post_def update_post_def delete_post_def like_post_def)

text \<open>C29: Creating a post whose content has fewer than 10 characters answers 500 and stores nothing, where the specification asks for a ValidationError naming the field.\<close>

theorem create_short_content_server_error:
  assumes "authenticate e h = Inr u" "cb_content b = Some c" "length c < 10"
  shows "create_post e now s h b = (s, ServerError)"
proof -
  have "validate_post (new_document (create_input u b)) \<noteq> []"
    using assms(2,3) by (simp add: validate_post_def new_document_def create_input_def str_or_def)
  then show ?thesis using assms(1) by (simp add: create_post_def save_document_def)
qed

text \<open>C30: An authorised update that sets title, content and category to the empty string answers 200 with the post unchanged and leaves the collection as it was: the route treats \<open>''\<close> as absent, where the specification calls it a replacement.\<close>

theorem update_empty_strings_ignored:
  assumes "authenticate e h = Inr u" "cast_id e idstr = Some i" "posts s i = Some p"
    and "canMutate u p" "validate_post p = []"
  shows "update_post e now s h idstr (no_update\<lparr>ub_title := Some [], ub_content := Some [], ub_category := Some []\<rparr>) =
           (s, PostOk i p)"
proof -
  have "apply_update (no_update\<lparr>ub_title := Some [], ub_content := Some [], ub_category := Some []\<rparr>) p = p"
    by (simp add: apply_update_def no_update_def str_truthy_def)
  then show ?thesis using assms
    by (simp add: authenticated_handlers forbidden_iff_not_canMutate save_document_same_content replace_doc_same)
qed

text \<open>C31: The specification's end-to-end case: creating a post with a tag-free content of 10 to 300 characters and at most 200 words, a valid title and no category, tags or excerpt stores it under the next identifier with the content as its excerpt, no tags, published, zero counters, the caller's trimmed name as author, category general, and a reading time of 1.\<close>

theorem create_end_to_end:
  assumes "authenticate e h = Inr u" "js_trim (name u) \<noteq> []"
    and "cb_title b = Some t" "js_trim t \<noteq> []" "length (js_trim t) \<le> 200"
    and "cb_content b = Some c" "tag_free c" "10 \<le> length c" "length c \<le> 300" "length (js_words c) \<le> 200"
    and "cb_category b = None" "cb_tags b = None"
  shows "\<exists>p. create_post e now s h b = (snd (insert_doc p s), Created (next_id s) p) \<and>
           content p = c \<and> excerpt p = c \<and> tags p = [] \<and> published p \<and> views p = 0 \<and> likes p = 0 \<and>
           author p = js_trim (name u) \<and> category p = ''general'' \<and> reading_time (Some (content p)) = 1"
proof -
  let ?d = "new_document (create_input u b)"
  have d: "title ?d = js_trim t" "content ?d = c" "excerpt ?d = []" "author ?d = js_trim (name u)"
      "category ?d = ''general''" "tags ?d = []" "published ?d" "views ?d = 0" "likes ?d = 0"
    using assms(3,6,11,12) by (simp_all add: new_document_def create_input_def str_or_def)
  have "c \<noteq> []" using assms(8) by auto
  then have v: "validate_post ?d = []"
    using d assms(2,4,5,8) by (simp add: validate_post_def parse_category_def category_enum_def)
  have x: "make_excerpt c = c" using assms(7,9) by (simp add: make_excerpt_short strip_tags_tag_free)
  have r: "reading_time (Some c) = 1"
    using js_ceil_div_le_1[of "int (length (js_words c))"] assms(10) by (simp add: reading_time_eq str_or_def)
  let ?p = "?d\<lparr>createdAt := now, updatedAt := now, excerpt := c\<rparr>"
  have "save_document now None ?d = Inr ?p"
    using v d x by (simp add: save_document_def excerpt_hook_def)
  then have "create_post e now s h b = (snd (insert_doc ?p s), Created (next_id s) ?p)"
    using assms(1) by (simp add: create_post_def insert_doc_def)
  then show ?thesis using d r by auto
qed

end
