(* ===== verification/Client.thy ===== *)
theory Client
  imports Routes
begin

text \<open>
  The React client's state logic: the \<open>PostProvider\<close> of
  src/client/src/context/PostContext.jsx (the list of posts on screen, the loading
  flag and the last pagination record, and the actions that fetch, create, update,
  delete and like posts), the handlers of the home page
  src/client/src/pages/Home.jsx (search, category filter, infinite scroll), the
  \<open>AuthProvider\<close> of AuthContext.jsx, and the guards and submit handlers of
  PostCard.jsx, PostDetail.jsx, CreatePost.jsx and Login.jsx. An
  action of the provider sends one request and later folds the server's answer into
  the state; the model splits it the same way: a definition builds the request the
  action sends, and a definition applies the answer. An answer with a status outside
  2xx makes axios throw; the action's \<open>catch\<close> then leaves the list as it was.

  What the client receives is the JSON serialisation of Mongoose documents, which
  includes the \<open>readingTime\<close> virtual: a \<open>card\<close> is the identifier, the fields
  other than the content, and that virtual, computed over the content the document
  carried (none for a listed item, whose content the server did not select).
\<close>

record card =
  c_id :: post_id
  c_doc :: summary
  c_readingTime :: int

definition item_card :: "list_item \<Rightarrow> card" where
  "item_card it = \<lparr>c_id = fst it, c_doc = snd it, c_readingTime = reading_time None\<rparr>"

definition post_card :: "post_id \<Rightarrow> post \<Rightarrow> card" where
  "post_card i p = \<lparr>c_id = i, c_doc = summary.truncate p, c_readingTime = reading_time (Some (content p))\<rparr>"

section \<open>The post provider (PostContext.jsx)\<close>

record post_ctx =
  ctx_posts :: "card list"
  ctx_loading :: bool
  ctx_pagination :: pagination

text \<open>The provider's initial state (lines 15-23).\<close>

definition ctx_init :: post_ctx where
  "ctx_init = \<lparr>ctx_posts = [], ctx_loading = False,
               ctx_pagination = \<lparr>current = 1, pages = 1, total = 0, hasNext = False, hasPrev = False\<rparr>\<rparr>"

text \<open>
  The requests of \<open>fetchPosts(page, {category})\<close> (lines 25-34; the parameters
  are serialised, so the server reads \<open>limit=10\<close> and \<open>category=\<close>, possibly
  empty), \<open>searchPosts(query, page)\<close> (line 135) and
  \<open>getPostsByCategory(category, page)\<close> (line 165).
\<close>

definition fetch_request :: "int \<Rightarrow> string \<Rightarrow> request" where
  "fetch_request page cat = ListPosts (Some page) (Some 10) (Some cat) None None"

definition search_request :: "string \<Rightarrow> int \<Rightarrow> request" where
  "search_request q page = SearchPosts q (Some page) (Some 10)"

definition category_request :: "string \<Rightarrow> int \<Rightarrow> request" where
  "category_request cat page = PostsByCategory cat (Some page) (Some 10)"

text \<open>\<open>setLoading(true)\<close> when one of the three list actions starts.\<close>

definition list_started :: "post_ctx \<Rightarrow> post_ctx" where
  "list_started c = c\<lparr>ctx_loading := True\<rparr>"

text \<open>
  The answer to a list action (lines 35-48, repeated at 136-149 and 166-179): page 1
  replaces the list, a later page is appended; the pagination record is replaced;
  \<open>finally\<close> clears the loading flag.
\<close>

definition list_loaded :: "int \<Rightarrow> response \<Rightarrow> post_ctx \<Rightarrow> post_ctx" where
  "list_loaded page r c =
     (case r of
        ListOk items pg \<Rightarrow>
          c\<lparr>ctx_posts := (if page = 1 then map item_card items else ctx_posts c @ map item_card items),
            ctx_pagination := pg, ctx_loading := False\<rparr>
      | _ \<Rightarrow> c\<lparr>ctx_loading := False\<rparr>)"

text \<open>The answer to \<open>searchPosts\<close> (lines 136-149) and to \<open>getPostsByCategory\<close>
  (lines 166-179), which repeat the code of \<open>fetchPosts\<close>; \<open>list_answers_agree\<close>
  shows that the three coincide, so the system model applies \<open>list_loaded\<close> to all.\<close>

definition search_loaded :: "int \<Rightarrow> response \<Rightarrow> post_ctx \<Rightarrow> post_ctx" where
  "search_loaded page r c =
     (case r of
        ListOk searchResults searchPagination \<Rightarrow>
          c\<lparr>ctx_posts := (if page = 1 then map item_card searchResults
                          else ctx_posts c @ map item_card searchResults),
            ctx_pagination := searchPagination, ctx_loading := False\<rparr>
      | _ \<Rightarrow> c\<lparr>ctx_loading := False\<rparr>)"

definition category_loaded :: "int \<Rightarrow> response \<Rightarrow> post_ctx \<Rightarrow> post_ctx" where
  "category_loaded page r c =
     (case r of
        ListOk categoryPosts categoryPagination \<Rightarrow>
          c\<lparr>ctx_posts := (if page = 1 then map item_card categoryPosts
                          else ctx_posts c @ map item_card categoryPosts),
            ctx_pagination := categoryPagination, ctx_loading := False\<rparr>
      | _ \<Rightarrow> c\<lparr>ctx_loading := False\<rparr>)"

text \<open>\<open>createPost\<close> (lines 61-75): the new post goes to the front of the list.\<close>

definition post_created :: "response \<Rightarrow> post_ctx \<Rightarrow> post_ctx" where
  "post_created r c = (case r of Created i p \<Rightarrow> c\<lparr>ctx_posts := post_card i p # ctx_posts c\<rparr> | _ \<Rightarrow> c)"

text \<open>\<open>updatePost(id, ...)\<close> (lines 77-94): the entry with that id is replaced.\<close>

definition post_updated :: "post_id \<Rightarrow> response \<Rightarrow> post_ctx \<Rightarrow> post_ctx" where
  "post_updated i r c =
     (case r of
        PostOk j p \<Rightarrow> c\<lparr>ctx_posts := map (\<lambda>x. if c_id x = i then post_card j p else x) (ctx_posts c)\<rparr>
      | _ \<Rightarrow> c)"

text \<open>\<open>deletePost(id)\<close> (lines 96-109): the entry is removed.\<close>

definition post_deleted :: "post_id \<Rightarrow> response \<Rightarrow> post_ctx \<Rightarrow> post_ctx" where
  "post_deleted i r c =
     (case r of Deleted \<Rightarrow> c\<lparr>ctx_posts := filter (\<lambda>x. c_id x \<noteq> i) (ctx_posts c)\<rparr> | _ \<Rightarrow> c)"

text \<open>\<open>likePost(id)\<close> (lines 111-130): the entry's \<open>likes\<close> becomes the server's count.\<close>

definition post_liked :: "post_id \<Rightarrow> response \<Rightarrow> post_ctx \<Rightarrow> post_ctx" where
  "post_liked i r c =
     (case r of
        Liked n \<Rightarrow> c\<lparr>ctx_posts := map (\<lambda>x. if c_id x = i then x\<lparr>c_doc := (c_doc x)\<lparr>likes := n\<rparr>\<rparr> else x)
                                      (ctx_posts c)\<rparr>
      | _ \<Rightarrow> c)"

text \<open>\<open>getFeaturedPosts()\<close> (lines 152-160): the posts, or the empty list on failure.\<close>

definition featured_loaded :: "response \<Rightarrow> card list" where
  "featured_loaded r = (case r of FeaturedOk items \<Rightarrow> map item_card items | _ \<Rightarrow> [])"

section \<open>The home page (Home.jsx)\<close>

record home =
  searchQuery :: string
  selectedCategory :: string
  featuredPosts :: "card list"
  showFeatured :: bool

definition home_init :: home where
  "home_init = \<lparr>searchQuery = [], selectedCategory = [], featuredPosts = [], showFeatured = True\<rparr>"

text \<open>
  \<open>handleScroll\<close> (lines 28-42), once the window is near the bottom: the next page
  is requested when no list action is loading and the last pagination says there is
  a next page; it continues the search when a search query is set, the category
  listing otherwise. The result is the page number and the request.
\<close>

definition scroll_request :: "home \<Rightarrow> post_ctx \<Rightarrow> (int \<times> request) option" where
  "scroll_request h c =
     (if \<not> ctx_loading c \<and> hasNext (ctx_pagination c)
      then let nextPage = current (ctx_pagination c) + 1
           in Some (nextPage, if searchQuery h \<noteq> [] then search_request (searchQuery h) nextPage
                              else fetch_request nextPage (selectedCategory h))
      else None)"

text \<open>\<open>handleSearch(query)\<close> (lines 49-56).\<close>

definition search_action :: "string \<Rightarrow> home \<Rightarrow> home \<times> (int \<times> request)" where
  "search_action q h =
     (h\<lparr>searchQuery := q\<rparr>,
      (1, if js_trim q \<noteq> [] then search_request q 1 else fetch_request 1 (selectedCategory h)))"

text \<open>
  \<open>handleCategoryFilter(category)\<close> (lines 58-61) and the effect on
  \<open>selectedCategory\<close> (lines 17-20), which React runs only when the value changed.
\<close>

definition category_action :: "string \<Rightarrow> home \<Rightarrow> home \<times> (int \<times> request) option" where
  "category_action cat h =
     (h\<lparr>selectedCategory := cat, searchQuery := []\<rparr>,
      if cat = selectedCategory h then None else Some (1, fetch_request 1 cat))"

section \<open>The auth provider (AuthContext.jsx)\<close>

text \<open>
  The user and token state of \<open>AuthProvider\<close>. The token starts as the value kept
  in \<open>localStorage\<close>. The answers of the authentication routes (routes/auth.js,
  not among the sources) are taken as given: \<open>Some\<close> of the token and user on
  success, \<open>None\<close> on failure.
\<close>

record auth_ctx =
  a_user :: "user option"
  a_token :: "string option"
  a_loading :: bool

definition auth_init :: "string option \<Rightarrow> auth_ctx" where
  "auth_init stored = \<lparr>a_user = None, a_token = stored, a_loading = True\<rparr>"

definition isAuthenticated :: "auth_ctx \<Rightarrow> bool" where
  "isAuthenticated a \<longleftrightarrow> a_user a \<noteq> None"

text \<open>The effect that sets axios's default \<open>Authorization\<close> header (lines 23-29).\<close>

definition auth_header :: "auth_ctx \<Rightarrow> string option" where
  "auth_header a = (if str_truthy (a_token a) then Some (''Bearer '' @ str_or (a_token a) []) else None)"

text \<open>\<open>checkAuth\<close> (lines 32-45): with a token, \<open>/api/auth/me\<close> either returns the
  user or fails, and a failure drops the token.\<close>

definition check_auth_done :: "user option \<Rightarrow> auth_ctx \<Rightarrow> auth_ctx" where
  "check_auth_done r a =
     (if str_truthy (a_token a)
      then (case r of Some u \<Rightarrow> a\<lparr>a_user := Some u, a_loading := False\<rparr>
                    | None \<Rightarrow> a\<lparr>a_token := None, a_loading := False\<rparr>)
      else a\<lparr>a_loading := False\<rparr>)"

text \<open>\<open>login\<close> and \<open>register\<close> (lines 50-93): on success both store the token and
  the user; on failure nothing changes.\<close>

definition login_done :: "(string \<times> user) option \<Rightarrow> auth_ctx \<Rightarrow> auth_ctx" where
  "login_done r a = (case r of Some (t, u) \<Rightarrow> a\<lparr>a_token := Some t, a_user := Some u\<rparr> | None \<Rightarrow> a)"

text \<open>\<open>logout\<close> (lines 95-100).\<close>

definition logout :: "auth_ctx \<Rightarrow> auth_ctx" where
  "logout a = a\<lparr>a_token := None, a_user := None\<rparr>"

text \<open>\<open>updateProfile\<close> (lines 102-114): the user the profile route answers replaces the
  user; on failure nothing changes.\<close>

definition profile_done :: "user option \<Rightarrow> auth_ctx \<Rightarrow> auth_ctx" where
  "profile_done r a = (case r of Some u \<Rightarrow> a\<lparr>a_user := Some u\<rparr> | None \<Rightarrow> a)"

section \<open>Page handlers\<close>

text \<open>
  The identifier the client puts in a URL is the post's \<open>_id\<close> string; \<open>show_id\<close>
  is that serialisation, a parameter like the server's cast.
\<close>

text \<open>\<open>handleLike\<close> of PostCard.jsx (lines 29-39) and PostDetail.jsx (lines 55-72): no
  request without a logged-in user.\<close>

definition like_request :: "(post_id \<Rightarrow> string) \<Rightarrow> auth_ctx \<Rightarrow> post_id \<Rightarrow> request option" where
  "like_request show_id a i =
     (if isAuthenticated a then Some (LikePost (auth_header a) (show_id i)) else None)"

text \<open>\<open>canEdit\<close> of PostDetail.jsx (lines 96-100): whether the edit and delete
  controls are shown.\<close>

definition canEdit :: "auth_ctx \<Rightarrow> summary \<Rightarrow> bool" where
  "canEdit a d =
     (isAuthenticated a \<and>
      (case a_user a of None \<Rightarrow> False
       | Some u \<Rightarrow> name u = author d \<or> role u = Admin \<or> role u = Moderator))"

text \<open>The form of CreatePost.jsx (lines 13-20) and \<open>handleSubmit\<close> (lines 38-70).\<close>

record post_form =
  fm_title :: string
  fm_content :: string
  fm_category :: string
  fm_tags :: string
  fm_featured :: bool
  fm_imageUrl :: string

definition parse_tags :: "string \<Rightarrow> string list" where
  "parse_tags s = filter (\<lambda>t. length t > 0) (map js_trim (split_comma s))"

definition create_submit :: "post_form \<Rightarrow> create_body option" where
  "create_submit f =
     (if js_trim (fm_title f) = [] \<or> js_trim (fm_content f) = [] then None
      else Some \<lparr>cb_title = Some (fm_title f), cb_content = Some (fm_content f),
                 cb_category = Some (fm_category f), cb_tags = Some (parse_tags (fm_tags f)),
                 cb_featured = Some (fm_featured f), cb_imageUrl = Some (fm_imageUrl f)\<rparr>)"

text \<open>\<open>handleSubmit\<close> of Login.jsx (lines 31-56): both fields must be non-empty.\<close>

definition login_submit :: "string \<Rightarrow> string \<Rightarrow> bool" where
  "login_submit email password \<longleftrightarrow> email \<noteq> [] \<and> password \<noteq> []"

section \<open>Lemmas\<close>

lemma fetch_response:
  assumes "1 \<le> k"
  shows "\<exists>pg. snd (handle e t s (fetch_request k cat)) =
           ListOk (map project (take 10 (drop (nat (k - 1) * 10)
             (find_sorted (text_idx e) (build_query \<lparr>f_category = Some cat, f_search = None, f_tags = Some []\<rparr>) s)))) pg"
proof -
  have k: "int_or (Some k) 1 = k" using assms by (simp add: int_or_def)
  show ?thesis using assms
    by (simp add: fetch_request_def list_posts_def list_response_def k int_or_def str_truthy_def
        get_posts_page)
qed

lemma list_answers_agree: "search_loaded = list_loaded \<and> category_loaded = list_loaded"
  by (simp add: fun_eq_iff search_loaded_def category_loaded_def list_loaded_def)

lemma list_loaded_later:
  "k \<noteq> 1 \<Longrightarrow> ctx_posts (list_loaded k (ListOk items pg) c) = ctx_posts c @ map item_card items"
  by (simp add: list_loaded_def)

lemma item_card_readingTime: "c_readingTime (item_card it) = 1"
  by (simp add: item_card_def reading_time_None)

text \<open>C11: Infinite scroll refines paging: when the provider folds in the answers to \<open>fetchPosts\<close> for pages 1 to \<open>n + 1\<close> of a category over an unchanged collection, the list on screen is the cards of the first \<open>10 (n + 1)\<close> matches of that category in \<open>updatedAt\<close>-descending order.\<close>

theorem scroll_pages_refine:
  "ctx_posts (fold (\<lambda>k c. list_loaded (int k) (snd (handle e t s (fetch_request (int k) cat))) c)
                   [1..<Suc (Suc n)] c0) =
   map item_card (map project (take (Suc n * 10)
     (find_sorted (text_idx e) (build_query \<lparr>f_category = Some cat, f_search = None, f_tags = Some []\<rparr>) s)))"
proof (induction n)
  case 0
  obtain pg where "snd (handle e t s (fetch_request 1 cat)) =
      ListOk (map project (take 10 (find_sorted (text_idx e) (build_query \<lparr>f_category = Some cat, f_search = None, f_tags = Some []\<rparr>) s))) pg"
    using fetch_response[of 1 e t s cat] by auto
  then show ?case by (simp add: list_loaded_def)
next
  case (Suc n)
  let ?fs = "find_sorted (text_idx e) (build_query \<lparr>f_category = Some cat, f_search = None, f_tags = Some []\<rparr>) s"
  obtain pg where r: "snd (handle e t s (fetch_request (int (Suc (Suc n))) cat)) =
      ListOk (map project (take 10 (drop (Suc n * 10) ?fs))) pg"
  proof -
    have k: "nat (int (Suc (Suc n)) - 1) = Suc n" by simp
    show ?thesis using fetch_response[of "int (Suc (Suc n))" e t s cat, unfolded k] that by auto
  qed
  have eq: "take (Suc (Suc n) * 10) ?fs = take (Suc n * 10) ?fs @ take 10 (drop (Suc n * 10) ?fs)"
    by (metis take_add mult_Suc add.commute)
  have u: "[1..<Suc (Suc (Suc n))] = [1..<Suc (Suc n)] @ [Suc (Suc n)]" by simp
  show ?case unfolding u fold_append eq
    by (simp only: comp_apply fold_simps r list_loaded_later[of "int (Suc (Suc n))"] Suc.IH
        map_append map_map of_nat_eq_1_iff)
qed

text \<open>C12: For a logged-in user, the edit and delete controls of a post's page are shown exactly when the server's ownership guard of \<open>PUT\<close> and \<open>DELETE /api/posts/:id\<close> lets that user through.\<close>

theorem canEdit_agrees:
  assumes "a_user a = Some u"
  shows "canEdit a (summary.truncate p) \<longleftrightarrow> \<not> forbidden u p"
  using assms by (auto simp: canEdit_def isAuthenticated_def forbidden_def summary.defs)

text \<open>C13: The \<open>Authorization\<close> header the client sets for a stored non-empty token is read back by the \<open>auth\<close> middleware as exactly that token.\<close>

theorem auth_header_token:
  assumes "a_token a = Some tok" "tok \<noteq> []"
  shows "map_option (replace_first ''Bearer '' []) (auth_header a) = Some tok"
proof -
  have "auth_header a = Some (''Bearer '' @ tok)"
    using assms by (simp add: auth_header_def str_truthy_def str_or_def)
  then show ?thesis by (simp only: option.map replace_first_Bearer)
qed

text \<open>The tags the create form sends are non-empty and already trimmed, so the schema's \<open>trim\<close> setter leaves them unchanged.\<close>

lemma parse_tags_clean:
  "list_all (\<lambda>t. t \<noteq> [] \<and> js_trim t = t) (parse_tags s)"
  by (auto simp: parse_tags_def list_all_iff js_trim_idem)

lemma parse_tags_trimmed: "map js_trim (parse_tags s) = parse_tags s"
  using parse_tags_clean[of s] by (simp add: list_all_iff map_idI)

text \<open>C15: A listed card always shows a reading time of one minute, while the post's own page shows the rounded-up word count over 200: for a post of more than 200 words the two disagree.\<close>

theorem card_readingTime_differs:
  assumes "200 < length (js_words (content p))"
  shows "c_readingTime (item_card (project (i, p))) < c_readingTime (post_card i p)"
proof -
  let ?n = "int (length (js_words (content p)))"
  have "?n \<le> js_ceil_div ?n 200 * 200" using js_ceil_div_bounds(1)[of 200 ?n] by simp
  then have "1 < js_ceil_div ?n 200" using assms by linarith
  then show ?thesis by (simp add: item_card_readingTime post_card_def reading_time_eq str_or_def)
qed

lemma list_request_store: "fst (handle e t s (fetch_request k c)) = s"
  by (simp add: fetch_request_def)

text \<open>C18: After a search, clicking the category that is already selected clears the search box but sends no request (React runs the effect of \<open>selectedCategory\<close> only on a change): the list keeps the search results, and the next scroll appends page \<open>current + 1\<close> of the category listing to them.\<close>

theorem search_then_same_category:
  assumes "js_trim q \<noteq> []" "hasNext pg"
  shows "search_action q h = (h\<lparr>searchQuery := q\<rparr>, 1, search_request q 1) \<and>
         category_action (selectedCategory h) (h\<lparr>searchQuery := q\<rparr>) = (h\<lparr>searchQuery := []\<rparr>, None) \<and>
         ctx_posts (list_loaded 1 (ListOk items pg) c) = map item_card items \<and>
         scroll_request (h\<lparr>searchQuery := []\<rparr>) (list_loaded 1 (ListOk items pg) c) =
           Some (current pg + 1, fetch_request (current pg + 1) (selectedCategory h))"
  using assms by (simp add: search_action_def category_action_def list_loaded_def scroll_request_def Let_def)

text \<open>C19: A search for a non-empty query of white space only loads page 1 of the category listing, but keeps the query, so the next scroll asks the search route for the next page (\<open>current + 1\<close>) of that blank query and appends its results to the category listing.\<close>

theorem blank_search_scroll:
  assumes "q \<noteq> []" "js_trim q = []" "hasNext pg"
  shows "search_action q h = (h\<lparr>searchQuery := q\<rparr>, 1, fetch_request 1 (selectedCategory h)) \<and>
         scroll_request (h\<lparr>searchQuery := q\<rparr>) (list_loaded 1 (ListOk items pg) c) =
           Some (current pg + 1, search_request q (current pg + 1))"
  using assms by (simp add: search_action_def list_loaded_def scroll_request_def Let_def)

end
