(* ===== verification/Session.thy ===== *)
theory Session
  imports Client
begin

text \<open>
  The whole system as a transition relation: one browser running the client of
  src/client/src against the server of src/server, and other clients whose requests
  the server serves in between. The client's actions send requests and do not wait:
  each request is in flight until the server serves it, and each answer is in
  flight until the browser applies it, in any order (HTTP requests travel on
  separate connections and the server handles them concurrently, as section 5 of
  the specification says). An in-flight request carries the \<open>action\<close> of the
  provider that will apply its answer: the list actions of PostContext.jsx remember
  the page they asked for, the mutations remember the post they are about.

  \<open>sys_inv\<close> is the invariant of the system: the collection is well formed, every
  card on screen has an allocated identifier and a well-formed summary, and so does
  every answer on its way back.
\<close>

datatype action = LoadPage int | AddCreated | RemoveDeleted post_id | SetLikes post_id

text \<open>The continuation of each provider action, applied to its answer.\<close>

fun apply_answer :: "action \<Rightarrow> response \<Rightarrow> post_ctx \<Rightarrow> post_ctx" where
  "apply_answer (LoadPage k) r c = list_loaded k r c"
| "apply_answer AddCreated r c = post_created r c"
| "apply_answer (RemoveDeleted i) r c = post_deleted i r c"
| "apply_answer (SetLikes i) r c = post_liked i r c"

record sys =
  srv :: store
  hm :: home
  pc :: post_ctx
  au :: auth_ctx
  sent :: "(action \<times> request) list"
  recv :: "(action \<times> response) list"

text \<open>
  The steps. \<open>scroll\<close>, \<open>search\<close> and \<open>category\<close> are the Home handlers
  (a list action sets the loading flag when it starts); \<open>create\<close> is the submit of
  CreatePost.jsx, rendered only for a logged-in user; \<open>like\<close> is \<open>handleLike\<close>;
  \<open>delete\<close> is \<open>handleDelete\<close> of PostDetail.jsx for a post whose controls
  \<open>canEdit\<close> shows; \<open>serve\<close> lets the server handle any request in flight at any
  time \<open>t\<close>; \<open>deliver\<close> applies any answer in flight; \<open>other\<close> is a request of
  another client; \<open>login\<close> and \<open>logout\<close> change the auth state.
\<close>

inductive sys_step :: "env \<Rightarrow> (post_id \<Rightarrow> string) \<Rightarrow> sys \<Rightarrow> sys \<Rightarrow> bool"
  for e :: env and show_id :: "post_id \<Rightarrow> string" where
  scroll: "scroll_request (hm s) (pc s) = Some (k, r) \<Longrightarrow>
    sys_step e show_id s (s\<lparr>pc := list_started (pc s), sent := sent s @ [(LoadPage k, r)]\<rparr>)"
| search: "search_action q (hm s) = (h', k, r) \<Longrightarrow>
    sys_step e show_id s (s\<lparr>hm := h', pc := list_started (pc s), sent := sent s @ [(LoadPage k, r)]\<rparr>)"
| category: "category_action c (hm s) = (h', Some (k, r)) \<Longrightarrow>
    sys_step e show_id s (s\<lparr>hm := h', pc := list_started (pc s), sent := sent s @ [(LoadPage k, r)]\<rparr>)"
| category_same: "category_action c (hm s) = (h', None) \<Longrightarrow> sys_step e show_id s (s\<lparr>hm := h'\<rparr>)"
| create: "isAuthenticated (au s) \<Longrightarrow> create_submit f = Some b \<Longrightarrow>
    sys_step e show_id s (s\<lparr>sent := sent s @ [(AddCreated, CreatePost (auth_header (au s)) b)]\<rparr>)"
| like: "like_request show_id (au s) i = Some r \<Longrightarrow>
    sys_step e show_id s (s\<lparr>sent := sent s @ [(SetLikes i, r)]\<rparr>)"
| delete: "canEdit (au s) d \<Longrightarrow>
    sys_step e show_id s (s\<lparr>sent := sent s @ [(RemoveDeleted i, DeletePost (auth_header (au s)) (show_id i))]\<rparr>)"
| serve: "sent s = xs @ (a, r) # ys \<Longrightarrow> handle e t (srv s) r = (st, resp) \<Longrightarrow>
    sys_step e show_id s (s\<lparr>srv := st, sent := xs @ ys, recv := recv s @ [(a, resp)]\<rparr>)"
| deliver: "recv s = xs @ (a, resp) # ys \<Longrightarrow>
    sys_step e show_id s (s\<lparr>pc := apply_answer a resp (pc s), recv := xs @ ys\<rparr>)"
| other: "handle e t (srv s) r = (st, resp) \<Longrightarrow> sys_step e show_id s (s\<lparr>srv := st\<rparr>)"
| login: "sys_step e show_id s (s\<lparr>au := login_done res (au s)\<rparr>)"
| logout: "sys_step e show_id s (s\<lparr>au := logout (au s)\<rparr>)"

text \<open>What the client may rely on in a document it is shown: \<open>post_inv\<close> without the content.\<close>

definition summary_ok :: "summary \<Rightarrow> bool" where
  "summary_ok d \<longleftrightarrow>
     title d \<noteq> [] \<and> length (title d) \<le> 200 \<and> author d \<noteq> [] \<and> parse_category (category d) \<noteq> None \<and>
     length (excerpt d) \<le> 303 \<and> 0 \<le> views d \<and> 0 \<le> likes d"

definition item_ok :: "store \<Rightarrow> list_item \<Rightarrow> bool" where
  "item_ok st it \<longleftrightarrow> fst it < next_id st \<and> summary_ok (snd it)"

definition card_ok :: "store \<Rightarrow> card \<Rightarrow> bool" where
  "card_ok st c \<longleftrightarrow> c_id c < next_id st \<and> summary_ok (c_doc c)"

fun resp_ok :: "store \<Rightarrow> response \<Rightarrow> bool" where
  "resp_ok st (ListOk items pg) = list_all (item_ok st) items"
| "resp_ok st (FeaturedOk items) = list_all (item_ok st) items"
| "resp_ok st (PostOk i p) = (i < next_id st \<and> post_inv p)"
| "resp_ok st (Created i p) = (i < next_id st \<and> post_inv p)"
| "resp_ok st (Liked n) = (0 \<le> n)"
| "resp_ok st _ = True"

definition sys_inv :: "sys \<Rightarrow> bool" where
  "sys_inv s \<longleftrightarrow>
     wf_store (srv s) \<and> list_all (card_ok (srv s)) (ctx_posts (pc s)) \<and>
     list_all (\<lambda>ar. resp_ok (srv s) (snd ar)) (recv s)"

section \<open>Lemmas\<close>

lemma summary_ok_truncate: "post_inv p \<Longrightarrow> summary_ok (summary.truncate p)"
  by (simp add: post_inv_def summary_ok_def summary.defs)

lemma handle_next_id_mono: "next_id s \<le> next_id (fst (handle e t s r))"
  by (cases r) (auto simp: get_post_def create_post_def update_post_def delete_post_def like_post_def
      store_ops_defs split_def Let_def split: option.splits sum.splits)

lemma card_ok_mono: "card_ok st c \<Longrightarrow> next_id st \<le> next_id st' \<Longrightarrow> card_ok st' c"
  by (simp add: card_ok_def)

lemma resp_ok_mono: "resp_ok st r \<Longrightarrow> next_id st \<le> next_id st' \<Longrightarrow> resp_ok st' r"
  by (cases r) (auto simp: list_all_iff item_ok_def)

lemma find_sorted_item_ok:
  "wf_store s \<Longrightarrow> d \<in> set (find_sorted ti q s) \<Longrightarrow> item_ok s (project d)"
  by (cases d) (auto simp: find_sorted_member item_ok_def project_def intro: summary_ok_truncate wf_store_lookup)

lemma items_ok:
  assumes "set items \<subseteq> project ` set (find_sorted ti q s)" "wf_store s"
  shows "list_all (item_ok s) items"
  unfolding list_all_iff
proof
  fix it assume "it \<in> set items"
  then obtain d where "d \<in> set (find_sorted ti q s)" "it = project d" using assms(1) by blast
  then show "item_ok s it" using assms(2) find_sorted_item_ok by blast
qed

lemma list_response_ok: "wf_store s \<Longrightarrow> resp_ok s (list_response e s page limit f)"
  by (auto simp: list_response_def split: sum.splits dest!: get_posts_items intro: items_ok)

lemma featured_ok: "wf_store s \<Longrightarrow> list_all (item_ok s) (featured_list ti s)"
  by (rule items_ok[where ti = ti and q = featured_query]) (auto simp: featured_list_def dest: in_set_takeD)

lemma saved_ok:
  assumes "wf_store s" "posts s i = Some p" "save_document t (Some p) p' = Inr q"
    and "0 \<le> views p'" "0 \<le> likes p'"
  shows "i < next_id s \<and> post_inv q"
  using assms save_document_post_inv by (auto simp: wf_store_def)

lemma handle_resp_ok:
  assumes wf: "wf_store s"
  shows "resp_ok (fst (handle e t s r)) (snd (handle e t s r))"
proof (cases r)
  case (ListPosts page limit cat search tagq)
  then show ?thesis using wf by (simp add: list_posts_def list_response_ok)
next
  case (GetPost idstr)
  { fix i p q assume "posts s i = Some p" "save_document t (Some p) (p\<lparr>views := views p + 1\<rparr>) = Inr q"
    then have "i < next_id s \<and> post_inv q"
      using wf stored_counters_nonneg[OF wf] by (intro saved_ok[of s i p]) auto }
  then show ?thesis using GetPost by (auto simp: get_post_def replace_doc_def split: option.splits sum.splits)
next
  case (CreatePost h b)
  { fix u p assume "save_document t None (new_document (create_input u b)) = Inr p"
    then have "post_inv p" by (rule save_document_post_inv) (simp_all add: new_document_def) }
  then show ?thesis using CreatePost by (auto simp: create_post_def insert_doc_def split: sum.splits)
next
  case (UpdatePost h idstr b)
  { fix i p q assume "posts s i = Some p" "save_document t (Some p) (apply_update b p) = Inr q"
    then have "i < next_id s \<and> post_inv q"
      using wf stored_counters_nonneg[OF wf] by (intro saved_ok[of s i p]) auto }
  then show ?thesis using UpdatePost by (auto simp: update_post_def replace_doc_def split: option.splits sum.splits)
next
  case (DeletePost h idstr)
  then show ?thesis by (auto simp: delete_post_def split: option.splits sum.splits)
next
  case (LikePost h idstr)
  { fix i p q assume "posts s i = Some p" "save_document t (Some p) (p\<lparr>likes := likes p + 1\<rparr>) = Inr q"
    then have "i < next_id s \<and> post_inv q"
      using wf stored_counters_nonneg[OF wf] by (intro saved_ok[of s i p]) auto
    then have "0 \<le> likes q" by (simp add: post_inv_def) }
  then show ?thesis using LikePost by (auto simp: like_post_def split: option.splits sum.splits)
next
  case FeaturedPosts
  then show ?thesis using wf by (simp add: featured_ok)
next
  case (PostsByCategory cat page limit)
  then show ?thesis using wf by (simp add: posts_by_category_def list_response_ok)
next
  case (SearchPosts q page limit)
  then show ?thesis using wf by (simp add: search_posts_def list_response_ok)
qed

lemma item_card_ok: "card_ok st (item_card it) \<longleftrightarrow> item_ok st it"
  by (simp add: card_ok_def item_ok_def item_card_def)

lemma apply_answer_ok:
  assumes "resp_ok st r" "list_all (card_ok st) (ctx_posts c)"
  shows "list_all (card_ok st) (ctx_posts (apply_answer a r c))"
proof (cases a)
  case (LoadPage k)
  then show ?thesis using assms
    by (cases r) (auto simp: list_loaded_def list_all_iff item_card_ok)
next
  case AddCreated
  then show ?thesis using assms
    by (cases r) (auto simp: post_created_def post_card_def card_ok_def summary_ok_truncate)
next
  case (RemoveDeleted i)
  then show ?thesis using assms by (cases r) (auto simp: post_deleted_def list_all_iff)
next
  case (SetLikes i)
  then show ?thesis using assms
    by (cases r) (auto simp: post_liked_def list_all_iff card_ok_def summary_ok_def)
qed

lemma sys_step_inv:
  assumes "sys_step e show_id s s'" "sys_inv s"
  shows "sys_inv s'"
  using assms
proof (induction rule: sys_step.induct)
  case (serve s xs a r ys t st resp)
  have h: "st = fst (handle e t (srv s) r)" "resp = snd (handle e t (srv s) r)" using serve(2) by simp_all
  have wf: "wf_store (srv s)" using serve(3) by (simp add: sys_inv_def)
  have m: "next_id (srv s) \<le> next_id st" unfolding h by (rule handle_next_id_mono)
  show ?case using serve(3) handle_wf[OF wf] handle_resp_ok[OF wf] m
    by (auto simp: sys_inv_def h list_all_iff intro: card_ok_mono resp_ok_mono)
next
  case (deliver s xs a resp ys)
  then show ?case by (auto simp: sys_inv_def intro: apply_answer_ok)
next
  case (other t s r st resp)
  have h: "st = fst (handle e t (srv s) r)" using other(1) by simp
  have wf: "wf_store (srv s)" using other(2) by (simp add: sys_inv_def)
  have m: "next_id (srv s) \<le> next_id st" unfolding h by (rule handle_next_id_mono)
  show ?case using other(2) handle_wf[OF wf] m
    by (auto simp: sys_inv_def h list_all_iff intro: card_ok_mono resp_ok_mono)
qed (simp_all add: sys_inv_def list_started_def)

text \<open>C16: In every state reachable from a well-formed one, whatever the interleaving of the browser's actions, the server's handling of in-flight requests, the delivery of answers and the requests of other clients: the collection is well formed, every card on screen has an identifier the server allocated and a well-formed summary (title of 1 to 200 characters, author, a category of the enumeration, excerpt of at most 303 characters, non-negative counters), and so has every answer in flight.\<close>

theorem reachable_sys_inv:
  assumes "(sys_step e show_id)\<^sup>*\<^sup>* s0 s" "sys_inv s0"
  shows "sys_inv s"
  using assms by (induction rule: rtranclp_induct) (auto intro: sys_step_inv)

end
