(* ===== verification/Counters.thy ===== *)
theory Counters
  imports Routes
begin

text \<open>
  The counter routes as the two store round trips they make. \<open>POST /:id/like\<close>
  (src/server/routes/posts.js, lines 143-162) awaits \<open>Post.findById\<close>, increments
  the in-memory document and awaits \<open>post.save()\<close>; other requests run between the
  two awaits. \<open>like_load\<close> is the handler up to its first await (behind the
  \<open>auth\<close> middleware) and \<open>like_save\<close> the rest. Mongoose saves an existing
  document as an update of the paths modified in memory (here \<open>likes\<close> and the
  timestamp \<open>updatedAt\<close>) on the stored document with that identifier, and throws
  \<open>DocumentNotFoundError\<close> when none is left, which the route's \<open>catch\<close> turns into
  a 500 answer. \<open>GET /:id\<close> (lines 30-50) makes the same two round trips for the
  view counter: \<open>view_load\<close> and \<open>view_save\<close>.
\<close>

definition like_load :: "env \<Rightarrow> store \<Rightarrow> string option \<Rightarrow> string \<Rightarrow> response + (post_id \<times> post)" where
  "like_load e s h idstr =
     (case authenticate e h of
        Inl err \<Rightarrow> Inl (Unauthorized err)
      | Inr u \<Rightarrow>
          (case cast_id e idstr of
             None \<Rightarrow> Inl ServerError
           | Some i \<Rightarrow> (case posts s i of None \<Rightarrow> Inl NotFound | Some p \<Rightarrow> Inr (i, p))))"

definition like_save :: "time \<Rightarrow> store \<Rightarrow> post_id \<Rightarrow> post \<Rightarrow> store \<times> response" where
  "like_save now s i p =
     (case save_document now (Some p) (p\<lparr>likes := likes p + 1\<rparr>) of
        Inl _ \<Rightarrow> (s, ServerError)
      | Inr q \<Rightarrow>
          (case posts s i of
             None \<Rightarrow> (s, ServerError)
           | Some cur \<Rightarrow> (replace_doc i (cur\<lparr>likes := likes q, updatedAt := updatedAt q\<rparr>) s, Liked (likes q))))"

definition view_load :: "env \<Rightarrow> store \<Rightarrow> string \<Rightarrow> response + (post_id \<times> post)" where
  "view_load e s idstr =
     (case cast_id e idstr of
        None \<Rightarrow> Inl ServerError
      | Some i \<Rightarrow> (case posts s i of None \<Rightarrow> Inl NotFound | Some p \<Rightarrow> Inr (i, p)))"

definition view_save :: "time \<Rightarrow> store \<Rightarrow> post_id \<Rightarrow> post \<Rightarrow> store \<times> response" where
  "view_save now s i p =
     (case save_document now (Some p) (p\<lparr>views := views p + 1\<rparr>) of
        Inl _ \<Rightarrow> (s, ServerError)
      | Inr q \<Rightarrow>
          (case posts s i of
             None \<Rightarrow> (s, ServerError)
           | Some cur \<Rightarrow> (replace_doc i (cur\<lparr>views := views q, updatedAt := updatedAt q\<rparr>) s, PostOk i q)))"

section \<open>Lemmas\<close>

lemma like_save_valid:
  assumes "posts s i = Some cur" "validate_post p = []"
  shows "like_save now s i p =
           (replace_doc i (cur\<lparr>likes := likes p + 1, updatedAt := now\<rparr>) s, Liked (likes p + 1))"
  using assms by (simp add: like_save_def save_document_same_content)

lemma view_save_valid:
  assumes "posts s i = Some cur" "validate_post p = []"
  shows "view_save now s i p =
           (replace_doc i (cur\<lparr>views := views p + 1, updatedAt := now\<rparr>) s,
            PostOk i (p\<lparr>views := views p + 1, updatedAt := now\<rparr>))"
  using assms by (simp add: view_save_def save_document_same_content)

lemma like_split:
  "like_post e now s h idstr =
     (case like_load e s h idstr of Inl r \<Rightarrow> (s, r) | Inr (i, p) \<Rightarrow> like_save now s i p)"
  by (auto simp: like_post_def like_load_def like_save_def save_document_same_content
      split: sum.splits option.splits)

lemma view_split:
  "get_post e now s idstr =
     (case view_load e s idstr of Inl r \<Rightarrow> (s, r) | Inr (i, p) \<Rightarrow> view_save now s i p)"
  by (auto simp: get_post_def view_load_def view_save_def save_document_same_content
      split: sum.splits option.splits)


lemma concurrent_likes:
  assumes "like_load e s h1 idstr = Inr (i, p)" "like_load e s h2 idstr = Inr (i, p)"
    and "validate_post p = []"
  shows "snd (like_save t1 s i p) = Liked (likes p + 1) \<and>
         snd (like_save t2 (fst (like_save t1 s i p)) i p) = Liked (likes p + 1) \<and>
         map_option likes (posts (fst (like_save t2 (fst (like_save t1 s i p)) i p)) i) = Some (likes p + 1) \<and>
         map_option likes (posts (fst (like_post e t2 (fst (like_post e t1 s h1 idstr)) h2 idstr)) i) =
           Some (likes p + 2)"
proof -
  have p: "posts s i = Some p" using assms(1) by (auto simp: like_load_def split: sum.splits option.splits)
  have l1: "like_save t1 s i p = (replace_doc i (p\<lparr>likes := likes p + 1, updatedAt := t1\<rparr>) s, Liked (likes p + 1))"
    using p assms(3) by (rule like_save_valid)
  let ?s1 = "replace_doc i (p\<lparr>likes := likes p + 1, updatedAt := t1\<rparr>) s"
  have p1: "posts ?s1 i = Some (p\<lparr>likes := likes p + 1, updatedAt := t1\<rparr>)" by (simp add: replace_doc_def)
  have l2: "like_save t2 ?s1 i p =
      (replace_doc i (p\<lparr>likes := likes p + 1, updatedAt := t2\<rparr>) ?s1, Liked (likes p + 1))"
    using like_save_valid[OF p1 assms(3)] by simp
  have ld2: "like_load e ?s1 h2 idstr = Inr (i, p\<lparr>likes := likes p + 1, updatedAt := t1\<rparr>)"
    using assms(2) p1 by (auto simp: like_load_def split: sum.splits option.splits)
  have v1: "validate_post (p\<lparr>likes := likes p + 1, updatedAt := t1\<rparr>) = []" using assms(3) by simp
  have seq: "like_post e t1 s h1 idstr = (?s1, Liked (likes p + 1))"
    using like_split[of e t1 s h1 idstr] assms(1) l1 by simp
  have "like_post e t2 ?s1 h2 idstr = like_save t2 ?s1 i (p\<lparr>likes := likes p + 1, updatedAt := t1\<rparr>)"
    using like_split[of e t2 ?s1 h2 idstr] ld2 by simp
  then have seq2: "map_option likes (posts (fst (like_post e t2 ?s1 h2 idstr)) i) = Some (likes p + 2)"
    using like_save_valid[OF p1 v1, of t2] by (simp add: replace_doc_def)
  show ?thesis using l1 l2 seq seq2 by (simp add: replace_doc_def)
qed

lemma concurrent_views:
  assumes "view_load e s idstr = Inr (i, p)" "validate_post p = []"
  shows "snd (view_save t1 s i p) = PostOk i (p\<lparr>views := views p + 1, updatedAt := t1\<rparr>) \<and>
         snd (view_save t2 (fst (view_save t1 s i p)) i p) = PostOk i (p\<lparr>views := views p + 1, updatedAt := t2\<rparr>) \<and>
         map_option views (posts (fst (view_save t2 (fst (view_save t1 s i p)) i p)) i) = Some (views p + 1) \<and>
         map_option views (posts (fst (get_post e t2 (fst (get_post e t1 s idstr)) idstr)) i) = Some (views p + 2)"
proof -
  have p: "posts s i = Some p" using assms(1) by (auto simp: view_load_def split: option.splits)
  let ?p1 = "p\<lparr>views := views p + 1, updatedAt := t1\<rparr>"
  let ?s1 = "replace_doc i ?p1 s"
  have l1: "view_save t1 s i p = (?s1, PostOk i ?p1)" using p assms(2) by (rule view_save_valid)
  have p1: "posts ?s1 i = Some ?p1" by (simp add: replace_doc_def)
  have l2: "view_save t2 ?s1 i p =
      (replace_doc i (?p1\<lparr>views := views p + 1, updatedAt := t2\<rparr>) ?s1, PostOk i (p\<lparr>views := views p + 1, updatedAt := t2\<rparr>))"
    using view_save_valid[OF p1 assms(2)] by simp
  have ld2: "view_load e ?s1 idstr = Inr (i, ?p1)"
    using assms(1) p1 by (auto simp: view_load_def split: option.splits)
  have v1: "validate_post ?p1 = []" using assms(2) by simp
  have seq: "get_post e t1 s idstr = (?s1, PostOk i ?p1)"
    using view_split[of e t1 s idstr] assms(1) l1 by simp
  have "get_post e t2 ?s1 idstr = view_save t2 ?s1 i ?p1"
    using view_split[of e t2 ?s1 idstr] ld2 by simp
  then have seq2: "map_option views (posts (fst (get_post e t2 ?s1 idstr)) i) = Some (views p + 2)"
    using view_save_valid[OF p1 v1, of t2] by (simp add: replace_doc_def)
  show ?thesis using l1 l2 seq seq2 by (simp add: replace_doc_def)
qed

lemma like_load_view_load: "like_load e s h idstr = Inr (i, p) \<Longrightarrow> view_load e s idstr = Inr (i, p)"
  by (auto simp: like_load_def view_load_def split: sum.splits option.splits)

text \<open>C21: Likes are not atomic (specification, section 5), and neither are views, though the specification counts a view for every detail fetch: when two likes, or two fetches, of the same post both load it before either saves, both answer the same count and the stored count grows by one, while the same two requests served one after the other grow it by two.\<close>

theorem concurrent_likes_lost:
  assumes "like_load e s h1 idstr = Inr (i, p)" "like_load e s h2 idstr = Inr (i, p)"
    and "validate_post p = []"
  shows "snd (like_save t1 s i p) = Liked (likes p + 1) \<and>
         snd (like_save t2 (fst (like_save t1 s i p)) i p) = Liked (likes p + 1) \<and>
         map_option likes (posts (fst (like_save t2 (fst (like_save t1 s i p)) i p)) i) = Some (likes p + 1) \<and>
         map_option likes (posts (fst (like_post e t2 (fst (like_post e t1 s h1 idstr)) h2 idstr)) i) =
           Some (likes p + 2) \<and>
         map_option views (posts (fst (view_save t2 (fst (view_save t1 s i p)) i p)) i) = Some (views p + 1) \<and>
         map_option views (posts (fst (get_post e t2 (fst (get_post e t1 s idstr)) idstr)) i) = Some (views p + 2)"
  using concurrent_likes[OF assms] concurrent_views[OF like_load_view_load[OF assms(1)] assms(3)] by blast

text \<open>C22: A like whose handler is suspended while an update of the same post completes does not undo the update: the save writes only the paths the like modified, so the stored post keeps the updated title, content, category and tags and gets the like's count.\<close>

theorem like_keeps_concurrent_update:
  assumes "like_load e s h idstr = Inr (i, p)" "validate_post p = []"
    and "update_post e t s h2 idstr b = (s', PostOk j q)"
  shows "like_save t2 s' i p = (replace_doc i (q\<lparr>likes := likes p + 1, updatedAt := t2\<rparr>) s', Liked (likes p + 1)) \<and>
         (\<exists>cur. posts (fst (like_save t2 s' i p)) i = Some cur \<and> title cur = title q \<and>
            content cur = content q \<and> category cur = category q \<and> tags cur = tags q \<and> likes cur = likes p + 1)"
proof -
  have "j = i \<and> s' = replace_doc i q s"
    using assms(1,3) by (auto simp: like_load_def update_post_def split: sum.splits option.splits if_splits)
  then have "posts s' i = Some q" by (simp add: replace_doc_def)
  from like_save_valid[OF this assms(2)] show ?thesis by (simp add: replace_doc_def)
qed

text \<open>C23: A like whose post is deleted between its load and its save answers 500 and does not bring the post back.\<close>

theorem like_after_delete:
  assumes "like_load e s h idstr = Inr (i, p)" "delete_post e s h2 idstr = (s', Deleted)"
  shows "like_save t s' i p = (s', ServerError) \<and> posts s' i = None"
proof -
  have "s' = delete_doc i s"
    using assms by (auto simp: like_load_def delete_post_def split: sum.splits option.splits if_splits)
  then have "posts s' i = None" by (simp add: delete_doc_def)
  then show ?thesis by (simp add: like_save_def split: sum.splits)
qed

end
