(* ===== verification/Scroll.thy ===== *)
theory Scroll
  imports Client
begin

text \<open>
  Infinite scroll as a loop. Home.jsx registers \<open>handleScroll\<close> as the window's
  scroll listener (lines 44-47); each time the user reaches the bottom, the handler
  asks for the next page when no list action is loading and the last pagination says
  there is one (lines 28-42), and PostContext.jsx appends the answer. A user who keeps
  scrolling to the bottom runs that loop against the server; the collection does not
  change meanwhile. The loop is \<open>scroll_to_end\<close>, a
  \<^theory_text>\<open>partial_function (option)\<close>: \<open>None\<close> is a user who scrolls for ever.
\<close>

text \<open>The request \<open>handleScroll\<close> sends for page \<open>k\<close> (lines 35-39).\<close>

definition scroll_req :: "home \<Rightarrow> int \<Rightarrow> request" where
  "scroll_req h k =
     (if searchQuery h \<noteq> [] then search_request (searchQuery h) k else fetch_request k (selectedCategory h))"

text \<open>The filters the server builds from that request.\<close>

definition scroll_filters :: "home \<Rightarrow> filters" where
  "scroll_filters h =
     (if searchQuery h \<noteq> [] then \<lparr>f_category = None, f_search = Some (searchQuery h), f_tags = None\<rparr>
      else \<lparr>f_category = Some (selectedCategory h), f_search = None, f_tags = Some []\<rparr>)"

partial_function (option) scroll_to_end :: "env \<Rightarrow> time \<Rightarrow> store \<Rightarrow> home \<Rightarrow> post_ctx \<Rightarrow> post_ctx option" where
  "scroll_to_end e t s h c =
     (case scroll_request h c of
        None \<Rightarrow> Some c
      | Some (k, r) \<Rightarrow> scroll_to_end e t s h (list_loaded k (snd (handle e t s r)) (list_started c)))"

section \<open>Lemmas\<close>

lemma scroll_request_req:
  "scroll_request h c =
     (if \<not> ctx_loading c \<and> hasNext (ctx_pagination c)
      then Some (current (ctx_pagination c) + 1, scroll_req h (current (ctx_pagination c) + 1)) else None)"
  by (simp add: scroll_request_def scroll_req_def Let_def)

lemma scroll_answer:
  assumes "1 \<le> k"
  shows "snd (handle e t s (scroll_req h k)) =
    ListOk (map project (take 10 (drop (nat (k - 1) * 10) (find_sorted (text_idx e) (build_query (scroll_filters h)) s))))
      \<lparr>current = k, pages = js_ceil_div (int (length (matching (text_idx e) (build_query (scroll_filters h)) s))) 10,
       total = int (length (matching (text_idx e) (build_query (scroll_filters h)) s)),
       hasNext = k < js_ceil_div (int (length (matching (text_idx e) (build_query (scroll_filters h)) s))) 10,
       hasPrev = 1 < k\<rparr>"
  using assms
  by (simp add: scroll_req_def scroll_filters_def search_request_def fetch_request_def list_posts_def
      search_posts_def list_response_def int_or_def str_truthy_def get_posts_page)

lemma scroll_to_end_stop: "scroll_request h c = None \<Longrightarrow> scroll_to_end e t s h c = Some c"
  by (simp add: scroll_to_end.simps)

lemma scroll_to_end_step:
  "scroll_request h c = Some (k, r) \<Longrightarrow>
   scroll_to_end e t s h c = scroll_to_end e t s h (list_loaded k (snd (handle e t s r)) (list_started c))"
  by (simp add: scroll_to_end.simps)

lemma scroll_from_page:
  assumes "1 \<le> k" "nat (js_ceil_div (int (length (matching (text_idx e) (build_query (scroll_filters h)) s))) 10 - k) = m"
    and "\<not> ctx_loading c"
    and "ctx_pagination c =
      \<lparr>current = k, pages = js_ceil_div (int (length (matching (text_idx e) (build_query (scroll_filters h)) s))) 10,
       total = int (length (matching (text_idx e) (build_query (scroll_filters h)) s)),
       hasNext = k < js_ceil_div (int (length (matching (text_idx e) (build_query (scroll_filters h)) s))) 10,
       hasPrev = 1 < k\<rparr>"
  shows "\<exists>c'. scroll_to_end e t s h c = Some c' \<and>
           ctx_posts c' = ctx_posts c @ map item_card (map project
             (drop (nat k * 10) (find_sorted (text_idx e) (build_query (scroll_filters h)) s)))"
  using assms
proof (induction m arbitrary: k c)
  case 0
  let ?fs = "find_sorted (text_idx e) (build_query (scroll_filters h)) s"
  let ?n = "int (length (matching (text_idx e) (build_query (scroll_filters h)) s))"
  have "?n \<le> js_ceil_div ?n 10 * 10" by (rule js_ceil_div_bounds(1)) simp
  moreover have "js_ceil_div ?n 10 \<le> k" using "0.prems"(2) by simp
  ultimately have "?n \<le> k * 10" by linarith
  then have "length ?fs \<le> nat k * 10" using "0.prems"(1) by (simp add: length_find_sorted nat_mult_distrib)
  moreover have "scroll_request h c = None" using "0.prems" by (simp add: scroll_request_req)
  ultimately show ?case by (simp add: scroll_to_end_stop)
next
  case (Suc m)
  let ?fs = "find_sorted (text_idx e) (build_query (scroll_filters h)) s"
  let ?n = "int (length (matching (text_idx e) (build_query (scroll_filters h)) s))"
  let ?items = "map project (take 10 (drop (nat k * 10) ?fs))"
  let ?c2 = "list_loaded (k + 1) (snd (handle e t s (scroll_req h (k + 1)))) (list_started c)"
  have lt: "k < js_ceil_div ?n 10" using Suc.prems(2) by simp
  have req: "scroll_request h c = Some (k + 1, scroll_req h (k + 1))"
    using Suc.prems(3,4) lt by (simp add: scroll_request_req)
  have k1: "nat (k + 1 - 1) = nat k" by simp
  have ans: "snd (handle e t s (scroll_req h (k + 1))) =
      ListOk ?items \<lparr>current = k + 1, pages = js_ceil_div ?n 10, total = ?n,
                     hasNext = k + 1 < js_ceil_div ?n 10, hasPrev = 1 < k + 1\<rparr>"
    using scroll_answer[of "k + 1" e t s h] Suc.prems(1) unfolding k1 by simp
  have c2: "ctx_posts ?c2 = ctx_posts c @ map item_card ?items" "\<not> ctx_loading ?c2"
      "ctx_pagination ?c2 = \<lparr>current = k + 1, pages = js_ceil_div ?n 10, total = ?n,
                     hasNext = k + 1 < js_ceil_div ?n 10, hasPrev = 1 < k + 1\<rparr>"
    using Suc.prems(1) unfolding ans by (simp_all add: list_loaded_def list_started_def)
  have m: "nat (js_ceil_div ?n 10 - (k + 1)) = m" using Suc.prems(2) by simp
  obtain c' where c': "scroll_to_end e t s h ?c2 = Some c'"
      "ctx_posts c' = ctx_posts ?c2 @ map item_card (map project (drop (nat (k + 1) * 10) ?fs))"
    using Suc.IH[OF _ m c2(2) c2(3)] Suc.prems(1) by auto
  have "nat (k + 1) * 10 = 10 + nat k * 10" using Suc.prems(1) by simp
  then have "take 10 (drop (nat k * 10) ?fs) @ drop (nat (k + 1) * 10) ?fs = drop (nat k * 10) ?fs"
    by (simp only: drop_drop[symmetric] append_take_drop_id)
  then have "ctx_posts c' = ctx_posts c @ map item_card (map project (drop (nat k * 10) ?fs))"
    using c' c2(1) by (metis append_assoc map_append)
  then show ?case using c' scroll_to_end_step[OF req] by auto
qed

lemma scroll_loaded:
  "1 \<le> k \<Longrightarrow> list_loaded k (snd (handle e t s (scroll_req h k))) (list_started c) =
   c\<lparr>ctx_posts := (if k = 1 then [] else ctx_posts c) @ map item_card (map project
         (take 10 (drop (nat (k - 1) * 10) (find_sorted (text_idx e) (build_query (scroll_filters h)) s)))),
       ctx_pagination := \<lparr>current = k,
         pages = js_ceil_div (int (length (matching (text_idx e) (build_query (scroll_filters h)) s))) 10,
         total = int (length (matching (text_idx e) (build_query (scroll_filters h)) s)),
         hasNext = k < js_ceil_div (int (length (matching (text_idx e) (build_query (scroll_filters h)) s))) 10,
         hasPrev = 1 < k\<rparr>, ctx_loading := False\<rparr>"
  by (simp add: scroll_answer list_loaded_def list_started_def)

text \<open>C32: Infinite scroll terminates: from any state of the provider whose last page number is not negative, a user who keeps scrolling to the bottom over an unchanged collection reaches a state where \<open>handleScroll\<close> sends nothing more.\<close>

theorem scroll_terminates:
  assumes "0 \<le> current (ctx_pagination c)"
  shows "\<exists>c'. scroll_to_end e t s h c = Some c'"
proof (cases "scroll_request h c")
  case None
  then show ?thesis by (simp add: scroll_to_end_stop)
next
  case (Some kr)
  let ?k = "current (ctx_pagination c) + 1"
  let ?n = "int (length (matching (text_idx e) (build_query (scroll_filters h)) s))"
  let ?c2 = "list_loaded ?k (snd (handle e t s (scroll_req h ?k))) (list_started c)"
  have req: "scroll_request h c = Some (?k, scroll_req h ?k)"
    using Some by (simp add: scroll_request_req split: if_splits)
  have k: "1 \<le> ?k" using assms by simp
  have "\<exists>c'. scroll_to_end e t s h ?c2 = Some c' \<and>
           ctx_posts c' = ctx_posts ?c2 @ map item_card (map project
             (drop (nat ?k * 10) (find_sorted (text_idx e) (build_query (scroll_filters h)) s)))"
    by (rule scroll_from_page[OF k refl]) (simp_all add: scroll_loaded[OF k])
  then show ?thesis using scroll_to_end_step[OF req] by auto
qed

text \<open>C33: Scrolling reaches the end of the listing: after the first page of a category listing or of a search is shown, a user who keeps scrolling sees, when the scrolling stops, every match of that listing exactly once, in the server's \<open>updatedAt\<close>-descending order.\<close>

theorem scroll_reaches_end:
  "\<exists>c'. scroll_to_end e t s h (list_loaded 1 (snd (handle e t s (scroll_req h 1))) (list_started c)) = Some c' \<and>
        ctx_posts c' = map item_card (map project (find_sorted (text_idx e) (build_query (scroll_filters h)) s))"
proof -
  let ?fs = "find_sorted (text_idx e) (build_query (scroll_filters h)) s"
  let ?c1 = "list_loaded 1 (snd (handle e t s (scroll_req h 1))) (list_started c)"
  have c1: "ctx_posts ?c1 = map item_card (map project (take 10 ?fs))"
    by (simp add: scroll_loaded)
  have "\<exists>c'. scroll_to_end e t s h ?c1 = Some c' \<and>
          ctx_posts c' = ctx_posts ?c1 @ map item_card (map project (drop (nat 1 * 10) ?fs))"
    by (rule scroll_from_page[OF _ refl]) (simp_all add: scroll_loaded)
  then show ?thesis unfolding c1 by (auto simp flip: map_append)
qed

end
