(* ===== verification/Url.thy ===== *)
theory Url
  imports Text
begin

text \<open>
  The string conversions of the HTTP interface: \<open>Number.prototype.toString\<close> of an
  integer (the page numbers the client writes into URLs, PostContext.jsx lines 29,
  135 and 165) and \<open>parseInt\<close> without a radix (the server's reading of
  \<open>req.query.page\<close> and \<open>limit\<close>, posts.js lines 10-11, 185-186 and 205-206:
  leading white space, a sign, \<open>0x\<close> for hexadecimal, the longest digit prefix,
  \<open>NaN\<close> as \<open>None\<close>); the percent-encodings of \<open>URLSearchParams\<close>, of the
  browser's URL parser for a path, and their decodings by Express (\<open>qs\<close> for the
  query, \<open>decodeURIComponent\<close> for a path parameter); and the URL parser's split of
  a URL into path segments and query. Characters are bytes (HOL's \<open>char\<close>): a
  non-ASCII character stands for one byte of its UTF-8 encoding.
\<close>


definition digit_char :: "nat \<Rightarrow> char" where
  "digit_char d = char_of (48 + d)"

fun digits_of :: "nat \<Rightarrow> string" where
  "digits_of n = (if n < 10 then [digit_char n] else digits_of (n div 10) @ [digit_char (n mod 10)])"

definition js_int_to_string :: "int \<Rightarrow> string" where
  "js_int_to_string k = (if k < 0 then CHR ''-'' # digits_of (nat (- k)) else digits_of (nat k))"

definition js_digit :: "char \<Rightarrow> bool" where
  "js_digit c \<longleftrightarrow> 48 \<le> (of_char c :: nat) \<and> (of_char c :: nat) < 58"

definition digit_val :: "char \<Rightarrow> nat" where
  "digit_val c = (of_char c :: nat) - 48"

definition hex_val :: "char \<Rightarrow> nat option" where
  "hex_val c =
     (if js_digit c then Some (digit_val c)
      else if 97 \<le> (of_char c :: nat) \<and> (of_char c :: nat) \<le> 102 then Some (of_char c - 87)
      else if 65 \<le> (of_char c :: nat) \<and> (of_char c :: nat) \<le> 70 then Some (of_char c - 55) else None)"

definition radix_val :: "nat \<Rightarrow> (char \<Rightarrow> nat) \<Rightarrow> string \<Rightarrow> nat" where
  "radix_val b v ds = foldl (\<lambda>acc c. b * acc + v c) 0 ds"

definition js_parse_int :: "string \<Rightarrow> int option" where
  "js_parse_int s =
     (let t = dropWhile is_js_space s;
          (sg, u) = (case t of c # u \<Rightarrow> if c = CHR ''-'' then (-1, u) else if c = CHR ''+'' then (1, u) else (1, t)
                             | [] \<Rightarrow> (1, t))
      in if take 2 u = ''0x'' \<or> take 2 u = ''0X''
         then (let ds = takeWhile (\<lambda>c. hex_val c \<noteq> None) (drop 2 u)
               in if ds = [] then None else Some (sg * int (radix_val 16 (\<lambda>c. the (hex_val c)) ds)))
         else (let ds = takeWhile js_digit u
               in if ds = [] then None else Some (sg * int (radix_val 10 digit_val ds))))"

text \<open>Percent-encoding of one byte, with upper-case hexadecimal digits.\<close>

definition hex_char :: "nat \<Rightarrow> char" where
  "hex_char d = (if d < 10 then char_of (48 + d) else char_of (55 + d))"

definition pct :: "char \<Rightarrow> string" where
  "pct c = [CHR ''%'', hex_char (of_char c div 16), hex_char (of_char c mod 16)]"

text \<open>\<open>URLSearchParams\<close> serialisation (the application/x-www-form-urlencoded byte
  serializer): alphanumerics and \<open>*-._\<close> are kept, a space becomes \<open>+\<close>.\<close>

definition form_safe :: "char \<Rightarrow> bool" where
  "form_safe c \<longleftrightarrow> c \<in> set ''*-._'' \<or> js_digit c \<or>
     (65 \<le> (of_char c :: nat) \<and> (of_char c :: nat) \<le> 90) \<or> (97 \<le> (of_char c :: nat) \<and> (of_char c :: nat) \<le> 122)"

definition form_encode :: "string \<Rightarrow> string" where
  "form_encode s = concat (map (\<lambda>c. if form_safe c then [c] else if c = CHR '' '' then ''+'' else pct c) s)"

text \<open>\<open>decodeURIComponent\<close>: \<open>%\<close> must start two hexadecimal digits, or it throws
  (\<open>None\<close>).\<close>

fun pct_decode :: "string \<Rightarrow> string option" where
  "pct_decode [] = Some []"
| "pct_decode (c # cs) =
     (if c = CHR ''%'' then
        (case cs of
           h1 # h2 # rest \<Rightarrow>
             (case (hex_val h1, hex_val h2) of
                (Some a, Some b) \<Rightarrow> map_option (Cons (char_of (16 * a + b))) (pct_decode rest)
              | _ \<Rightarrow> None)
         | _ \<Rightarrow> None)
      else map_option (Cons c) (pct_decode cs))"

text \<open>The decoder of the \<open>qs\<close> query parser: \<open>+\<close> is a space, then
  \<open>decodeURIComponent\<close>, and on its failure the string as it is.\<close>

definition form_decode :: "string \<Rightarrow> string" where
  "form_decode s =
     (let t = map (\<lambda>c. if c = CHR ''+'' then CHR '' '' else c) s
      in case pct_decode t of Some r \<Rightarrow> r | None \<Rightarrow> t)"

text \<open>The browser's path percent-encode set: controls, space, \<open>"#<>?`{}\<close> and
  every byte above \<open>~\<close>.\<close>

definition path_encode :: "string \<Rightarrow> string" where
  "path_encode s =
     concat (map (\<lambda>c. if (of_char c :: nat) \<le> 32 \<or> c \<in> set ''\"#<>?`{}'' \<or> 126 < (of_char c :: nat)
                       then pct c else [c]) s)"

fun split_on :: "char \<Rightarrow> string \<Rightarrow> string list" where
  "split_on d [] = [[]]"
| "split_on d (c # cs) =
     (if c = d then [] # split_on d cs
      else (case split_on d cs of [] \<Rightarrow> [[c]] | w # ws \<Rightarrow> (c # w) # ws))"

text \<open>The URL parser's treatment of dot segments: \<open>.\<close> is dropped, \<open>..\<close> drops the
  segment before it; either at the end leaves an empty last segment.\<close>

fun resolve_segs :: "string list \<Rightarrow> string list \<Rightarrow> string list" where
  "resolve_segs acc [] = acc"
| "resolve_segs acc (s # ss) =
     (if s = ''..'' then resolve_segs (butlast acc @ (if ss = [] then [[]] else [])) ss
      else if s = ''.'' then resolve_segs (acc @ (if ss = [] then [[]] else [])) ss
      else resolve_segs (acc @ [s]) ss)"

text \<open>
  The URL parser on a path-absolute URL: tabs and newlines are removed, the fragment
  after \<open>#\<close> is dropped, the query starts at the first \<open>?\<close>, a backslash in the path
  is a slash, and the path's segments are percent-encoded and resolved. The result
  is the list of path segments and the query string.
\<close>

definition url_parts :: "string \<Rightarrow> string list \<times> string" where
  "url_parts u =
     (let v = takeWhile (\<lambda>c. c \<noteq> CHR ''#'') (filter (\<lambda>c. c \<notin> set [CHR 0x09, CHR 0x0A, CHR 0x0D]) u);
          path = map (\<lambda>c. if c = CHR 0x5C then CHR ''/'' else c) (takeWhile (\<lambda>c. c \<noteq> CHR ''?'') v);
          query = drop 1 (dropWhile (\<lambda>c. c \<noteq> CHR ''?'') v)
      in (resolve_segs [] (map path_encode (tl (split_on CHR ''/'' path))), query))"

text \<open>The \<open>qs\<close> parser on a query string: non-empty parts between \<open>&\<close>, a key up to
  the first \<open>=\<close>, both decoded; a key's first value is the one a route reads.\<close>

definition query_params :: "string \<Rightarrow> (string \<times> string) list" where
  "query_params q =
     map (\<lambda>p. (form_decode (takeWhile (\<lambda>c. c \<noteq> CHR ''='') p), form_decode (drop 1 (dropWhile (\<lambda>c. c \<noteq> CHR ''='') p))))
       (filter (\<lambda>p. p \<noteq> []) (split_on CHR ''&'' q))"

definition query_get :: "string \<Rightarrow> string \<Rightarrow> string option" where
  "query_get q k = map_of (query_params q) k"


declare digits_of.simps [simp del]

lemma digit_char_props: "d < 10 \<Longrightarrow> js_digit (digit_char d) \<and> digit_val (digit_char d) = d"
  by (simp add: digit_char_def js_digit_def digit_val_def)

lemma digits_of_digits: "\<forall>c\<in>set (digits_of n). js_digit c"
proof (induction n rule: digits_of.induct)
  case (1 n)
  then show ?case by (subst digits_of.simps) (auto simp: digit_char_props)
qed

lemma digits_of_nonempty: "digits_of n \<noteq> []"
  by (subst digits_of.simps) simp

lemma radix_val_digits_of: "radix_val 10 digit_val (digits_of n) = n"
proof (induction n rule: digits_of.induct)
  case (1 n)
  then show ?case by (subst digits_of.simps) (auto simp: radix_val_def digit_char_props)
qed

lemma is_digit_not_special: "js_digit c \<Longrightarrow> \<not> is_js_space c \<and> c \<noteq> CHR ''-'' \<and> c \<noteq> CHR ''+'' \<and> c \<noteq> CHR ''x'' \<and> c \<noteq> CHR ''X''"
  by (auto simp: js_digit_def is_js_space_def)

lemma parse_digits:
  assumes "\<forall>c\<in>set ds. js_digit c" "ds \<noteq> []"
  shows "js_parse_int ds = Some (int (radix_val 10 digit_val ds))"
    and "js_parse_int (CHR ''-'' # ds) = Some (- int (radix_val 10 digit_val ds))"
proof -
  obtain c cs where ds: "ds = c # cs" using assms(2) by (cases ds) auto
  have c: "js_digit c" "\<forall>x\<in>set cs. js_digit x" using assms(1) ds by simp_all
  have x: "\<not> (c = CHR ''0'' \<and> take 1 cs = ''x'')" "\<not> (c = CHR ''0'' \<and> take 1 cs = ''X'')"
    using c is_digit_not_special by (cases cs; auto)+
  have tw: "takeWhile js_digit cs = cs" using c(2) by (simp add: takeWhile_eq_all_conv)
  show "js_parse_int ds = Some (int (radix_val 10 digit_val ds))"
    using c x is_digit_not_special[OF c(1)] unfolding ds by (auto simp: js_parse_int_def Let_def tw)
  show "js_parse_int (CHR ''-'' # ds) = Some (- int (radix_val 10 digit_val ds))"
    using c x is_digit_not_special[OF c(1)] unfolding ds by (auto simp: js_parse_int_def Let_def is_js_space_def tw)
qed

theorem parse_int_roundtrip: "js_parse_int (js_int_to_string k) = Some k"
  using parse_digits[OF digits_of_digits digits_of_nonempty]
  by (simp add: js_int_to_string_def radix_val_digits_of)


lemma hex_val_hex_char: "d < 16 \<Longrightarrow> hex_val (hex_char d) = Some d"
  by (auto simp: hex_char_def hex_val_def js_digit_def digit_val_def)

lemma hex_char_safe: "d < 16 \<Longrightarrow> form_safe (hex_char d)"
  by (auto simp: hex_char_def form_safe_def js_digit_def)

lemma of_char_div_16: "(of_char c :: nat) div 16 < 16"
  using nat_of_char_less_256[of c] by (simp add: less_mult_imp_div_less)

lemma pct_chars: "x \<in> set (pct c) \<Longrightarrow> x = CHR ''%'' \<or> form_safe x"
  using hex_char_safe[OF of_char_div_16[of c]] hex_char_safe[of "of_char c mod 16"] by (auto simp: pct_def)

lemma pct_decode_pct: "pct_decode (pct c @ rest) = map_option (Cons c) (pct_decode rest)"
proof -
  have "16 * (of_char c div 16) + of_char c mod 16 = (of_char c :: nat)" by simp
  then show ?thesis
    by (simp add: pct_def hex_val_hex_char[OF of_char_div_16] hex_val_hex_char[of "of_char c mod 16"])
qed

lemma pct_decode_plain:
  "CHR ''%'' \<notin> set s \<Longrightarrow> pct_decode (s @ rest) = (case pct_decode rest of None \<Rightarrow> None | Some r \<Rightarrow> Some (s @ r))"
  by (induction s) (auto split: option.splits)

lemma form_encode_chars: "c \<in> set (form_encode s) \<Longrightarrow> form_safe c \<or> c = CHR ''+'' \<or> c = CHR ''%''"
  by (auto simp: form_encode_def dest: pct_chars split: if_splits)

lemma form_roundtrip: "form_decode (form_encode s) = s"
proof -
  let ?pl = "\<lambda>c. if c = CHR ''+'' then CHR '' '' else c"
  have "pct_decode (map ?pl (form_encode s)) = Some s"
  proof (induction s)
    case Nil
    then show ?case by (simp add: form_encode_def)
  next
    case (Cons c s)
    have "x \<in> set (pct c) \<Longrightarrow> x \<noteq> CHR ''+''" for x by (auto dest: pct_chars simp: form_safe_def js_digit_def)
    then have pl: "map ?pl (pct c) = pct c" by (simp add: map_idI)
    have "form_encode (c # s) = (if form_safe c then [c] else if c = CHR '' '' then ''+'' else pct c) @ form_encode s"
      by (simp add: form_encode_def)
    then show ?case using Cons pl
      by (auto simp: pct_decode_pct form_safe_def js_digit_def)
  qed
  then show ?thesis by (simp add: form_decode_def)
qed

lemma path_roundtrip: "CHR ''%'' \<notin> set s \<Longrightarrow> pct_decode (path_encode s) = Some s"
proof (induction s)
  case Nil
  then show ?case by (simp add: path_encode_def)
next
  case (Cons c s)
  have "path_encode (c # s) = (if (of_char c :: nat) \<le> 32 \<or> c \<in> set ''\"#<>?`{}'' \<or> 126 < (of_char c :: nat)
                       then pct c else [c]) @ path_encode s"
    by (simp add: path_encode_def)
  then show ?case using Cons by (auto simp: pct_decode_pct)
qed

lemma split_on_free: "d \<notin> set a \<Longrightarrow> split_on d a = [a]"
  by (induction a) auto

lemma split_on_append: "d \<notin> set a \<Longrightarrow> split_on d (a @ d # b) = a # split_on d b"
  by (induction a) (auto split: list.splits)

lemma form_encode_free:
  "c \<in> set (form_encode s) \<Longrightarrow> c \<notin> set ''&=#?'' \<and> c \<notin> set [CHR 0x09, CHR 0x0A, CHR 0x0D, CHR 0x5C]"
  by (drule form_encode_chars) (auto simp: form_safe_def js_digit_def)

lemma int_string_chars: "c \<in> set (js_int_to_string k) \<Longrightarrow> js_digit c \<or> c = CHR ''-''"
  using digits_of_digits by (auto simp: js_int_to_string_def split: if_splits)

lemma form_decode_plain:
  assumes "CHR ''+'' \<notin> set s" "CHR ''%'' \<notin> set s"
  shows "form_decode s = s"
proof -
  have "map (\<lambda>c. if c = CHR ''+'' then CHR '' '' else c) s = s" using assms(1) by (auto intro: map_idI)
  then show ?thesis using pct_decode_plain[OF assms(2), of "[]"] by (simp add: form_decode_def)
qed

lemma url_parts_split:
  assumes "\<forall>c\<in>set p. c \<notin> set [CHR ''?'', CHR ''#'', CHR 0x09, CHR 0x0A, CHR 0x0D, CHR 0x5C]"
    and "\<forall>c\<in>set q. c \<notin> set [CHR ''#'', CHR 0x09, CHR 0x0A, CHR 0x0D]"
  shows "url_parts (p @ CHR ''?'' # q) = (resolve_segs [] (map path_encode (tl (split_on CHR ''/'' p))), q)"
proof -
  have f: "filter (\<lambda>c. c \<notin> set [CHR 0x09, CHR 0x0A, CHR 0x0D]) (p @ CHR ''?'' # q) = p @ CHR ''?'' # q"
    using assms by (simp add: filter_id_conv)
  have h: "takeWhile (\<lambda>c. c \<noteq> CHR ''#'') (p @ CHR ''?'' # q) = p @ CHR ''?'' # q"
    using assms by (simp add: takeWhile_eq_all_conv)
  have p: "\<forall>c\<in>set p. c \<noteq> CHR ''?''" "\<forall>c\<in>set p. c \<noteq> CHR 0x5C" using assms(1) by auto
  have t: "takeWhile (\<lambda>c. c \<noteq> CHR ''?'') (p @ CHR ''?'' # q) = p"
    using p(1) by (simp add: takeWhile_append2)
  have d: "dropWhile (\<lambda>c. c \<noteq> CHR ''?'') (p @ CHR ''?'' # q) = CHR ''?'' # q"
    using p(1) by (simp add: dropWhile_append2)
  have b: "map (\<lambda>c. if c = CHR 0x5C then CHR ''/'' else c) p = p"
    using p(2) by (simp add: map_idI)
  show ?thesis unfolding url_parts_def Let_def f h t d b by simp
qed

lemma query_params_cons:
  assumes "\<forall>c\<in>set k. c \<notin> set ''&=''" "\<forall>c\<in>set v. c \<noteq> CHR ''&''"
  shows "query_params (k @ CHR ''='' # v @ CHR ''&'' # r) = (form_decode k, form_decode v) # query_params r"
proof -
  have "split_on CHR ''&'' ((k @ CHR ''='' # v) @ CHR ''&'' # r) = (k @ CHR ''='' # v) # split_on CHR ''&'' r"
    using assms by (intro split_on_append) auto
  then show ?thesis using assms by (simp add: query_params_def takeWhile_append2 dropWhile_append2)
qed

lemma query_params_last:
  assumes "\<forall>c\<in>set k. c \<notin> set ''&=''" "\<forall>c\<in>set v. c \<noteq> CHR ''&''"
  shows "query_params (k @ CHR ''='' # v) = [(form_decode k, form_decode v)]"
proof -
  have "split_on CHR ''&'' (k @ CHR ''='' # v) = [k @ CHR ''='' # v]"
    using assms by (intro split_on_free) auto
  then show ?thesis using assms by (simp add: query_params_def takeWhile_append2 dropWhile_append2)
qed

lemma url_parts_noquery:
  assumes "\<forall>c\<in>set p. c \<notin> set [CHR ''?'', CHR ''#'', CHR 0x09, CHR 0x0A, CHR 0x0D, CHR 0x5C]"
  shows "url_parts p = (resolve_segs [] (map path_encode (tl (split_on CHR ''/'' p))), [])"
proof -
  have f: "filter (\<lambda>c. c \<notin> set [CHR 0x09, CHR 0x0A, CHR 0x0D]) p = p"
    using assms by (simp add: filter_id_conv)
  have h: "takeWhile (\<lambda>c. c \<noteq> CHR ''#'') p = p"
    using assms by (simp add: takeWhile_eq_all_conv)
  have p: "\<forall>c\<in>set p. c \<noteq> CHR ''?''" "\<forall>c\<in>set p. c \<noteq> CHR 0x5C" using assms by auto
  have t: "takeWhile (\<lambda>c. c \<noteq> CHR ''?'') p = p" using p(1) by (simp add: takeWhile_eq_all_conv)
  have d: "dropWhile (\<lambda>c. c \<noteq> CHR ''?'') p = []" using p(1) by (simp add: dropWhile_eq_Nil_conv)
  have b: "map (\<lambda>c. if c = CHR 0x5C then CHR ''/'' else c) p = p" using p(2) by (simp add: map_idI)
  show ?thesis unfolding url_parts_def Let_def f h t d b by simp
qed

text \<open>A segment that the URL parser keeps as it is and Express decodes back to itself.\<close>

lemma plain_segment:
  assumes "q \<noteq> []" "\<forall>c\<in>set q. c \<notin> set ''/?#%'' \<and> c \<notin> set [CHR 0x09, CHR 0x0A, CHR 0x0D, CHR 0x5C]"
    and "q \<noteq> ''.''" "q \<noteq> ''..''"
  shows "pct_decode (path_encode q) = Some q" "path_encode q \<noteq> []" "path_encode q \<noteq> ''.''"
    "path_encode q \<noteq> ''..''" "split_on CHR ''/'' q = [q]"
proof -
  show d: "pct_decode (path_encode q) = Some q" using assms(2) by (intro path_roundtrip) auto
  show "path_encode q \<noteq> []" using d assms(1) by auto
  show "path_encode q \<noteq> ''.''" using d assms(3) by auto
  show "path_encode q \<noteq> ''..''" using d assms(4) by auto
  show "split_on CHR ''/'' q = [q]" using assms(2) by (intro split_on_free) auto
qed

end
