(* ===== verification/Api.thy ===== *)
theory Api
  imports Client Url
begin

text \<open>
  The HTTP interface between the client and the server. \<open>route_answers\<close> is the
  type of each route of src/server/routes/posts.js: the answers its
  \<open>res.status(...).json(...)\<close> calls can produce, read off the handler's code and
  its \<open>auth\<close> middleware.
\<close>

fun route_answers :: "request \<Rightarrow> response \<Rightarrow> bool" where
  "route_answers (ListPosts _ _ _ _ _) a = (case a of ListOk _ _ \<Rightarrow> True | ServerError \<Rightarrow> True | _ \<Rightarrow> False)"
| "route_answers (PostsByCategory _ _ _) a = (case a of ListOk _ _ \<Rightarrow> True | ServerError \<Rightarrow> True | _ \<Rightarrow> False)"
| "route_answers (SearchPosts _ _ _) a = (case a of ListOk _ _ \<Rightarrow> True | ServerError \<Rightarrow> True | _ \<Rightarrow> False)"
| "route_answers FeaturedPosts a = (case a of FeaturedOk _ \<Rightarrow> True | ServerError \<Rightarrow> True | _ \<Rightarrow> False)"
| "route_answers (GetPost _) a = (case a of PostOk _ _ \<Rightarrow> True | NotFound \<Rightarrow> True | ServerError \<Rightarrow> True | _ \<Rightarrow> False)"
| "route_answers (CreatePost _ _) a =
     (case a of Created _ _ \<Rightarrow> True | Unauthorized _ \<Rightarrow> True | ServerError \<Rightarrow> True | _ \<Rightarrow> False)"
| "route_answers (UpdatePost _ _ _) a =
     (case a of PostOk _ _ \<Rightarrow> True | Unauthorized _ \<Rightarrow> True | NotFound \<Rightarrow> True | Forbidden \<Rightarrow> True
        | ServerError \<Rightarrow> True | _ \<Rightarrow> False)"
| "route_answers (DeletePost _ _) a =
     (case a of Deleted \<Rightarrow> True | Unauthorized _ \<Rightarrow> True | NotFound \<Rightarrow> True | Forbidden \<Rightarrow> True
        | ServerError \<Rightarrow> True | _ \<Rightarrow> False)"
| "route_answers (LikePost _ _) a =
     (case a of Liked _ \<Rightarrow> True | Unauthorized _ \<Rightarrow> True | NotFound \<Rightarrow> True | ServerError \<Rightarrow> True | _ \<Rightarrow> False)"

text \<open>
  The router: the Express application of src/server/index.js mounts the posts router
  at \<open>/api/posts\<close> and the authentication router at \<open>/api/auth\<close>, answers
  \<open>/api/health\<close>, and answers 404 to every other path (lines 22-39). The posts
  router (posts.js) matches its paths in the order they are registered; a
  parameter is one non-empty segment, decoded by \<open>decodeURIComponent\<close> (a failure is an
  error of status 400, which the application's error middleware answers with 500); one trailing slash is ignored. \<open>endpoint\<close> is the route reached.
\<close>

datatype http_method = GET | POST | PUT | DELETE

datatype endpoint = EList | EGet string | ECreate | EUpdate string | EDelete string | ELike string
  | EFeatured | ECategory string | ESearch string | EHealth | EAuthRoutes | ENotFound | EBadRequest

definition seg_param :: "(string \<Rightarrow> endpoint) \<Rightarrow> string \<Rightarrow> endpoint" where
  "seg_param f seg = (if seg = [] then ENotFound else case pct_decode seg of None \<Rightarrow> EBadRequest | Some v \<Rightarrow> f v)"

fun posts_route :: "http_method \<Rightarrow> string list \<Rightarrow> endpoint" where
  "posts_route GET [] = EList"
| "posts_route POST [] = ECreate"
| "posts_route GET [i] = seg_param EGet i"
| "posts_route PUT [i] = seg_param EUpdate i"
| "posts_route DELETE [i] = seg_param EDelete i"
| "posts_route POST [i, l] = (if l = ''like'' then seg_param ELike i else ENotFound)"
| "posts_route GET [a, b] =
     (if a = ''featured'' \<and> b = ''list'' then EFeatured
      else if a = ''category'' then seg_param ECategory b
      else if a = ''search'' then seg_param ESearch b else ENotFound)"
| "posts_route _ _ = ENotFound"

definition app_route :: "http_method \<Rightarrow> string list \<Rightarrow> endpoint" where
  "app_route m segs =
     (let ss = (if segs \<noteq> [] \<and> last segs = [] then butlast segs else segs)
      in if take 2 ss = [''api'', ''posts''] then posts_route m (drop 2 ss)
         else if take 2 ss = [''api'', ''auth''] then EAuthRoutes
         else if m = GET \<and> ss = [''api'', ''health''] then EHealth else ENotFound)"

text \<open>
  The request a handler of posts.js receives for a method, a URL, the
  \<open>Authorization\<close> header and the JSON body: the route's parameters, and
  \<open>parseInt\<close> of the \<open>page\<close> and \<open>limit\<close> query values (lines 10-14, 185-187,
  205-207). \<open>None\<close> is a request no posts handler answers.
\<close>

definition request_of ::
  "http_method \<Rightarrow> string \<Rightarrow> string option \<Rightarrow> create_body \<Rightarrow> update_body \<Rightarrow> request option" where
  "request_of m u h cb ub =
     (let (segs, q) = url_parts u;
          page = Option.bind (query_get q ''page'') js_parse_int;
          limit = Option.bind (query_get q ''limit'') js_parse_int
      in case app_route m segs of
           EList \<Rightarrow> Some (ListPosts page limit (query_get q ''category'') (query_get q ''search'') (query_get q ''tags''))
         | EGet i \<Rightarrow> Some (GetPost i)
         | ECreate \<Rightarrow> Some (CreatePost h cb)
         | EUpdate i \<Rightarrow> Some (UpdatePost h i ub)
         | EDelete i \<Rightarrow> Some (DeletePost h i)
         | ELike i \<Rightarrow> Some (LikePost h i)
         | EFeatured \<Rightarrow> Some FeaturedPosts
         | ECategory c \<Rightarrow> Some (PostsByCategory c page limit)
         | ESearch s \<Rightarrow> Some (SearchPosts s page limit)
         | _ \<Rightarrow> None)"

text \<open>
  The URLs the provider of PostContext.jsx builds (the origin left out):
  \<open>fetchPosts\<close> serialises its parameters with \<open>URLSearchParams\<close> (lines 28-34);
  \<open>searchPosts\<close> and \<open>getPostsByCategory\<close> put the query or category into the path
  by a template literal, unencoded (lines 135, 165); \<open>fetchPost\<close>, \<open>deletePost\<close>
  and \<open>likePost\<close> put the identifier into the path (lines 53, 98, 113).
\<close>

definition fetch_url :: "int \<Rightarrow> string \<Rightarrow> string" where
  "fetch_url page cat =
     ''/api/posts?page='' @ form_encode (js_int_to_string page) @ ''&limit='' @ form_encode ''10'' @
     ''&category='' @ form_encode cat"

definition search_url :: "string \<Rightarrow> int \<Rightarrow> string" where
  "search_url q page = ''/api/posts/search/'' @ q @ ''?page='' @ js_int_to_string page @ ''&limit=10''"

definition category_url :: "string \<Rightarrow> int \<Rightarrow> string" where
  "category_url c page = ''/api/posts/category/'' @ c @ ''?page='' @ js_int_to_string page @ ''&limit=10''"

definition post_url :: "string \<Rightarrow> string" where
  "post_url i = ''/api/posts/'' @ i"

definition like_url :: "string \<Rightarrow> string" where
  "like_url i = ''/api/posts/'' @ i @ ''/like''"

definition create_url :: string where
  "create_url = ''/api/posts''"

definition featured_url :: string where
  "featured_url = ''/api/posts/featured/list''"

section \<open>Lemmas\<close>

lemma list_response_answers:
  "(case list_response e s page limit f of ListOk _ _ \<Rightarrow> True | ServerError \<Rightarrow> True | _ \<Rightarrow> False)"
  "list_response e s page limit f \<noteq> PostOk i p"
  by (simp_all add: list_response_def split: sum.splits)

lemma js_parse_int_10: "js_parse_int ''10'' = Some 10"
  by (simp add: js_parse_int_def radix_val_def js_digit_def digit_val_def is_js_space_def)

lemma int_string_plain: "\<forall>c\<in>set (js_int_to_string k). c \<notin> set ''&=+%#?/'' \<and> c \<notin> set [CHR 0x09, CHR 0x0A, CHR 0x0D, CHR 0x5C]"
  by (auto dest: int_string_chars simp: js_digit_def)

lemma paged_query_params:
  "query_params (''page'' @ CHR ''='' # js_int_to_string k @ CHR ''&'' # (''limit'' @ CHR ''='' # ''10'')) =
   [(''page'', js_int_to_string k), (''limit'', ''10'')]"
proof -
  have s: "CHR ''+'' \<notin> set (js_int_to_string k)" "CHR ''%'' \<notin> set (js_int_to_string k)"
    using int_string_plain[of k] by auto
  have "query_params (''page'' @ CHR ''='' # js_int_to_string k @ CHR ''&'' # (''limit'' @ CHR ''='' # ''10'')) =
      (form_decode ''page'', form_decode (js_int_to_string k)) # query_params (''limit'' @ CHR ''='' # ''10'')"
    by (rule query_params_cons) (use int_string_plain[of k] in auto)
  moreover have "query_params (''limit'' @ CHR ''='' # ''10'') = [(form_decode ''limit'', form_decode ''10'')]"
    by (rule query_params_last) auto
  ultimately show ?thesis by (simp add: form_decode_plain s)
qed

lemma param_url_request:
  assumes w: "\<forall>c\<in>set w. c \<notin> set [CHR ''/'', CHR ''?'', CHR ''#'', CHR 0x09, CHR 0x0A, CHR 0x0D, CHR 0x5C]"
      "path_encode w = w" "w \<noteq> ''.''" "w \<noteq> ''..''"
    and q: "q \<noteq> []" "\<forall>c\<in>set q. c \<notin> set ''/?#%'' \<and> c \<notin> set [CHR 0x09, CHR 0x0A, CHR 0x0D, CHR 0x5C]"
      "q \<noteq> ''.''" "q \<noteq> ''..''"
  shows "url_parts (''/api/posts/'' @ w @ CHR ''/'' # q @ CHR ''?'' #
            (''page'' @ CHR ''='' # js_int_to_string k @ CHR ''&'' # (''limit'' @ CHR ''='' # ''10''))) =
         ([''api'', ''posts'', w, path_encode q],
          ''page'' @ CHR ''='' # js_int_to_string k @ CHR ''&'' # (''limit'' @ CHR ''='' # ''10''))"
proof -
  note seg = plain_segment[OF q]
  have qc: "\<forall>c\<in>set q. c \<notin> set [CHR ''?'', CHR ''#'', CHR 0x09, CHR 0x0A, CHR 0x0D, CHR 0x5C]"
    using q(2) by simp
  have p: "\<forall>c\<in>set (''/api/posts/'' @ w @ CHR ''/'' # q). c \<notin> set [CHR ''?'', CHR ''#'', CHR 0x09, CHR 0x0A, CHR 0x0D, CHR 0x5C]"
    using w(1) qc by (simp add: ball_Un)
  have r: "\<forall>c\<in>set (''page'' @ CHR ''='' # js_int_to_string k @ CHR ''&'' # (''limit'' @ CHR ''='' # ''10'')).
      c \<notin> set [CHR ''#'', CHR 0x09, CHR 0x0A, CHR 0x0D]"
    using int_string_plain[of k] by simp
  have wf: "CHR ''/'' \<notin> set w" using w(1) by auto
  have sp: "split_on CHR ''/'' (''/api/posts/'' @ w @ CHR ''/'' # q) = [[], ''api'', ''posts'', w, q]"
    by (simp add: split_on_append wf seg(5))
  have pe: "path_encode ''api'' = ''api''" "path_encode ''posts'' = ''posts''"
    by (simp_all add: path_encode_def)
  have "url_parts ((''/api/posts/'' @ w @ CHR ''/'' # q) @ CHR ''?'' #
            (''page'' @ CHR ''='' # js_int_to_string k @ CHR ''&'' # (''limit'' @ CHR ''='' # ''10''))) =
         (resolve_segs [] (map path_encode (tl (split_on CHR ''/'' (''/api/posts/'' @ w @ CHR ''/'' # q)))),
          ''page'' @ CHR ''='' # js_int_to_string k @ CHR ''&'' # (''limit'' @ CHR ''='' # ''10''))"
    by (rule url_parts_split[OF p r])
  then show ?thesis unfolding sp by (simp add: pe w(2-4) seg)
qed

lemma id_url_parts:
  assumes q: "q \<noteq> []" "\<forall>c\<in>set q. c \<notin> set ''/?#%'' \<and> c \<notin> set [CHR 0x09, CHR 0x0A, CHR 0x0D, CHR 0x5C]"
      "q \<noteq> ''.''" "q \<noteq> ''..''"
  shows "url_parts (''/api/posts/'' @ q) = ([''api'', ''posts'', path_encode q], [])"
    "url_parts (''/api/posts/'' @ q @ ''/like'') = ([''api'', ''posts'', path_encode q, ''like''], [])"
proof -
  note seg = plain_segment[OF q]
  have qc: "\<forall>c\<in>set q. c \<notin> set [CHR ''?'', CHR ''#'', CHR 0x09, CHR 0x0A, CHR 0x0D, CHR 0x5C]"
    using q(2) by simp
  have qs: "CHR ''/'' \<notin> set q" using q(2) by auto
  have pe: "path_encode ''api'' = ''api''" "path_encode ''posts'' = ''posts''" "path_encode ''like'' = ''like''"
    by (simp_all add: path_encode_def)
  have "url_parts (''/api/posts/'' @ q) =
      (resolve_segs [] (map path_encode (tl (split_on CHR ''/'' (''/api/posts/'' @ q)))), [])"
    by (rule url_parts_noquery) (use qc in simp)
  moreover have "split_on CHR ''/'' (''/api/posts/'' @ q) = [[], ''api'', ''posts'', q]"
    by (simp add: split_on_append seg(5))
  ultimately show "url_parts (''/api/posts/'' @ q) = ([''api'', ''posts'', path_encode q], [])"
    by (simp add: pe seg)
  have "url_parts (''/api/posts/'' @ q @ ''/like'') =
      (resolve_segs [] (map path_encode (tl (split_on CHR ''/'' (''/api/posts/'' @ q @ ''/like'')))), [])"
    by (rule url_parts_noquery) (use qc in simp)
  moreover have "split_on CHR ''/'' (''/api/posts/'' @ q @ CHR ''/'' # ''like'') = [[], ''api'', ''posts'', q, ''like'']"
    by (simp add: split_on_append qs split_on_free)
  ultimately show "url_parts (''/api/posts/'' @ q @ ''/like'') = ([''api'', ''posts'', path_encode q, ''like''], [])"
    by (simp add: pe seg)
qed

lemma fixed_url_parts:
  "url_parts create_url = ([''api'', ''posts''], [])"
  "url_parts featured_url = ([''api'', ''posts'', ''featured'', ''list''], [])"
  by (simp_all add: create_url_def featured_url_def url_parts_def path_encode_def)

lemma fixed_url_requests:
  "request_of POST create_url h cb ub = Some (CreatePost h cb)"
  "request_of GET featured_url h cb ub = Some FeaturedPosts"
  unfolding request_of_def fixed_url_parts prod.case Let_def by (simp_all add: app_route_def)

text \<open>C34: Every answer of the server has the type of its route: a listing answers a page or 500; a fetch answers the post, 404 or 500; create, update, delete and like answer their success value or one of the failures their code lists (401 from \<open>auth\<close>, 403 from the ownership guard, 404, 500), and nothing else; an answer for a post carries the identifier the request named.\<close>

theorem handle_answers:
  "route_answers r (snd (handle e t s r)) \<and>
   (\<forall>i p. snd (handle e t s r) = PostOk i p \<longrightarrow> (\<exists>idstr. (r = GetPost idstr \<or> (\<exists>h b. r = UpdatePost h idstr b)) \<and> cast_id e idstr = Some i))"
proof (cases r)
  case (ListPosts page limit cat search tagq)
  then show ?thesis by (simp add: list_posts_def list_response_answers)
next
  case (PostsByCategory cat page limit)
  then show ?thesis by (simp add: posts_by_category_def list_response_answers)
next
  case (SearchPosts q page limit)
  then show ?thesis by (simp add: search_posts_def list_response_answers)
qed (auto simp: get_post_def create_post_def update_post_def delete_post_def like_post_def split_def Let_def
      split: option.splits sum.splits if_splits)

text \<open>C35: The listing URL of \<open>fetchPosts\<close>, serialised by \<open>URLSearchParams\<close>, reaches the listing route with the page, the limit of 10 and the category it was built from, whatever characters the category holds.\<close>

theorem fetch_url_roundtrip: "request_of GET (fetch_url k cat) h cb ub = Some (fetch_request k cat)"
proof -
  let ?A = "form_encode (js_int_to_string k)" and ?L = "form_encode ''10''" and ?B = "form_encode cat"
  let ?Q = "''page'' @ CHR ''='' # ?A @ CHR ''&'' # (''limit'' @ CHR ''='' # ?L @ CHR ''&'' # (''category'' @ CHR ''='' # ?B))"
  have u: "fetch_url k cat = ''/api/posts'' @ CHR ''?'' # ?Q" by (simp add: fetch_url_def)
  have q: "\<forall>c\<in>set ?Q. c \<notin> set [CHR ''#'', CHR 0x09, CHR 0x0A, CHR 0x0D]" by (auto dest: form_encode_free)
  have parts: "url_parts (fetch_url k cat) = ([''api'', ''posts''], ?Q)"
    unfolding u by (subst url_parts_split[OF _ q]) (simp_all add: path_encode_def)
  have nf: "\<forall>c\<in>set ?A. c \<noteq> CHR ''&''" "\<forall>c\<in>set ?L. c \<noteq> CHR ''&''" "\<forall>c\<in>set ?B. c \<noteq> CHR ''&''"
    by (auto dest: form_encode_free)
  have q1: "query_params ?Q = (form_decode ''page'', form_decode ?A) #
      query_params (''limit'' @ CHR ''='' # ?L @ CHR ''&'' # (''category'' @ CHR ''='' # ?B))"
    by (rule query_params_cons) (simp_all add: nf)
  have q2: "query_params (''limit'' @ CHR ''='' # ?L @ CHR ''&'' # (''category'' @ CHR ''='' # ?B)) =
      (form_decode ''limit'', form_decode ?L) # query_params (''category'' @ CHR ''='' # ?B)"
    by (rule query_params_cons) (simp_all add: nf)
  have q3: "query_params (''category'' @ CHR ''='' # ?B) = [(form_decode ''category'', form_decode ?B)]"
    by (rule query_params_last) (simp_all add: nf)
  have lit: "form_decode ''page'' = ''page''" "form_decode ''limit'' = ''limit''" "form_decode ''category'' = ''category''"
    by (simp_all add: form_decode_plain)
  have qp: "query_params ?Q = [(''page'', js_int_to_string k), (''limit'', ''10''), (''category'', cat)]"
    unfolding q1 q2 q3 lit form_roundtrip by simp
  show ?thesis unfolding request_of_def parts prod.case Let_def query_get_def qp
    by (simp add: app_route_def parse_int_roundtrip js_parse_int_10 fetch_request_def)
qed

text \<open>The search and category URLs of PostContext.jsx reach the route and the parameter they mean, with the page and limit parsed back, when the query or category is a non-empty string without the characters the URL parser treats specially (\<open>/ ? # %\<close>, a backslash, tab or line break) and is not a dot segment.\<close>

lemma search_category_urls:
  assumes "q \<noteq> []" "\<forall>c\<in>set q. c \<notin> set ''/?#%'' \<and> c \<notin> set [CHR 0x09, CHR 0x0A, CHR 0x0D, CHR 0x5C]"
    "q \<noteq> ''.''" "q \<noteq> ''..''"
  shows "request_of GET (search_url q k) h cb ub = Some (search_request q k) \<and>
         request_of GET (category_url q k) h cb ub = Some (category_request q k)"
proof -
  note seg = plain_segment[OF assms]
  have su: "search_url q k = ''/api/posts/'' @ ''search'' @ CHR ''/'' # q @ CHR ''?'' #
            (''page'' @ CHR ''='' # js_int_to_string k @ CHR ''&'' # (''limit'' @ CHR ''='' # ''10''))"
    by (simp add: search_url_def)
  have cu: "category_url q k = ''/api/posts/'' @ ''category'' @ CHR ''/'' # q @ CHR ''?'' #
            (''page'' @ CHR ''='' # js_int_to_string k @ CHR ''&'' # (''limit'' @ CHR ''='' # ''10''))"
    by (simp add: category_url_def)
  have wd: "\<forall>c\<in>set ''search''. c \<notin> set [CHR ''/'', CHR ''?'', CHR ''#'', CHR 0x09, CHR 0x0A, CHR 0x0D, CHR 0x5C]"
    "\<forall>c\<in>set ''category''. c \<notin> set [CHR ''/'', CHR ''?'', CHR ''#'', CHR 0x09, CHR 0x0A, CHR 0x0D, CHR 0x5C]"
    "path_encode ''search'' = ''search''" "path_encode ''category'' = ''category''"
    "''search'' \<noteq> ''.''" "''search'' \<noteq> ''..''" "''category'' \<noteq> ''.''" "''category'' \<noteq> ''..''"
    by (simp_all add: path_encode_def)
  note pu = param_url_request[OF wd(1,3,5,6) assms] param_url_request[OF wd(2,4,7,8) assms]
  show ?thesis
    unfolding su cu request_of_def pu prod.case Let_def query_get_def paged_query_params
    by (simp add: app_route_def seg_param_def seg parse_int_roundtrip js_parse_int_10 search_request_def category_request_def)
qed

text \<open>The URLs of \<open>fetchPost\<close>, \<open>updatePost\<close>, \<open>deletePost\<close> and \<open>likePost\<close> reach the handler of their method with the identifier they carry, for an identifier free of the characters the URL parser treats specially and not a dot segment; the create and featured URLs reach their handlers.\<close>

lemma id_url_roundtrip:
  assumes "i \<noteq> []" "\<forall>c\<in>set i. c \<notin> set ''/?#%'' \<and> c \<notin> set [CHR 0x09, CHR 0x0A, CHR 0x0D, CHR 0x5C]"
    "i \<noteq> ''.''" "i \<noteq> ''..''"
  shows "request_of GET (post_url i) h cb ub = Some (GetPost i) \<and>
         request_of PUT (post_url i) h cb ub = Some (UpdatePost h i ub) \<and>
         request_of DELETE (post_url i) h cb ub = Some (DeletePost h i) \<and>
         request_of POST (like_url i) h cb ub = Some (LikePost h i) \<and>
         request_of POST create_url h cb ub = Some (CreatePost h cb) \<and>
         request_of GET featured_url h cb ub = Some FeaturedPosts"
proof -
  note seg = plain_segment[OF assms] and up = id_url_parts[OF assms]
  have "request_of GET (post_url i) h cb ub = Some (GetPost i) \<and>
         request_of PUT (post_url i) h cb ub = Some (UpdatePost h i ub) \<and>
         request_of DELETE (post_url i) h cb ub = Some (DeletePost h i) \<and>
         request_of POST (like_url i) h cb ub = Some (LikePost h i)"
    unfolding post_url_def like_url_def request_of_def up prod.case Let_def
    by (simp add: app_route_def seg_param_def seg)
  then show ?thesis by (simp add: fixed_url_requests)
qed

text \<open>C36: The URLs PostContext.jsx builds from a parameter reach the route, the method's handler and the parameter they mean: the search and category URLs with the page and limit parsed back, for a query or category that is non-empty, free of the characters the URL parser treats specially (\<open>/ ? # %\<close>, a backslash, tab or line break) and not a dot segment; the post and like URLs with the identifier they carry, for an identifier of the same kind; and the create and featured URLs.\<close>

theorem path_param_roundtrip:
  assumes "q \<noteq> []" "\<forall>c\<in>set q. c \<notin> set ''/?#%'' \<and> c \<notin> set [CHR 0x09, CHR 0x0A, CHR 0x0D, CHR 0x5C]"
    "q \<noteq> ''.''" "q \<noteq> ''..''"
    and "i \<noteq> []" "\<forall>c\<in>set i. c \<notin> set ''/?#%'' \<and> c \<notin> set [CHR 0x09, CHR 0x0A, CHR 0x0D, CHR 0x5C]"
    "i \<noteq> ''.''" "i \<noteq> ''..''"
  shows "request_of GET (search_url q k) h cb ub = Some (search_request q k) \<and>
         request_of GET (category_url q k) h cb ub = Some (category_request q k) \<and>
         request_of GET (post_url i) h cb ub = Some (GetPost i) \<and>
         request_of PUT (post_url i) h cb ub = Some (UpdatePost h i ub) \<and>
         request_of DELETE (post_url i) h cb ub = Some (DeletePost h i) \<and>
         request_of POST (like_url i) h cb ub = Some (LikePost h i) \<and>
         request_of POST create_url h cb ub = Some (CreatePost h cb) \<and>
         request_of GET featured_url h cb ub = Some FeaturedPosts"
  using search_category_urls[OF assms(1-4)] id_url_roundtrip[OF assms(5-8)] by blast


end
