(* ===== verification/Server.thy ===== *)
theory Server
  imports Api
begin

text \<open>
  The server process, src/server/index.js: start-up reads the environment, exits
  without a \<open>JWT_SECRET\<close> (lines 10-13), starts listening whether or not the
  database connection succeeds (lines 42-70), and then serves each request through
  its middleware: the JSON body parser (line 18), the routers and the health check
  (lines 22-28), the error middleware (lines 31-34) and the 404 handler (lines
  37-39). When the connection failed, Mongoose buffers every query and rejects it
  after its buffering timeout: each handler's \<open>catch\<close> answers 500, and \<open>auth\<close>
  fails in the same way once the token is verified, at its \<open>User.findById\<close>.
\<close>

record config =
  cfg_jwt_secret :: "string option"
  cfg_mongodb_uri :: "string option"
  cfg_port :: "string option"

datatype server = Exited nat | Listening string bool

text \<open>The connection string of \<open>connectDB\<close> (line 44).\<close>

definition db_uri :: "config \<Rightarrow> string" where
  "db_uri cfg = str_or (cfg_mongodb_uri cfg) ''mongodb://localhost:27017/tnp-website''"

text \<open>Start-up: \<open>connects\<close> is whether \<open>mongoose.connect\<close> succeeds for a URI; a
  failure is caught and logged (lines 46-57) and the server listens on \<open>PORT\<close> or
  5000 regardless (lines 61-67).\<close>

definition boot :: "(string \<Rightarrow> bool) \<Rightarrow> config \<Rightarrow> server" where
  "boot connects cfg =
     (if \<not> str_truthy (cfg_jwt_secret cfg) then Exited 1
      else Listening (str_or (cfg_port cfg) ''5000'') (connects (db_uri cfg)))"

text \<open>\<open>auth\<close> (auth.js lines 4-33) while the database is unreachable: the token checks
  run as usual, and the user lookup throws, which the middleware answers with 500.\<close>

definition auth_db_down :: "jwt_verifier \<Rightarrow> string option \<Rightarrow> auth_error + user" where
  "auth_db_down vf header =
     (case map_option (replace_first ''Bearer '' []) header of
        None \<Rightarrow> Inl NoToken
      | Some token \<Rightarrow>
          if token = [] then Inl NoToken
          else (case vf token of
                  JwtExpired \<Rightarrow> Inl TokenExpired
                | JwtInvalid \<Rightarrow> Inl InvalidToken
                | JwtValid _ \<Rightarrow> Inl AuthServerError))"

text \<open>The answer of a posts route while the database is unreachable: the public
  routes' queries throw (500); the protected routes answer what \<open>auth\<close> answers,
  and never reach their handler.\<close>

fun offline_answer :: "env \<Rightarrow> request \<Rightarrow> response" where
  "offline_answer e (CreatePost h _) = (case auth_db_down (verify e) h of Inl err \<Rightarrow> Unauthorized err | Inr _ \<Rightarrow> ServerError)"
| "offline_answer e (UpdatePost h _ _) = (case auth_db_down (verify e) h of Inl err \<Rightarrow> Unauthorized err | Inr _ \<Rightarrow> ServerError)"
| "offline_answer e (DeletePost h _) = (case auth_db_down (verify e) h of Inl err \<Rightarrow> Unauthorized err | Inr _ \<Rightarrow> ServerError)"
| "offline_answer e (LikePost h _) = (case auth_db_down (verify e) h of Inl err \<Rightarrow> Unauthorized err | Inr _ \<Rightarrow> ServerError)"
| "offline_answer e _ = ServerError"

text \<open>The request body as the JSON parser sees it: the fields the create and update
  routes destructure, or text that is not JSON.\<close>

datatype req_body = JsonBody create_body update_body | MalformedJson

text \<open>What the process answers. \<open>AuthRouter\<close> is a request for the authentication
  router, whose code is not among the sources.\<close>

datatype http_answer = Api response | HealthOk | NotFound404 | Error500 | AuthRouter

fun http_status :: "http_answer \<Rightarrow> nat option" where
  "http_status (Api r) = Some (status r)"
| "http_status HealthOk = Some 200"
| "http_status NotFound404 = Some 404"
| "http_status Error500 = Some 500"
| "http_status AuthRouter = None"

text \<open>One request to the process: nothing when it exited; a body that is not JSON
  is rejected by the parser, and a route parameter that \<open>decodeURIComponent\<close>
  rejects by the router, and both errors (of status 400) reach the error
  middleware, which answers 500 whatever the error's status; otherwise the route of \<open>app_route\<close>, served by the handlers on the
  collection when the database is connected and by \<open>offline_answer\<close> when not.\<close>

definition serve ::
  "server \<Rightarrow> env \<Rightarrow> time \<Rightarrow> store \<Rightarrow> http_method \<Rightarrow> string \<Rightarrow> string option \<Rightarrow> req_body \<Rightarrow>
   (store \<times> http_answer) option" where
  "serve sv e t s m u h bd =
     (case sv of
        Exited _ \<Rightarrow> None
      | Listening _ db \<Rightarrow>
          (case bd of
             MalformedJson \<Rightarrow> Some (s, Error500)
           | JsonBody cb ub \<Rightarrow>
               (case app_route m (fst (url_parts u)) of
                  EHealth \<Rightarrow> Some (s, HealthOk)
                | ENotFound \<Rightarrow> Some (s, NotFound404)
                | EBadRequest \<Rightarrow> Some (s, Error500)
                | EAuthRoutes \<Rightarrow> Some (s, AuthRouter)
                | _ \<Rightarrow> (case request_of m u h cb ub of
                          None \<Rightarrow> Some (s, NotFound404)
                        | Some rq \<Rightarrow>
                            if db then Some (apsnd Api (handle e t s rq)) else Some (s, Api (offline_answer e rq))))))"

section \<open>Lemmas\<close>

text \<open>While the database is down, \<open>auth\<close> answers as it does for a token whose user
  identifier cannot be cast: the outage falls into the same \<open>catch\<close>.\<close>

lemma auth_db_down_eq: "auth_db_down v h = auth v (\<lambda>_. None) us h"
  by (simp add: auth_db_down_def auth_def split: option.splits jwt_result.splits)


lemma request_of_Some_route:
  "request_of m u h cb ub = Some rq \<Longrightarrow>
   app_route m (fst (url_parts u)) \<notin> {EHealth, ENotFound, EBadRequest, EAuthRoutes}"
  by (auto simp: request_of_def Let_def split: prod.splits endpoint.splits)

lemma serve_connected:
  assumes "str_truthy (cfg_jwt_secret cfg)" "connects (db_uri cfg)" "request_of m u h cb ub = Some rq"
  shows "serve (boot connects cfg) e t s m u h (JsonBody cb ub) = Some (apsnd Api (handle e t s rq))"
  using assms request_of_Some_route[OF assms(3)]
  by (auto simp: serve_def boot_def split: endpoint.splits)


end
