(* ===== verification/Detail.thy ===== *)
theory Detail
  imports Client
begin

text \<open>
  The post page, src/client/src/pages/PostDetail.jsx: its state (the route's
  \<open>id\<close>, the loaded post and the \<open>loading\<close>, \<open>deleting\<close> and \<open>liking\<close> flags),
  \<open>loadPost\<close>, \<open>handleDelete\<close> and \<open>handleLike\<close> split at their \<open>await\<close> into the
  request they send and the update the answer makes, the guards of the rendered
  buttons, and the messages the server's JSON answers carry (posts.js and
  middleware/auth.js), which the page shows in its alerts. \<open>navigate('/')\<close> and
  \<open>alert(...)\<close> are recorded as the last navigation and the last alert.
\<close>

record detail =
  d_id :: string
  d_post :: "post option"
  d_loading :: bool
  d_deleting :: bool
  d_liking :: bool
  d_nav :: "string option"
  d_alert :: "string option"

text \<open>\<open>useParams\<close> and the \<open>useState\<close> initial values (lines 8-15).\<close>

definition detail_init :: "string \<Rightarrow> detail" where
  "detail_init i = \<lparr>d_id = i, d_post = None, d_loading = True, d_deleting = False, d_liking = False,
                    d_nav = None, d_alert = None\<rparr>"

text \<open>The \<open>message\<close> of the 401 answers of \<open>auth\<close> and \<open>adminAuth\<close> (auth.js lines 9-45).\<close>

fun auth_message :: "auth_error \<Rightarrow> string" where
  "auth_message NoToken = ''No token, authorization denied''"
| "auth_message TokenExpired = ''Token has expired, please log in again''"
| "auth_message InvalidToken = ''Invalid token''"
| "auth_message UserNotFoundOrInactive = ''User not found or inactive''"
| "auth_message AuthServerError = ''Server error in authentication''"
| "auth_message AccessDenied = ''Access denied. Admin privileges required.''"

text \<open>The \<open>message\<close> of a failing answer of each route of posts.js, which the client reads
  as \<open>error.response?.data?.message\<close>; \<open>None\<close> for a success.\<close>

fun error_message :: "request \<Rightarrow> response \<Rightarrow> string option" where
  "error_message _ (Unauthorized e) = Some (auth_message e)"
| "error_message _ NotFound = Some ''Post not found''"
| "error_message (UpdatePost _ _ _) Forbidden = Some ''Not authorized to update this post''"
| "error_message (DeletePost _ _) Forbidden = Some ''Not authorized to delete this post''"
| "error_message (ListPosts _ _ _ _ _) ServerError = Some ''Server error while fetching posts''"
| "error_message (GetPost _) ServerError = Some ''Server error while fetching post''"
| "error_message (CreatePost _ _) ServerError = Some ''Server error while creating post''"
| "error_message (UpdatePost _ _ _) ServerError = Some ''Server error while updating post''"
| "error_message (DeletePost _ _) ServerError = Some ''Server error while deleting post''"
| "error_message (LikePost _ _) ServerError = Some ''Server error while liking post''"
| "error_message FeaturedPosts ServerError = Some ''Server error while fetching featured posts''"
| "error_message (PostsByCategory _ _ _) ServerError = Some ''Server error while fetching posts by category''"
| "error_message (SearchPosts _ _ _) ServerError = Some ''Server error while searching posts''"
| "error_message _ _ = None"

text \<open>\<open>loadPost\<close> (lines 21-32) through \<open>fetchPost\<close> (PostContext.jsx lines 51-59): the
  request, then the post on success, or \<open>navigate('/')\<close> when \<open>fetchPost\<close> throws;
  \<open>finally\<close> clears \<open>loading\<close>.\<close>

definition load_request :: "detail \<Rightarrow> detail \<times> request" where
  "load_request d = (d\<lparr>d_loading := True\<rparr>, GetPost (d_id d))"

definition load_done :: "response \<Rightarrow> detail \<Rightarrow> detail" where
  "load_done r d =
     (case r of PostOk _ p \<Rightarrow> d\<lparr>d_post := Some p, d_loading := False\<rparr>
      | _ \<Rightarrow> d\<lparr>d_nav := Some ''/'', d_loading := False\<rparr>)"

text \<open>\<open>canEdit\<close> of the page (lines 96-100) on the loaded post: \<open>post?.author\<close> is
  \<open>undefined\<close> while no post is loaded.\<close>

definition detail_canEdit :: "auth_ctx \<Rightarrow> detail \<Rightarrow> bool" where
  "detail_canEdit a d =
     (case d_post d of
        Some p \<Rightarrow> canEdit a (summary.truncate p)
      | None \<Rightarrow> isAuthenticated a \<and>
                (case a_user a of None \<Rightarrow> False | Some u \<Rightarrow> role u = Admin \<or> role u = Moderator))"

text \<open>The buttons: Delete is rendered when \<open>canEdit\<close> and disabled while deleting
  (lines 151-165); Like is disabled while liking (lines 200-202); both only once a
  post is shown (lines 102-126).\<close>

definition delete_enabled :: "auth_ctx \<Rightarrow> detail \<Rightarrow> bool" where
  "delete_enabled a d = (\<not> d_loading d \<and> d_post d \<noteq> None \<and> detail_canEdit a d \<and> \<not> d_deleting d)"

definition like_enabled :: "detail \<Rightarrow> bool" where
  "like_enabled d = (\<not> d_loading d \<and> d_post d \<noteq> None \<and> \<not> d_liking d)"

text \<open>\<open>handleDelete\<close> (lines 34-53) with \<open>deletePost\<close> (PostContext.jsx lines 96-109):
  a refused confirmation sends nothing; otherwise \<open>deleting\<close> is set and the
  request sent; the answer navigates home or alerts the server's message.\<close>

definition delete_click :: "bool \<Rightarrow> auth_ctx \<Rightarrow> detail \<Rightarrow> detail \<times> request option" where
  "delete_click confirmed a d =
     (if \<not> confirmed then (d, None)
      else (d\<lparr>d_deleting := True\<rparr>, Some (DeletePost (auth_header a) (d_id d))))"

definition delete_done :: "response \<Rightarrow> detail \<Rightarrow> detail" where
  "delete_done r d =
     (case r of
        Deleted \<Rightarrow> d\<lparr>d_nav := Some ''/'', d_deleting := False\<rparr>
      | _ \<Rightarrow> (let message = str_or (error_message (DeletePost None (d_id d)) r) ''Failed to delete post''
              in d\<lparr>d_alert := Some (str_or (Some message) ''Failed to delete post''), d_deleting := False\<rparr>))"

text \<open>\<open>handleLike\<close> (lines 55-72) with \<open>likePost\<close> (PostContext.jsx lines 111-130): an
  anonymous user gets an alert and no request; otherwise \<open>liking\<close> is set, and a
  successful answer writes the server's count into the shown post.\<close>

definition like_click :: "auth_ctx \<Rightarrow> detail \<Rightarrow> detail \<times> request option" where
  "like_click a d =
     (if \<not> isAuthenticated a then (d\<lparr>d_alert := Some ''Please login to like posts''\<rparr>, None)
      else (d\<lparr>d_liking := True\<rparr>, Some (LikePost (auth_header a) (d_id d))))"

definition like_done :: "response \<Rightarrow> detail \<Rightarrow> detail" where
  "like_done r d =
     (case r of
        Liked n \<Rightarrow> d\<lparr>d_post := map_option (\<lambda>p. p\<lparr>likes := n\<rparr>) (d_post d), d_liking := False\<rparr>
      | _ \<Rightarrow> d\<lparr>d_liking := False\<rparr>)"

text \<open>\<open>getCategoryColor\<close> (lines 84-94): the badge class of a category.\<close>

definition category_color :: "string \<Rightarrow> string" where
  "category_color c =
     (if c \<in> set [''job'', ''internship'', ''training'', ''placement'', ''announcement'', ''general'']
      then ''category-'' @ c else ''category-general'')"

text \<open>What the page renders (lines 102-268): the spinner while loading, the
  not-found message without a post, or the article: the badge, the edit and delete
  controls when \<open>canEdit\<close> (the delete label follows \<open>deleting\<close>), the title, the
  author and the author's initial, the reading time of the full post (the detail
  answer carries the content), the counters, the image when \<open>imageUrl\<close> is set, the
  tags, the content as HTML and the attachments.\<close>

record article_view =
  av_badge :: string
  av_category :: string
  av_controls :: bool
  av_delete_label :: string
  av_title :: string
  av_initial :: string
  av_author :: string
  av_readingTime :: int
  av_views :: int
  av_likes :: int
  av_image :: "string option"
  av_tags :: "string list"
  av_html :: string
  av_attachments :: "(string \<times> string \<times> int) list"

datatype detail_view = DLoading | DNotFound | DArticle article_view

definition detail_render :: "auth_ctx \<Rightarrow> detail \<Rightarrow> detail_view" where
  "detail_render a d =
     (if d_loading d then DLoading
      else case d_post d of
        None \<Rightarrow> DNotFound
      | Some p \<Rightarrow> DArticle
          \<lparr>av_badge = category_color (category p), av_category = category p,
           av_controls = detail_canEdit a d,
           av_delete_label = (if d_deleting d then ''Deleting...'' else ''Delete''),
           av_title = title p, av_initial = map js_upper (take 1 (author p)), av_author = author p,
           av_readingTime = reading_time (Some (content p)), av_views = views p, av_likes = likes p,
           av_image = (if imageUrl p \<noteq> [] then Some (imageUrl p) else None),
           av_tags = tags p, av_html = content p,
           av_attachments = map (\<lambda>x. (att_name x, att_url x, att_size x)) (attachments p)\<rparr>)"

section \<open>Lemmas\<close>

lemma delete_done_alert:
  "r \<noteq> Deleted \<Longrightarrow> error_message (DeletePost None (d_id d)) r = Some m \<Longrightarrow> m \<noteq> [] \<Longrightarrow>
   delete_done r d = d\<lparr>d_alert := Some m, d_deleting := False\<rparr>"
  by (cases r) (simp_all add: delete_done_def str_or_def)

text \<open>C39: Deleting from the post page, for a signed-in user whose token the server accepts and a post that exists: a refused confirmation sends nothing; otherwise the page sends \<open>DELETE /api/posts/:id\<close>, and when the answer arrives \<open>deleting\<close> is cleared and either the post is gone and the page navigates home, or, for a user the ownership guard refuses, the collection is unchanged and the alert shows the server's reason.\<close>

theorem detail_delete_flow:
  assumes "authenticate e (auth_header a) = Inr u" "cast_id e (d_id d) = Some i" "posts s i = Some p"
  shows "delete_click False a d = (d, None) \<and>
    delete_click True a d = (d\<lparr>d_deleting := True\<rparr>, Some (DeletePost (auth_header a) (d_id d))) \<and>
    (let (s', r) = handle e t s (DeletePost (auth_header a) (d_id d)); d' = delete_done r (d\<lparr>d_deleting := True\<rparr>)
     in \<not> d_deleting d' \<and>
        (if forbidden u p then s' = s \<and> d_alert d' = Some ''Not authorized to delete this post'' \<and> d_nav d' = d_nav d
         else posts s' i = None \<and> d_nav d' = Some ''/'' \<and> d_alert d' = d_alert d))"
proof (cases "forbidden u p")
  case True
  have "delete_done Forbidden (d\<lparr>d_deleting := True\<rparr>) =
      d\<lparr>d_deleting := True, d_alert := Some ''Not authorized to delete this post'', d_deleting := False\<rparr>"
    by (rule delete_done_alert) simp_all
  then show ?thesis using True assms by (simp add: delete_click_def delete_post_def)
next
  case False
  then show ?thesis using assms by (simp add: delete_click_def delete_post_def delete_done_def delete_doc_def)
qed

text \<open>C40: Liking from the post page, for a signed-in user whose token the server accepts and a shown post that exists and passes validation once liked: the page sends \<open>POST /api/posts/:id/like\<close>, the server stores one more like and answers the new count, and the shown post takes that count with \<open>liking\<close> cleared; an anonymous user gets the login alert and no request is sent.\<close>

theorem detail_like_flow:
  assumes "isAuthenticated a" "authenticate e (auth_header a) = Inr u" "cast_id e (d_id d) = Some i"
    "posts s i = Some p" "d_post d = Some q" "validate_post (p\<lparr>likes := likes p + 1\<rparr>) = []"
  shows "like_click a d = (d\<lparr>d_liking := True\<rparr>, Some (LikePost (auth_header a) (d_id d))) \<and>
    like_click (a\<lparr>a_user := None\<rparr>) d = (d\<lparr>d_alert := Some ''Please login to like posts''\<rparr>, None) \<and>
    (let (s', r) = handle e t s (LikePost (auth_header a) (d_id d)); d' = like_done r (d\<lparr>d_liking := True\<rparr>)
     in r = Liked (likes p + 1) \<and> (\<exists>p'. posts s' i = Some p' \<and> likes p' = likes p + 1) \<and>
        d_post d' = Some (q\<lparr>likes := likes p + 1\<rparr>) \<and> \<not> d_liking d')"
proof -
  obtain p' where sv: "save_document t (Some p) (p\<lparr>likes := likes p + 1\<rparr>) = Inr p'"
    using assms(6) save_document_Inl_iff[of t "Some p" "p\<lparr>likes := likes p + 1\<rparr>"] by (cases "save_document t (Some p) (p\<lparr>likes := likes p + 1\<rparr>)") auto
  have "likes (summary.truncate p') = likes (summary.truncate (p\<lparr>likes := likes p + 1\<rparr>))"
    using arg_cong[OF save_document_Inr(2)[OF sv], of likes] by simp
  then have l: "likes p' = likes p + 1" by (simp add: summary.truncate_def)
  show ?thesis using assms sv l
    by (simp add: like_click_def like_done_def like_post_def replace_doc_def isAuthenticated_def)
qed

text \<open>After a like, the shown post keeps its content and its reading time, and its
  counter is the server's.\<close>

lemma detail_render_liked:
  assumes "\<not> d_loading d" "d_post d = Some p"
  shows "\<exists>v. detail_render a (like_done (Liked n) d) = DArticle v \<and> av_likes v = n \<and>
           av_readingTime v = reading_time (Some (content p)) \<and> av_html v = content p"
  using assms by (simp add: detail_render_def like_done_def)

end
