(* ===== verification/Seed.thy ===== *)
theory Seed
  imports Routes
begin

text \<open>
  The seed script, src/server/seed.js: its sample posts (lines 5-66) and users
  (lines 68-95), and \<open>seedDatabase\<close> (lines 97-127), which clears the collection and
  loads the samples with \<open>Post.insertMany\<close>. \<open>insertMany\<close> builds each document with
  the schema's defaults and setters, validates all of them before writing any, and
  stamps the timestamps, but runs no \<open>save\<close> middleware: the excerpt hook of
  Post.js (lines 110-118) is skipped. A validation error is caught (line 121) and
  nothing is inserted; the collection stays cleared.
\<close>

record seed_post =
  sd_title :: string
  sd_content :: string
  sd_category :: string
  sd_tags :: "string list"
  sd_author :: string
  sd_featured :: bool
  sd_views :: int
  sd_likes :: int

definition samplePosts :: "seed_post list" where
  "samplePosts = [
   \<lparr>sd_title = ''Software Engineer Position at TechCorp'',
    sd_content =
      ''<p>We are looking for a talented Software Engineer to join our team. This is a full-time position with great benefits and growth opportunities.</p><p><strong>Requirements:</strong></p><ul><li>Bachelor's degree in Computer Science or related field</li><li>3+ years of experience in software development</li><li>Proficiency in JavaScript, React, and Node.js</li><li>Strong problem-solving skills</li></ul><p>If you're interested, please apply through our careers page.</p>'',
    sd_category = ''job'', sd_tags = [''software'', ''engineering'', ''full-time'', ''javascript''], sd_author = ''HR Team'',
    sd_featured = True, sd_views = 150, sd_likes = 23\<rparr>,
   \<lparr>sd_title = ''Summer Internship Program 2024'',
    sd_content =
      ''<p>Join our 8-week summer internship program designed for students to gain real-world experience in software development.</p><p><strong>Program Highlights:</strong></p><ul><li>Mentorship from senior developers</li><li>Hands-on project experience</li><li>Networking opportunities</li><li>Potential for full-time offers</li></ul><p>Applications are now open! Deadline: March 15, 2024</p>'',
    sd_category = ''internship'', sd_tags = [''internship'', ''summer'', ''2024'', ''students''], sd_author = ''Recruitment Team'',
    sd_featured = True, sd_views = 89, sd_likes = 15\<rparr>,
   \<lparr>sd_title = ''React.js Training Workshop'',
    sd_content =
      ''<p>Join our comprehensive React.js training workshop designed for beginners and intermediate developers.</p><p><strong>What you'll learn:</strong></p><ul><li>React fundamentals and components</li><li>State management with hooks</li><li>Routing and navigation</li><li>API integration</li><li>Best practices and patterns</li></ul><p>Date: March 20-22, 2024<br>Location: Computer Lab 3<br>Registration required</p>'',
    sd_category = ''training'', sd_tags = [''react'', ''training'', ''workshop'', ''frontend''], sd_author = ''Training Department'',
    sd_featured = False, sd_views = 67, sd_likes = 12\<rparr>,
   \<lparr>sd_title = ''Placement Drive - Amazon'',
    sd_content =
      ''<p>Amazon is conducting a placement drive for Software Development Engineer positions.</p><p><strong>Eligibility Criteria:</strong></p><ul><li>B.Tech in CSE/IT or related branches</li><li>Minimum 7.0 CGPA</li><li>Strong coding skills</li><li>Good communication skills</li></ul><p><strong>Process:</strong></p><ol><li>Online Assessment</li><li>Technical Interview</li><li>HR Interview</li></ol><p>Date: March 25, 2024<br>Time: 9:00 AM<br>Venue: Main Auditorium</p>'',
    sd_category = ''placement'', sd_tags = [''amazon'', ''placement'', ''sde'', ''2024''], sd_author = ''Placement Cell'',
    sd_featured = True, sd_views = 234, sd_likes = 45\<rparr>,
   \<lparr>sd_title = ''Important: Resume Submission Deadline'',
    sd_content =
      ''<p>This is a reminder that the deadline for resume submission for the upcoming placement season is approaching.</p><p><strong>Deadline:</strong> March 10, 2024</p><p><strong>Instructions:</strong></p><ul><li>Submit your resume in PDF format only</li><li>File name should be: YourName_RollNumber.pdf</li><li>Email to: placements@university.edu</li><li>Subject: Resume Submission - [Your Name]</li></ul><p>Late submissions will not be accepted. Please ensure your resume is updated and error-free.</p>'',
    sd_category = ''announcement'', sd_tags = [''deadline'', ''resume'', ''placement'', ''important''], sd_author = ''Placement Office'',
    sd_featured = False, sd_views = 156, sd_likes = 8\<rparr>,
   \<lparr>sd_title = ''Tips for Technical Interviews'',
    sd_content =
      ''<p>Here are some valuable tips to help you succeed in technical interviews:</p><p><strong>Preparation:</strong></p><ul><li>Practice coding problems daily</li><li>Review data structures and algorithms</li><li>Prepare for system design questions</li><li>Mock interviews with peers</li></ul><p><strong>During the Interview:</strong></p><ul><li>Think out loud</li><li>Ask clarifying questions</li><li>Start with a brute force approach</li><li>Optimize step by step</li></ul><p><strong>Common Topics:</strong></p><ul><li>Arrays and Strings</li><li>Linked Lists</li><li>Trees and Graphs</li><li>Dynamic Programming</li></ul>'',
    sd_category = ''general'', sd_tags = [''interview'', ''tips'', ''preparation'', ''coding''], sd_author = ''Career Guidance Team'',
    sd_featured = False, sd_views = 98, sd_likes = 19\<rparr>]"

text \<open>\<open>sampleUsers\<close> (lines 68-95) as the users of the authentication model: name and
  role; the User model's \<open>isActive\<close> default is \<open>true\<close>. E-mail, password,
  department and year play no part in the post API.\<close>

definition sampleUsers :: "user list" where
  "sampleUsers = [\<lparr>name = ''John Doe'', role = Admin, isActive = True\<rparr>,
                  \<lparr>name = ''Jane Smith'', role = User, isActive = True\<rparr>,
                  \<lparr>name = ''Mike Johnson'', role = User, isActive = True\<rparr>]"

text \<open>The document \<open>insertMany\<close> builds from a sample: the constructor's defaults and
  \<open>trim\<close> setters, as \<open>new_document\<close>, with the sample's counters, both timestamps
  set to the insertion time, and no excerpt.\<close>

definition seed_document :: "time \<Rightarrow> seed_post \<Rightarrow> post" where
  "seed_document now sp =
     \<lparr>title = js_trim (sd_title sp), excerpt = [], author = js_trim (sd_author sp),
      category = sd_category sp, tags = map js_trim (sd_tags sp), featured = sd_featured sp,
      published = True, views = sd_views sp, likes = sd_likes sp, imageUrl = [], attachments = [],
      createdAt = now, updatedAt = now, content = sd_content sp\<rparr>"

text \<open>\<open>Post.insertMany(samplePosts)\<close>: every document validated first; on an error
  nothing is written.\<close>

definition insert_many :: "time \<Rightarrow> seed_post list \<Rightarrow> store \<Rightarrow> string list + store" where
  "insert_many now sps s =
     (let docs = map (seed_document now) sps;
          errs = concat (map validate_post docs)
      in if errs \<noteq> [] then Inl errs else Inr (fold (\<lambda>d st. snd (insert_doc d st)) docs s))"

text \<open>\<open>seedDatabase\<close>: \<open>Post.deleteMany({})\<close>, then \<open>insertMany\<close>; the caught error
  leaves the cleared collection.\<close>

definition seed_db :: "time \<Rightarrow> store \<Rightarrow> store" where
  "seed_db now s =
     (let cleared = s\<lparr>posts := Map.empty\<rparr>
      in case insert_many now samplePosts cleared of Inl _ \<Rightarrow> cleared | Inr s' \<Rightarrow> s')"

section \<open>Lemmas\<close>

lemma samplePosts_valid: "concat (map validate_post (map (seed_document now) samplePosts)) = []"
  by code_simp

lemma fold_insert_doc:
  "posts (fold (\<lambda>d st. snd (insert_doc d st)) ds st) = posts st ++ map_of (zip [next_id st..<next_id st + length ds] ds) \<and>
   next_id (fold (\<lambda>d st. snd (insert_doc d st)) ds st) = next_id st + length ds"
proof (induction ds arbitrary: st)
  case Nil
  then show ?case by simp
next
  case (Cons d ds)
  let ?n = "next_id st" and ?st = "snd (insert_doc d st)"
  let ?m = "map_of (zip [Suc ?n..<Suc ?n + length ds] ds)"
  have st: "posts ?st = (posts st)(?n \<mapsto> d)" "next_id ?st = Suc ?n" by (simp_all add: insert_doc_def)
  have up: "[?n..<?n + length (d # ds)] = ?n # [Suc ?n..<Suc ?n + length ds]"
    using upt_conv_Cons[of ?n "?n + Suc (length ds)"] by simp
  have nd: "?n \<notin> dom ?m"
    by (auto dest: map_of_SomeD in_set_zipE)
  note ih = Cons.IH[of ?st, unfolded st]
  have f: "fold (\<lambda>d st. snd (insert_doc d st)) (d # ds) st = fold (\<lambda>d st. snd (insert_doc d st)) ds ?st"
    by simp
  have "posts (fold (\<lambda>d st. snd (insert_doc d st)) (d # ds) st) = (posts st)(?n \<mapsto> d) ++ ?m"
    unfolding f by (rule conjunct1[OF ih])
  also have "\<dots> = posts st ++ map_of (zip [?n..<?n + length (d # ds)] (d # ds))"
    unfolding up map_add_upd_left[OF nd] by simp
  finally show ?case unfolding f using conjunct2[OF ih] by simp
qed

lemma seed_db_posts:
  "posts (seed_db now s) = map_of (zip [next_id s..<next_id s + 6] (map (seed_document now) samplePosts))"
proof -
  let ?c = "s\<lparr>posts := Map.empty\<rparr>" and ?ds = "map (seed_document now) samplePosts"
  have "insert_many now samplePosts ?c = Inr (fold (\<lambda>d st. snd (insert_doc d st)) ?ds ?c)"
    unfolding insert_many_def Let_def samplePosts_valid by simp
  then have "posts (seed_db now s) = posts (fold (\<lambda>d st. snd (insert_doc d st)) ?ds ?c)"
    by (simp add: seed_db_def)
  also have "\<dots> = map_of (zip [next_id s..<next_id s + length ?ds] ?ds)"
    using fold_insert_doc[of ?ds ?c] by simp
  also have "length ?ds = 6" by (simp add: samplePosts_def)
  finally show ?thesis .
qed

lemma seed_db_ran: "ran (posts (seed_db now s)) = set (map (seed_document now) samplePosts)"
  unfolding seed_db_posts by (rule ran_map_of_zip) (simp_all add: samplePosts_def)

lemma samplePosts_plain_lengths:
  "map (\<lambda>p. length (strip_tags (content (seed_document now p)))) samplePosts = [387, 302, 311, 312, 392, 404]"
  "map (\<lambda>p. excerpt (seed_document now p)) samplePosts = [[], [], [], [], [], []]"
  by code_simp+

text \<open>The seed script leaves every sample post without an excerpt, though the text
  of each is longer than 300 characters.\<close>

theorem seeded_without_excerpt:
  "excerpt ` ran (posts (seed_db now s)) = {[]} \<and>
   (\<lambda>p. length (strip_tags (content p))) ` ran (posts (seed_db now s)) = {387, 302, 311, 312, 392, 404}"
proof -
  have e: "excerpt ` ran (posts (seed_db now s)) = set (map (\<lambda>p. excerpt (seed_document now p)) samplePosts)"
    and l: "(\<lambda>p. length (strip_tags (content p))) ` ran (posts (seed_db now s)) =
            set (map (\<lambda>p. length (strip_tags (content (seed_document now p)))) samplePosts)"
    unfolding seed_db_ran by (simp_all add: image_image)
  show ?thesis unfolding e l samplePosts_plain_lengths by simp
qed

lemma seed_db_nth:
  assumes "k < 6"
  shows "posts (seed_db now s) (next_id s + k) = Some (seed_document now (samplePosts ! k))"
    "validate_post (seed_document now (samplePosts ! k)) = []"
proof -
  have len: "length samplePosts = 6" by (simp add: samplePosts_def)
  have "map_of (zip [next_id s..<next_id s + 6] (map (seed_document now) samplePosts)) ([next_id s..<next_id s + 6] ! k) =
      Some (map (seed_document now) samplePosts ! k)"
    using assms len by (intro map_of_zip_nth) simp_all
  then show "posts (seed_db now s) (next_id s + k) = Some (seed_document now (samplePosts ! k))"
    using assms len unfolding seed_db_posts by simp
  have "samplePosts ! k \<in> set samplePosts" using assms len by simp
  then show "validate_post (seed_document now (samplePosts ! k)) = []"
    using samplePosts_valid[of now] by simp
qed

text \<open>Viewing a seeded post does not give it an excerpt: its content is not modified,
  so the hook does not run.\<close>

theorem seeded_view_no_excerpt:
  assumes "k < 6" "cast_id e idstr = Some (next_id s + k)"
  shows "\<exists>q. get_post e t (seed_db now s) idstr = (replace_doc (next_id s + k) q (seed_db now s), PostOk (next_id s + k) q) \<and>
             excerpt q = [] \<and> views q = sd_views (samplePosts ! k) + 1"
proof -
  let ?p = "seed_document now (samplePosts ! k)"
  have "save_document t (Some ?p) (?p\<lparr>views := views ?p + 1\<rparr>) = Inr (?p\<lparr>views := views ?p + 1, updatedAt := t\<rparr>)"
    using seed_db_nth(2)[OF assms(1)] by (simp add: save_document_same_content)
  then show ?thesis using assms seed_db_nth(1)[OF assms(1)]
    by (simp add: get_post_def seed_document_def)
qed

end
