(* ===== verification/Pages.thy ===== *)
theory Pages
  imports Api Detail
begin

text \<open>
  The remaining pages of the client: the create form of
  src/client/src/pages/CreatePost.jsx, the sign-in form of Login.jsx and the card
  of components/PostCard.jsx. Each page's state is a record; each handler is a
  function on it, split at its \<open>await\<close> into what it sends and what the answer
  does; \<open>navigate(...)\<close>, \<open>alert(...)\<close> and \<open>setError(...)\<close> are recorded in the
  state. The markup is modelled only where it computes a value the user sees
  (the card's fields).
\<close>

section \<open>CreatePost.jsx\<close>

record create_page =
  cp_form :: post_form
  cp_loading :: bool
  cp_preview :: bool
  cp_nav :: "string option"
  cp_alert :: "string option"

text \<open>The initial \<open>formData\<close>, \<open>loading\<close> and \<open>preview\<close> (lines 13-23).\<close>

definition create_page_init :: create_page where
  "create_page_init =
     \<lparr>cp_form = \<lparr>fm_title = [], fm_content = [], fm_category = ''general'', fm_tags = [],
                 fm_featured = False, fm_imageUrl = []\<rparr>,
      cp_loading = False, cp_preview = False, cp_nav = None, cp_alert = None\<rparr>"

text \<open>\<open>handleChange(field, value)\<close> (lines 31-36), one constructor per input of the
  form (lines 109-188), and the preview checkbox (line 204).\<close>

datatype form_edit = FTitle string | FContent string | FCategory string | FTags string
  | FFeatured bool | FImageUrl string | FPreview bool

fun handle_change :: "form_edit \<Rightarrow> create_page \<Rightarrow> create_page" where
  "handle_change (FTitle v) c = c\<lparr>cp_form := (cp_form c)\<lparr>fm_title := v\<rparr>\<rparr>"
| "handle_change (FContent v) c = c\<lparr>cp_form := (cp_form c)\<lparr>fm_content := v\<rparr>\<rparr>"
| "handle_change (FCategory v) c = c\<lparr>cp_form := (cp_form c)\<lparr>fm_category := v\<rparr>\<rparr>"
| "handle_change (FTags v) c = c\<lparr>cp_form := (cp_form c)\<lparr>fm_tags := v\<rparr>\<rparr>"
| "handle_change (FFeatured v) c = c\<lparr>cp_form := (cp_form c)\<lparr>fm_featured := v\<rparr>\<rparr>"
| "handle_change (FImageUrl v) c = c\<lparr>cp_form := (cp_form c)\<lparr>fm_imageUrl := v\<rparr>\<rparr>"
| "handle_change (FPreview v) c = c\<lparr>cp_preview := v\<rparr>"

text \<open>The effect of lines 25-29: an anonymous visitor is sent to the login page.\<close>

definition create_redirect :: "auth_ctx \<Rightarrow> create_page \<Rightarrow> create_page" where
  "create_redirect a c = (if \<not> isAuthenticated a then c\<lparr>cp_nav := Some ''/login''\<rparr> else c)"

text \<open>\<open>handleSubmit\<close> up to \<open>await createPost(postData)\<close> (lines 38-57): a blank
  title or content is refused with an alert; otherwise \<open>loading\<close> is set and the
  body \<open>create_submit\<close> builds is sent.\<close>

definition submit_click :: "create_page \<Rightarrow> create_page \<times> create_body option" where
  "submit_click c =
     (case create_submit (cp_form c) of
        None \<Rightarrow> (c\<lparr>cp_alert := Some ''Please fill in all required fields''\<rparr>, None)
      | Some b \<Rightarrow> (c\<lparr>cp_loading := True\<rparr>, Some b))"

text \<open>After the await (lines 59-70) with \<open>createPost\<close> (PostContext.jsx lines 61-75):
  a created post opens its page, \<open>/post/\<close> followed by its identifier as the client
  serialises it (\<open>sid\<close>); a failure alerts the server's message or the default;
  \<open>finally\<close> clears \<open>loading\<close>. \<open>rq\<close> is the request that was sent.\<close>

definition submit_done :: "(post_id \<Rightarrow> string) \<Rightarrow> request \<Rightarrow> response \<Rightarrow> create_page \<Rightarrow> create_page" where
  "submit_done sid rq r c =
     (case r of
        Created i _ \<Rightarrow> c\<lparr>cp_nav := Some (''/post/'' @ sid i), cp_loading := False\<rparr>
      | _ \<Rightarrow> (let message = str_or (error_message rq r) ''Failed to create post''
              in c\<lparr>cp_alert := Some (str_or (Some message) ''Failed to create post''), cp_loading := False\<rparr>))"

text \<open>The buttons of the page that are not inputs of the form: Login on the screen an
  anonymous visitor sees (line 82), Cancel (line 227) and the preview toggle (line 236).\<close>

datatype create_button = LoginButton | CancelButton | PreviewToggle

fun create_button_click :: "create_button \<Rightarrow> create_page \<Rightarrow> create_page" where
  "create_button_click LoginButton c = c\<lparr>cp_nav := Some ''/login''\<rparr>"
| "create_button_click CancelButton c = c\<lparr>cp_nav := Some ''/''\<rparr>"
| "create_button_click PreviewToggle c = c\<lparr>cp_preview := \<not> cp_preview c\<rparr>"

text \<open>The options of the category select (lines 128-133): value and label.\<close>

definition create_options :: "(string \<times> string) list" where
  "create_options = [(''general'', ''General''), (''job'', ''Job''), (''internship'', ''Internship''),
     (''training'', ''Training''), (''placement'', ''Placement''), (''announcement'', ''Announcement'')]"

text \<open>What the form shows (lines 92-260): the value of each input, the options of
  the select, the preview (the title and the content as raw HTML, lines 213-221),
  the label of the preview toggle and the submit button, disabled and labelled
  \<open>Creating...\<close> while \<open>loading\<close>.\<close>

record create_form_view =
  fv_title :: string
  fv_category :: string
  fv_category_options :: "(string \<times> string) list"
  fv_featured :: bool
  fv_imageUrl :: string
  fv_tags :: string
  fv_content :: string
  fv_preview_checked :: bool
  fv_preview :: "(string \<times> string) option"
  fv_toggle_label :: string
  fv_submit_disabled :: bool
  fv_submit_label :: string

text \<open>The page: the login prompt for an anonymous visitor (lines 76-90), else the form.\<close>

datatype create_view = LoginPrompt | CreateForm create_form_view

definition create_render :: "auth_ctx \<Rightarrow> create_page \<Rightarrow> create_view" where
  "create_render a c =
     (if \<not> isAuthenticated a then LoginPrompt
      else (let f = cp_form c in CreateForm
        \<lparr>fv_title = fm_title f, fv_category = fm_category f, fv_category_options = create_options,
         fv_featured = fm_featured f, fv_imageUrl = fm_imageUrl f, fv_tags = fm_tags f,
         fv_content = fm_content f, fv_preview_checked = cp_preview c,
         fv_preview = (if cp_preview c then Some (fm_title f, fm_content f) else None),
         fv_toggle_label = (if cp_preview c then ''Hide Preview'' else ''Preview''),
         fv_submit_disabled = cp_loading c,
         fv_submit_label = (if cp_loading c then ''Creating...'' else ''Create Post'')\<rparr>))"

section \<open>Login.jsx\<close>

record login_page =
  lp_email :: string
  lp_password :: string
  lp_loading :: bool
  lp_error :: string
  lp_nav :: "string option"

text \<open>The initial state (lines 10-16).\<close>

definition login_page_init :: login_page where
  "login_page_init = \<lparr>lp_email = [], lp_password = [], lp_loading = False, lp_error = [], lp_nav = None\<rparr>"

text \<open>\<open>handleChange\<close> (lines 24-30): the input named by \<open>e.target.name\<close> takes the
  value and the error is cleared.\<close>

datatype login_field = LEmail | LPassword

fun login_change :: "login_field \<Rightarrow> string \<Rightarrow> login_page \<Rightarrow> login_page" where
  "login_change LEmail v lp = lp\<lparr>lp_email := v, lp_error := []\<rparr>"
| "login_change LPassword v lp = lp\<lparr>lp_password := v, lp_error := []\<rparr>"

text \<open>The effect of lines 18-22 and the early return of line 58: a signed-in user is
  sent home.\<close>

definition login_redirect :: "auth_ctx \<Rightarrow> login_page \<Rightarrow> login_page" where
  "login_redirect a lp = (if isAuthenticated a then lp\<lparr>lp_nav := Some ''/''\<rparr> else lp)"

text \<open>\<open>handleSubmit\<close> up to \<open>await login(...)\<close> (lines 31-43): an empty field is
  refused; otherwise the credentials are sent.\<close>

definition login_click :: "login_page \<Rightarrow> login_page \<times> (string \<times> string) option" where
  "login_click lp =
     (if \<not> login_submit (lp_email lp) (lp_password lp)
      then (lp\<lparr>lp_error := ''Please fill in all fields''\<rparr>, None)
      else (lp\<lparr>lp_loading := True, lp_error := []\<rparr>, Some (lp_email lp, lp_password lp)))"

text \<open>The answer of \<open>/api/auth/login\<close>: the token and the user, or a failure with
  the server's \<open>message\<close>, if any. The route (routes/auth.js) is not among the
  sources; its answer is an input of the model.\<close>

datatype login_answer = LoginOk string user | LoginFail "string option"

text \<open>After the await (lines 44-55) with \<open>login\<close> of AuthContext.jsx (lines 50-73):
  success stores the token and user and goes home; failure shows the message or
  \<open>'Login failed'\<close>; \<open>finally\<close> clears \<open>loading\<close>.\<close>

fun login_page_done :: "login_answer \<Rightarrow> login_page \<times> auth_ctx \<Rightarrow> login_page \<times> auth_ctx" where
  "login_page_done (LoginOk t u) (lp, a) =
     (lp\<lparr>lp_nav := Some ''/'', lp_loading := False\<rparr>, login_done (Some (t, u)) a)"
| "login_page_done (LoginFail m) (lp, a) =
     (lp\<lparr>lp_error := str_or m ''Login failed'', lp_loading := False\<rparr>, login_done None a)"

text \<open>What the sign-in page shows (lines 58-163): nothing for a signed-in user;
  else the two inputs, the error box when \<open>error\<close> is not empty (line 120), the
  submit button, disabled and labelled \<open>Signing in...\<close> while \<open>loading\<close>, and the
  links to the registration page and home.\<close>

record login_view =
  lv_email :: string
  lv_password :: string
  lv_error :: "string option"
  lv_submit_disabled :: bool
  lv_submit_label :: string
  lv_register_link :: string
  lv_home_link :: string

definition login_render :: "auth_ctx \<Rightarrow> login_page \<Rightarrow> login_view option" where
  "login_render a lp =
     (if isAuthenticated a then None
      else Some \<lparr>lv_email = lp_email lp, lv_password = lp_password lp,
        lv_error = (if lp_error lp \<noteq> [] then Some (lp_error lp) else None),
        lv_submit_disabled = lp_loading lp,
        lv_submit_label = (if lp_loading lp then ''Signing in...'' else ''Sign in''),
        lv_register_link = ''/register'', lv_home_link = ''/''\<rparr>)"

section \<open>PostCard.jsx\<close>

text \<open>What a card shows (lines 41-124): the link to the post's page, the category
  badge (\<open>getCategoryColor\<close>, lines 17-27, the same table as PostDetail's), at most
  three tags and the count of the others, the author's initial, and the fields of
  the listed document.\<close>

record card_view =
  cv_link :: string
  cv_badge :: string
  cv_title :: string
  cv_excerpt :: string
  cv_tags :: "string list"
  cv_more :: "nat option"
  cv_initial :: string
  cv_author :: string
  cv_readingTime :: int
  cv_views :: int
  cv_likes :: int

definition card_render :: "(post_id \<Rightarrow> string) \<Rightarrow> card \<Rightarrow> card_view" where
  "card_render sid cd =
     (let d = c_doc cd
      in \<lparr>cv_link = ''/post/'' @ sid (c_id cd), cv_badge = category_color (category d),
          cv_title = title d, cv_excerpt = excerpt d, cv_tags = take 3 (tags d),
          cv_more = (if 3 < length (tags d) then Some (length (tags d) - 3) else None),
          cv_initial = map js_upper (take 1 (author d)), cv_author = author d,
          cv_readingTime = c_readingTime cd, cv_views = views d, cv_likes = likes d\<rparr>)"

section \<open>Lemmas\<close>

lemma create_submit_Some:
  assumes "create_submit f = Some b"
  shows "b = \<lparr>cb_title = Some (fm_title f), cb_content = Some (fm_content f),
                 cb_category = Some (fm_category f), cb_tags = Some (parse_tags (fm_tags f)),
                 cb_featured = Some (fm_featured f), cb_imageUrl = Some (fm_imageUrl f)\<rparr>"
    "js_trim (fm_title f) \<noteq> []" "js_trim (fm_content f) \<noteq> []"
  using assms by (auto simp: create_submit_def split: if_splits)

lemma create_input_form:
  assumes "create_submit f = Some b"
  shows "title (new_document (create_input u b)) = js_trim (fm_title f)"
    "content (new_document (create_input u b)) = fm_content f"
    "tags (new_document (create_input u b)) = parse_tags (fm_tags f)"
    "author (new_document (create_input u b)) = js_trim (name u)"
    "category (new_document (create_input u b)) = str_or (Some (fm_category f)) ''general''"
  using parse_tags_trimmed[of "fm_tags f"]
  by (simp_all add: create_submit_Some(1)[OF assms] new_document_def create_input_def str_or_def)

text \<open>C14: Submitting the create form with a non-blank title and content, for a signed-in user whose token the server accepts and a post that passes validation: the page sends the body \<open>create_submit\<close> builds to \<open>POST /api/posts\<close>, which the router delivers to the create route; the server stores the post under the next identifier with the trimmed title, the content, the cleaned tags, the category and the user's name; and the page opens \<open>/post/\<close> followed by that identifier, with \<open>loading\<close> cleared.\<close>

theorem create_page_flow:
  assumes "authenticate e (auth_header a) = Inr u" "create_submit (cp_form c) = Some b"
    and "validate_post (new_document (create_input u b)) = []"
  shows "submit_click c = (c\<lparr>cp_loading := True\<rparr>, Some b) \<and>
    request_of POST create_url (auth_header a) b ub = Some (CreatePost (auth_header a) b) \<and>
    (\<exists>p. handle e t s (CreatePost (auth_header a) b) = (snd (insert_doc p s), Created (next_id s) p) \<and>
         title p = js_trim (fm_title (cp_form c)) \<and> content p = fm_content (cp_form c) \<and>
         tags p = parse_tags (fm_tags (cp_form c)) \<and> author p = js_trim (name u) \<and>
         category p = str_or (Some (fm_category (cp_form c))) ''general'' \<and>
         submit_done sid (CreatePost (auth_header a) b) (Created (next_id s) p) (c\<lparr>cp_loading := True\<rparr>) =
           c\<lparr>cp_nav := Some (''/post/'' @ sid (next_id s)), cp_loading := False\<rparr>)"
proof -
  let ?d = "new_document (create_input u b)"
  obtain p where sv: "save_document t None ?d = Inr p"
    using assms(3) save_document_Inl_iff[of t None ?d] by (cases "save_document t None ?d") auto
  note k = save_document_keeps[OF sv] and f = create_input_form[OF assms(2), of u]
  have "handle e t s (CreatePost (auth_header a) b) = (snd (insert_doc p s), Created (next_id s) p)"
    using assms(1) sv by (simp add: create_post_def insert_doc_def)
  then show ?thesis using assms(2) k f
    by (simp add: submit_click_def submit_done_def fixed_url_requests)
qed

text \<open>C25: The create form accepts any non-blank content, but the schema asks for 10 characters: for content shorter than that, the page sends the request, the server answers 500 and stores nothing, and the page alerts the server's message \<open>Server error while creating post\<close> with \<open>loading\<close> cleared; the specification's ValidationError never reaches the user.\<close>

theorem create_page_short_content:
  assumes "authenticate e (auth_header a) = Inr u" "create_submit (cp_form c) = Some b"
    and "length (fm_content (cp_form c)) < 10"
  shows "submit_click c = (c\<lparr>cp_loading := True\<rparr>, Some b) \<and>
    handle e t s (CreatePost (auth_header a) b) = (s, ServerError) \<and>
    submit_done sid (CreatePost (auth_header a) b) ServerError (c\<lparr>cp_loading := True\<rparr>) =
      c\<lparr>cp_alert := Some ''Server error while creating post'', cp_loading := False\<rparr>"
proof -
  let ?d = "new_document (create_input u b)"
  have "validate_post ?d \<noteq> []"
    using create_input_form(2)[OF assms(2), of u] assms(3) by (simp add: validate_post_def)
  then obtain es where "save_document t None ?d = Inl es"
    using save_document_Inl_iff[of t None ?d] by auto
  then have "handle e t s (CreatePost (auth_header a) b) = (s, ServerError)"
    using assms(1) by (simp add: create_post_def)
  then show ?thesis using assms(2) by (simp add: submit_click_def submit_done_def str_or_def)
qed

lemma login_page_flow:
  assumes "lp_email lp \<noteq> []" "lp_password lp \<noteq> []" "tok \<noteq> []"
  shows "login_click lp = (lp\<lparr>lp_loading := True, lp_error := []\<rparr>, Some (lp_email lp, lp_password lp))"
    "login_page_done (LoginOk tok u) (lp', a) = (lp'\<lparr>lp_nav := Some ''/'', lp_loading := False\<rparr>, a\<lparr>a_token := Some tok, a_user := Some u\<rparr>)"
    "isAuthenticated (snd (login_page_done (LoginOk tok u) (lp', a)))"
    "auth_header (snd (login_page_done (LoginOk tok u) (lp', a))) = Some (''Bearer '' @ tok)"
    "login_page_done (LoginFail None) (lp', a) = (lp'\<lparr>lp_error := ''Login failed'', lp_loading := False\<rparr>, a)"
  using assms by (simp_all add: login_click_def login_submit_def login_done_def isAuthenticated_def
      auth_header_def str_truthy_def str_or_def)

lemma card_render_tags:
  "length (cv_tags (card_render sid cd)) \<le> 3 \<and>
   length (cv_tags (card_render sid cd)) + (case cv_more (card_render sid cd) of None \<Rightarrow> 0 | Some n \<Rightarrow> n) =
     length (tags (c_doc cd))"
  by (simp add: card_render_def Let_def)


text \<open>The select offers exactly the schema's six categories, each once, so a category
  chosen in the form passes the schema's enum.\<close>

lemma create_options_schema:
  "set (map fst create_options) = category_name ` set category_enum \<and> distinct (map fst create_options) \<and>
   (\<forall>(v, l) \<in> set create_options. parse_category v \<noteq> None)"
  by (simp add: create_options_def category_enum_def parse_category_def insert_commute)

text \<open>While a create is in flight the submit button is disabled and reads
  \<open>Creating...\<close>; whatever the answer, it is enabled again.\<close>

lemma create_render_submitting:
  assumes "isAuthenticated a" "submit_click c = (c', Some b)"
  shows "\<exists>fv. create_render a c' = CreateForm fv \<and> fv_submit_disabled fv \<and> fv_submit_label fv = ''Creating...''"
    "\<exists>fv. create_render a (submit_done sid rq r c') = CreateForm fv \<and> \<not> fv_submit_disabled fv \<and>
        fv_submit_label fv = ''Create Post''"
  using assms
  by (auto simp: create_render_def submit_click_def submit_done_def Let_def split: option.splits response.splits)

text \<open>The preview toggle shows the title and the content as raw HTML, and hides them again.\<close>

lemma create_preview_toggle:
  assumes "isAuthenticated a"
  shows "create_render a (create_button_click PreviewToggle c) =
           CreateForm fv \<Longrightarrow> fv_preview fv = (if cp_preview c then None else Some (fm_title (cp_form c), fm_content (cp_form c)))"
    "create_button_click PreviewToggle (create_button_click PreviewToggle c) = c"
  using assms by (auto simp: create_render_def Let_def)

text \<open>After a failed sign-in the page shows the server's message, or \<open>Login failed\<close>,
  with the button enabled; after a successful one it renders nothing.\<close>

lemma login_render_done:
  assumes "\<not> isAuthenticated a"
  shows "\<exists>v. login_render (snd (login_page_done (LoginFail m) (lp, a))) (fst (login_page_done (LoginFail m) (lp, a))) = Some v \<and>
           lv_error v = Some (str_or m ''Login failed'') \<and> \<not> lv_submit_disabled v \<and> lv_submit_label v = ''Sign in''"
    "login_render (snd (login_page_done (LoginOk t u) (lp, a))) lp' = None"
  using assms by (auto simp: login_render_def login_done_def isAuthenticated_def str_or_def split: option.splits)


text \<open>Content is stored as sent and rendered as raw HTML: the content of a created
  post, once fetched by its page, is the page's \<open>dangerouslySetInnerHTML\<close>
  (PostDetail.jsx line 238) verbatim, markup and scripts included; nothing on the
  way sanitises it.\<close>

lemma created_content_rendered:
  assumes "authenticate e h = Inr u" "create_post e t s h b = (s', Created i p)"
    and "cast_id e idstr = Some i" "validate_post p = []" "cb_content b = Some c" "c \<noteq> []"
  shows "\<exists>q v. get_post e t' s' idstr = (replace_doc i q s', PostOk i q) \<and>
           detail_render a (load_done (PostOk i q) d) = DArticle v \<and> av_html v = c"
proof -
  note cr = create_post_Created[OF assms(1,2)]
  have "content p = c" using cr assms(5,6) by (simp add: new_document_def create_input_def str_or_def)
  moreover have "posts s' i = Some p" using cr by blast
  note g = get_post_found[OF assms(3) this assms(4), of t']
  ultimately show ?thesis using g by (simp add: load_done_def detail_render_def)
qed

end
