(* ===== verification/HomeView.thy ===== *)
theory HomeView
  imports Scroll Pages
begin

text \<open>
  What the home page (src/client/src/pages/Home.jsx) shows for its state and the
  provider's: the featured section and its dismissal, the heading and count of the
  listing, and which of the spinner, the empty message, the cards, the scroll
  spinner and the end-of-results line is rendered (lines 86-191). With the scroll
  loop of Scroll, the lemmas show that scrolling always ends on the end-of-results
  line when the listing has posts.
\<close>

text \<open>\<open>loadFeaturedPosts\<close> (lines 22-25): the featured list the provider returns.\<close>

definition featured_done :: "response \<Rightarrow> home \<Rightarrow> home" where
  "featured_done r h = h\<lparr>featuredPosts := featured_loaded r\<rparr>"

text \<open>The close button of the featured section (line 92).\<close>

definition dismiss_featured :: "home \<Rightarrow> home" where
  "dismiss_featured h = h\<lparr>showFeatured := False\<rparr>"

text \<open>The heading of the listing (lines 139-142).\<close>

definition home_heading :: "home \<Rightarrow> string" where
  "home_heading h =
     (if searchQuery h \<noteq> [] then ''Search Results for \"'' @ searchQuery h @ ''\"''
      else if selectedCategory h \<noteq> [] then
        map js_upper (take 1 (selectedCategory h)) @ drop 1 (selectedCategory h) @ '' Posts''
      else ''All Posts'')"

text \<open>The body of the listing (lines 149-172): the spinner while the first page
  loads, the empty message, or the cards.\<close>

datatype grid = GridSpinner | GridEmpty string | GridCards "card_view list"

record home_view =
  hv_featured :: "card_view list option"
  hv_heading :: string
  hv_total :: int
  hv_grid :: grid
  hv_more_spinner :: bool
  hv_end :: bool

definition home_render :: "(post_id \<Rightarrow> string) \<Rightarrow> home \<Rightarrow> post_ctx \<Rightarrow> home_view" where
  "home_render sid h c =
     \<lparr>hv_featured = (if showFeatured h \<and> featuredPosts h \<noteq> [] then Some (map (card_render sid) (featuredPosts h))
                     else None),
      hv_heading = home_heading h,
      hv_total = total (ctx_pagination c),
      hv_grid = (if ctx_loading c \<and> ctx_posts c = [] then GridSpinner
                 else if ctx_posts c = [] then
                   GridEmpty (if searchQuery h \<noteq> [] then ''Try adjusting your search terms''
                              else ''Be the first to create a post!'')
                 else GridCards (map (card_render sid) (ctx_posts c))),
      hv_more_spinner = (ctx_loading c \<and> ctx_posts c \<noteq> []),
      hv_end = (\<not> ctx_loading c \<and> \<not> hasNext (ctx_pagination c) \<and> ctx_posts c \<noteq> [])\<rparr>"

section \<open>Lemmas\<close>

text \<open>Partial correctness of the scroll loop, by fixpoint induction: when it returns,
  \<open>handleScroll\<close> sends nothing more, and a loop started while no list action was
  loading ends with none loading.\<close>

lemma scroll_to_end_stops:
  assumes "scroll_to_end e t s h c = Some c'"
  shows "scroll_request h c' = None"
  by (rule scroll_to_end.raw_induct[where P = "\<lambda>e t s h c c'. scroll_request h c' = None", OF _ assms])
    (auto split: option.splits)

lemma scroll_to_end_idle:
  assumes "scroll_to_end e t s h c = Some c'" "\<not> ctx_loading c"
  shows "\<not> ctx_loading c'"
proof -
  have "\<not> ctx_loading c \<longrightarrow> \<not> ctx_loading c'"
    by (rule scroll_to_end.raw_induct[where P = "\<lambda>e t s h c c'. \<not> ctx_loading c \<longrightarrow> \<not> ctx_loading c'",
          OF _ assms(1)])
      (auto simp: list_loaded_def list_started_def split: option.splits response.splits)
  then show ?thesis using assms(2) by simp
qed

text \<open>The end-of-results line and the scroll spinner exclude each other, and the
  line is shown exactly when the page has cards, nothing is loading and
  \<open>handleScroll\<close> would send nothing.\<close>

lemma home_end_iff:
  "hv_end (home_render sid h c) \<longleftrightarrow> ctx_posts c \<noteq> [] \<and> \<not> ctx_loading c \<and> scroll_request h c = None"
  "\<not> (hv_end (home_render sid h c) \<and> hv_more_spinner (home_render sid h c))"
  by (auto simp: home_render_def scroll_request_def Let_def)

lemma scroll_ends_on_end_line:
  assumes "scroll_to_end e t s h c = Some c'" "\<not> ctx_loading c" "ctx_posts c' \<noteq> []"
  shows "hv_end (home_render sid h c') \<and> \<not> hv_more_spinner (home_render sid h c')"
  using scroll_to_end_stops[OF assms(1)] scroll_to_end_idle[OF assms(1,2)] assms(3)
  by (simp add: home_end_iff(1)) (simp add: home_render_def)

end
