(* ===== verification/Navigation.thy ===== *)
theory Navigation
  imports HomeView
begin

text \<open>
  The client's navigation: the route table of src/client/src/App.jsx (lines 21-28),
  matched as React Router matches it (static segments compared without case, a
  parameter is one non-empty segment, empty segments ignored), the category buttons
  of components/FilterBar.jsx, and the edit link of PostDetail.jsx. The lemmas check
  every navigation target the pages produce against the route table.
\<close>

datatype page = PHome | PPostDetail string | PCreatePost | PLogin | PRegister

text \<open>\<open>String.prototype.toLowerCase\<close> on ASCII letters.\<close>

definition js_lower :: "char \<Rightarrow> char" where
  "js_lower c = (if 65 \<le> (of_char c :: nat) \<and> (of_char c :: nat) \<le> 90 then char_of ((of_char c :: nat) + 32) else c)"

fun route_segs :: "string list \<Rightarrow> page option" where
  "route_segs [] = Some PHome"
| "route_segs [a] =
     (let l = map js_lower a in
      if l = ''home'' then Some PHome else if l = ''create-post'' then Some PCreatePost
      else if l = ''login'' then Some PLogin else if l = ''register'' then Some PRegister else None)"
| "route_segs [a, b] = (if map js_lower a = ''post'' then Some (PPostDetail b) else None)"
| "route_segs _ = None"

definition client_route :: "string \<Rightarrow> page option" where
  "client_route p = route_segs (filter (\<lambda>s. s \<noteq> []) (split_on CHR ''/'' p))"

text \<open>The Edit link of the post page (PostDetail.jsx lines 153-158).\<close>

definition edit_link :: "string \<Rightarrow> string" where
  "edit_link i = ''/edit-post/'' @ i"

text \<open>The buttons of FilterBar.jsx (lines 4-12, 17-30): the category each selects and
  its label; the selected one is highlighted.\<close>

definition filter_categories :: "(string \<times> string) list" where
  "filter_categories = [([], ''All Posts''), (''job'', ''Jobs''), (''internship'', ''Internships''),
     (''training'', ''Training''), (''placement'', ''Placements''), (''announcement'', ''Announcements''),
     (''general'', ''General'')]"

definition filter_highlighted :: "home \<Rightarrow> string list" where
  "filter_highlighted h = [fst b. b \<leftarrow> filter_categories, fst b = selectedCategory h]"

section \<open>Lemmas\<close>

lemma post_link_route:
  assumes "i \<noteq> []" "CHR ''/'' \<notin> set i"
  shows "client_route (''/post/'' @ i) = Some (PPostDetail i)"
proof -
  have "split_on CHR ''/'' (''/post/'' @ i) = [[], ''post'', i]"
    using assms(2) by (simp add: split_on_append split_on_free)
  then show ?thesis using assms(1) by (simp add: client_route_def js_lower_def)
qed

lemma filter_categories_schema:
  "map fst filter_categories = [] # map category_name category_enum"
  by (simp add: filter_categories_def category_enum_def)

text \<open>The links of the sign-in page and the buttons of the create page reach routes of
  App.jsx: registration, home and the login page.\<close>

lemma page_buttons_routes:
  "login_render a lp = Some v \<Longrightarrow>
     client_route (lv_register_link v) = Some PRegister \<and> client_route (lv_home_link v) = Some PHome"
  "map_option client_route (cp_nav (create_button_click LoginButton c)) = Some (Some PLogin)"
  "map_option client_route (cp_nav (create_button_click CancelButton c)) = Some (Some PHome)"
  by (auto simp: login_render_def client_route_def js_lower_def split: if_splits)

text \<open>C26: Every page the client can navigate to is a route of App.jsx, except the post page's Edit link: a card's link and the page opened after a create reach the post page of their identifier (an identifier without a slash), the create page's redirect reaches the login page, the home page's empty-listing link reaches the create page, and the navigations home after a login or a delete reach the home page; but \<open>/edit-post/:id\<close> matches no route, so editing a post is not reachable from the interface.\<close>

theorem client_links:
  assumes "sid (c_id cd) \<noteq> []" "CHR ''/'' \<notin> set (sid (c_id cd))"
    and "sid n \<noteq> []" "CHR ''/'' \<notin> set (sid n)"
  shows "client_route (cv_link (card_render sid cd)) = Some (PPostDetail (sid (c_id cd))) \<and>
    map_option client_route (cp_nav (submit_done sid rq (Created n p) c)) = Some (Some (PPostDetail (sid n))) \<and>
    map_option client_route (cp_nav (create_redirect a create_page_init)) \<in> {None, Some (Some PLogin)} \<and>
    client_route ''/create-post'' = Some PCreatePost \<and>
    map_option client_route (lp_nav (fst (login_page_done (LoginOk tok u) (lp, a)))) = Some (Some PHome) \<and>
    map_option client_route (d_nav (delete_done Deleted d)) = Some (Some PHome) \<and>
    client_route (edit_link (sid n)) = None"
proof -
  have e: "split_on CHR ''/'' (edit_link (sid n)) = [[], ''edit-post'', sid n]"
    using assms(4) by (simp add: edit_link_def split_on_append split_on_free)
  have "client_route (edit_link (sid n)) = None"
    using assms(3) unfolding client_route_def e by (simp add: js_lower_def)
  moreover have "client_route ''/login'' = Some PLogin" "client_route ''/'' = Some PHome"
    "client_route ''/create-post'' = Some PCreatePost"
    by (simp_all add: client_route_def js_lower_def)
  ultimately show ?thesis
    using post_link_route[OF assms(1,2)] post_link_route[OF assms(3,4)]
    by (simp add: card_render_def Let_def submit_done_def create_redirect_def delete_done_def create_page_init_def)
qed

end
