(* ===== verification/Spec2Isabelle.thy ===== *)
theory Spec2Isabelle
  imports Session Counters Scroll Server Detail Seed Pages Navigation
begin

text \<open>
  \<^bold>\<open>TNP portal: a verification development of the post API and its client.\<close>

  The repository is a placement portal: an Express server over MongoDB
  (src/server) and a React client (src/client). The server's posts collection is
  read and written by the routes of src/server/routes/posts.js through the Mongoose
  model of src/server/models/Post.js; the routes that change posts sit behind the
  \<open>auth\<close> middleware of src/server/middleware/auth.js. The client keeps the
  list on screen in the \<open>PostProvider\<close> of src/client/src/context/PostContext.jsx
  and the login state in the \<open>AuthProvider\<close> of AuthContext.jsx; the pages of
  src/client/src/pages call them. This development models both sides as HOL
  functions, one theory per component, in import order:

  \<^item> \<open>Prelude\<close>: identifier and time types, the JavaScript \<open>x || d\<close> defaults
    (\<open>str_or\<close>, \<open>bool_or\<close>, \<open>int_or\<close>, \<open>str_truthy\<close>, collected in
    \<open>js_simps\<close>), \<open>Math.ceil\<close> of an integer quotient (\<open>js_ceil_div\<close>) with its
    bounds, and the concatenation of result pages.
  \<^item> \<open>Text\<close>: the string built-ins the model needs: the regex class \<open>\s\<close>
    (\<open>is_js_space\<close>), \<open>trim\<close> (\<open>js_trim\<close>, idempotent), \<open>split(/\s+/)\<close>
    (\<open>split_ws\<close>, \<open>js_words\<close>) and the tag stripping \<open>replace(/<[^>]*>/g, '')\<close>
    (\<open>strip_tags\<close>), both defined by \<^theory_text>\<open>function\<close> with a length measure;
    lemmas: splitting a space-joined list of words gives the words back, stripping
    leaves no tag and is idempotent.
  \<^item> \<open>Post\<close> (Post.js): the category enumeration, the document as the records
    \<open>summary\<close> and \<open>post\<close> (\<open>post\<close> adds \<open>content\<close>, so the listing's
    \<open>select('-content')\<close> is \<open>summary.truncate\<close>), the validators
    (\<open>validate_post\<close>), the \<open>readingTime\<close> virtual (\<open>reading_time\<close>), the excerpt
    hook (\<open>make_excerpt\<close>, \<open>excerpt_hook\<close>), the constructor with its defaults and
    \<open>trim\<close> setters (\<open>new_document\<close>) and \<open>document.save()\<close>
    (\<open>save_document\<close>): validation, then the timestamps, then the excerpt hook.
  \<^item> \<open>Store\<close>: the collection as a map from identifiers to documents with an
    identifier allocator (\<open>insert_doc\<close>, \<open>replace_doc\<close>, \<open>delete_doc\<close>,
    \<open>documents\<close> in insertion order) and the invariant \<open>wf_store\<close>.
  \<^item> \<open>Query\<close> (\<open>Post.getPosts\<close>, the featured list): the query object
    (\<open>build_query\<close>), its evaluation (\<open>matches\<close>), \<open>find_sorted\<close> (sort by
    \<open>updatedAt\<close> descending), \<open>get_posts\<close> (skip, limit, projection, count,
    pagination record) and \<open>featured_list\<close>.
  \<^item> \<open>Auth\<close> (auth.js): roles and users, \<open>auth\<close> and \<open>adminAuth\<close>, the
    routes' guard \<open>forbidden\<close> and the specification's policy \<open>canMutate\<close>.
  \<^item> \<open>Routes\<close> (posts.js): one handler per route (\<open>list_posts\<close>,
    \<open>posts_by_category\<close>, \<open>search_posts\<close>, \<open>get_post\<close>, \<open>create_post\<close>,
    \<open>update_post\<close> with \<open>apply_update\<close>, \<open>delete_post\<close>, \<open>like_post\<close>), the
    response datatype with its HTTP status, the step function \<open>handle\<close> over the
    \<open>request\<close> datatype, and \<open>run\<close> over a list of timed requests.
  \<^item> \<open>Client\<close> (PostContext.jsx, AuthContext.jsx, Home.jsx, PostDetail.jsx,
    PostCard.jsx, CreatePost.jsx, Login.jsx): the provider states as records
    (\<open>post_ctx\<close>, \<open>auth_ctx\<close>, \<open>home\<close>); each asynchronous action split into the
    request it sends (\<open>fetch_request\<close>, \<open>search_request\<close>, \<open>like_request\<close>,
    \<open>create_submit\<close>, ...) and the update it applies to the answer
    (\<open>list_loaded\<close>, \<open>post_created\<close>, \<open>post_deleted\<close>, \<open>post_liked\<close>; the
    copies \<open>search_loaded\<close> and \<open>category_loaded\<close> of \<open>searchPosts\<close> and
    \<open>getPostsByCategory\<close> are proved equal to \<open>list_loaded\<close>); the Home
    handlers (\<open>scroll_request\<close>, \<open>search_action\<close>, \<open>category_action\<close>), the
    \<open>Authorization\<close> header (\<open>auth_header\<close>) and \<open>canEdit\<close>. The client and the
    server share the \<open>request\<close> and \<open>response\<close> datatypes of Routes: that is
    their interface.
  \<^item> \<open>Session\<close>: the whole system as the inductive relation \<open>sys_step\<close> on
    \<open>sys\<close> (collection, Home state, provider state, auth state, requests in flight
    with the \<open>action\<close> that will apply their answer, answers in flight): any
    request in flight may be served next and any answer delivered next, and other
    clients' requests interleave.
  \<^item> \<open>Counters\<close>: the like route split at its awaits into \<open>like_load\<close>
    (\<open>Post.findById\<close>) and \<open>like_save\<close> (\<open>post.save()\<close>, which writes only the
    paths modified in memory), so that other requests can run in between; the
    view count of \<open>GET /:id\<close> split the same way (\<open>view_load\<close>,
    \<open>view_save\<close>).
  \<^item> \<open>Scroll\<close> (Home.jsx lines 28-47): the scroll listener as a loop,
    \<open>scroll_to_end\<close>, a \<^theory_text>\<open>partial_function (option)\<close> that sends the next
    page's request and applies its answer until \<open>handleScroll\<close> sends nothing;
    \<open>None\<close> would be a user scrolling for ever.
  \<^item> \<open>Url\<close>: the JavaScript and browser string machinery between the two sides:
    \<open>Number.prototype.toString\<close> (\<open>js_int_to_string\<close>), \<open>parseInt\<close>
    (\<open>js_parse_int\<close>: whitespace, sign, \<open>0x\<close>, the longest digit prefix, \<open>NaN\<close>
    as \<open>None\<close>), \<open>URLSearchParams\<close> serialisation (\<open>form_encode\<close>), the URL
    parser (\<open>url_parts\<close>: tab and newline removal, fragment, query, backslash,
    path percent-encoding \<open>path_encode\<close>, dot segments \<open>resolve_segs\<close>), the
    \<open>qs\<close> query parser (\<open>query_params\<close>, \<open>form_decode\<close>) and
    \<open>decodeURIComponent\<close> (\<open>pct_decode\<close>).
  \<^item> \<open>Api\<close> (index.js lines 22-39, the route table of posts.js, the URLs of
    PostContext.jsx): the Express routing (\<open>app_route\<close>, \<open>posts_route\<close>,
    \<open>seg_param\<close>), the request a handler receives for a method and a URL
    (\<open>request_of\<close>), the URLs the provider builds (\<open>fetch_url\<close>,
    \<open>search_url\<close>, \<open>category_url\<close>, \<open>post_url\<close>, \<open>like_url\<close>, \<open>create_url\<close>,
    \<open>featured_url\<close>) and the answer type of each route (\<open>route_answers\<close>).
  \<^item> \<open>Detail\<close> (PostDetail.jsx): the page state \<open>detail\<close>, \<open>loadPost\<close>,
    \<open>handleDelete\<close> and \<open>handleLike\<close> split at their \<open>await\<close>
    (\<open>load_done\<close>, \<open>delete_click\<close>, \<open>delete_done\<close>, \<open>like_click\<close>,
    \<open>like_done\<close>), the button guards, \<open>getCategoryColor\<close>, and the messages of
    the server's failing answers (\<open>error_message\<close>, \<open>auth_message\<close>) that its
    alerts show, and what the page renders (\<open>detail_render\<close>).
  \<^item> \<open>Seed\<close> (seed.js): the sample posts and users and \<open>seedDatabase\<close>
    (\<open>seed_db\<close>): \<open>deleteMany\<close>, then \<open>insertMany\<close> (\<open>insert_many\<close>), which
    validates every document before writing any and runs no save middleware; the
    lemmas show that the six samples are valid, that they are stored in order under
    fresh identifiers, and that none gets an excerpt, not even after a view
    (\<open>seeded_without_excerpt\<close>, \<open>seeded_view_no_excerpt\<close>).
  \<^item> \<open>Pages\<close> (CreatePost.jsx, Login.jsx, PostCard.jsx): the create page
    (\<open>create_page\<close>, \<open>handle_change\<close>, \<open>create_redirect\<close>, \<open>submit_click\<close>,
    \<open>submit_done\<close>), the login page (\<open>login_page\<close>, \<open>login_change\<close>,
    \<open>login_redirect\<close>, \<open>login_click\<close>, \<open>login_page_done\<close>, with the answer of
    \<open>/api/auth/login\<close> as an input), what the two pages render (\<open>create_render\<close>
    with its buttons \<open>create_button_click\<close>, \<open>login_render\<close>) and what a card
    renders (\<open>card_render\<close>). Its lemmas show that the category select offers
    exactly the schema's enum, that the submit buttons are disabled exactly while a
    request is in flight, and that a created post's content reaches the post page's
    raw HTML verbatim (\<open>created_content_rendered\<close>).
  \<^item> \<open>HomeView\<close> (Home.jsx lines 22-25, 86-191): the featured list and its
    dismissal, and what the page renders (\<open>home_render\<close>). Its lemmas prove the
    scroll loop partially correct by fixpoint induction (\<open>scroll_to_end_stops\<close>,
    \<open>scroll_to_end_idle\<close>) and, with C32, that scrolling ends on the
    end-of-results line whenever the listing has posts (\<open>scroll_ends_on_end_line\<close>).
  \<^item> \<open>Server\<close> (index.js): start-up (\<open>config\<close>, \<open>boot\<close>: exit without
    \<open>JWT_SECRET\<close>, listen whether or not \<open>connectDB\<close> succeeds) and one request
    through the middleware chain (\<open>serve\<close>: the JSON body parser, the router,
    the handlers or, with the database unreachable, \<open>offline_answer\<close> and
    \<open>auth_db_down\<close>, the error middleware and the 404 handler).
  \<^item> \<open>Navigation\<close> (App.jsx, FilterBar.jsx): the client's route table matched as
    React Router matches it (\<open>client_route\<close>), the category buttons, and the post
    page's edit link.

  \<^bold>\<open>How the model corresponds to the code.\<close> The collection is explicit state,
  passed to each handler and returned updated; a handler's \<open>await\<close>s on the store
  run in one step, except in Counters, where the like route's two awaits are two
  steps and other handlers run between them. Every
  \<open>return res.status(...)\<close> and every throw that the handler's \<open>catch\<close> turns
  into a 500 answer (a failed ObjectId cast, a validation error of \<open>save()\<close>, a
  negative skip) is a branch of the model, with the response datatype as the value.
  Mongoose's save runs its validators before the pre-save hooks and validates the
  paths loaded from the database as well as the modified ones (its default, without
  \<open>validateModifiedOnly\<close>); the model follows that order. JavaScript numbers are
  \<open>int\<close> (the counters have no width that matters); the route handlers read
  \<open>parseInt\<close> as an \<open>int option\<close> (\<open>None\<close> is \<open>NaN\<close>), and Url defines it on
  strings. Characters are HOL \<open>char\<close>s and the whitespace class is its
  ASCII part. On the client, a React state update is a function on the provider
  record; an answer outside 2xx (axios throws) leaves the list unchanged, as the
  actions' \<open>catch\<close> blocks do.

  \<^bold>\<open>What the lemmas show.\<close> Server: pagination arithmetic and its edge cases
  (C1); a listing returns only published documents that meet every filter (C2); the
  pages of a listing, read in order, are exactly the sorted match list (C3, a
  refinement of the paged API by the unpaged one); each detail fetch counts one view
  (C4); a missing post is a 404 on every route (C5); update and delete follow the
  specification's policy \<open>canMutate\<close> (C6, C7); an update changes only the fields it
  carries (C8); every run keeps the collection well formed (C9); a post whose text
  exceeds 300 characters can no longer be viewed, liked or updated (C10, a defect:
  the hook writes a 303-character excerpt that the next save's validation rejects).
  Client: infinite scroll shows the sorted match list (C11, a refinement over the
  server's answers); \<open>canEdit\<close> agrees with the server's guard (C12); the header
  round-trips the token through \<open>auth\<close> (C13); submitting the create page stores
  the post with the trimmed title and cleaned tags and opens its page, composing the
  page, the router and the create route (C14); listed cards report a reading time of 1 (C15, a defect). System: the
  invariant \<open>sys_inv\<close> holds in every reachable state, by rule induction over
  \<open>sys_step\<close> (C16); two category clicks answered out of order leave a stale list
  (C17, a concrete trace); a click on the selected category after a search, and a
  blank search, mix two listings under infinite scroll (C18, C19). Counters: the
  split like and view handlers refine the atomic ones (C20); two overlapping likes
  lose one increment, as section 5 of the specification documents, and two
  overlapping fetches of a post one view (C21); an overlapping
  update is kept (C22); a like overlapping a delete fails without resurrecting the
  post (C23). Further server cases of the specification: a page past the last (C24);
  content shorter than 10 characters passes the create page and ends in the server's
  500 message (C25, a gap between the form's check and the schema's); every navigation target of the pages is a route of
  App.jsx except the post page's edit link, so editing is unreachable (C26, a
  defect); the
  end-to-end create case of its section 8 (C31); and the divergences the model
  exposes, as theorems: a view moves a post to the top of the listings (C27), a
  malformed identifier and a too-short content answer 500 instead of NotFound and
  ValidationError (C28, C29), and an explicit empty string in an update is ignored
  (C30). Scroll: the scroll loop terminates from every state with a non-negative
  page number (C32, proved as \<open>\<exists>c'. scroll_to_end ... = Some c'\<close> by induction
  on the number of pages left) and, started on the first page, ends showing every
  match once in the server's order (C33). Interface: every answer has the type of
  its route (C34); the URLs of the provider reach the route, identifier, page,
  limit and category they were built from (C35 for every category, C36 for
  parameters free of URL syntax), while a search query with \<open>/\<close>, \<open>?\<close>,
  \<open>..\<close> or a stray \<open>%\<close> reaches the wrong route or none (C38, a defect: the query
  is interpolated unencoded). Post page: the delete flow navigates home or shows
  the server's reason and always clears \<open>deleting\<close> (C39); the like flow shows
  the server's new count (C40). Server process: without \<open>JWT_SECRET\<close> it
  exits; with the database unreachable it still listens, answers every posts
  request 401 or 500 without a change and reports health OK (C37). Each claim with a hypothesis has a witness at the
  example data of this theory, evaluated by \<open>simp\<close> and \<open>code_simp\<close>. No function
  needs fuel: the string scanners terminate by a length measure or are
  structural, and the one loop that may not return, \<open>scroll_to_end\<close>, is a
  \<^theory_text>\<open>partial_function (option)\<close> whose return is proved (C32).

  \<^bold>\<open>Not modelled.\<close> Styling and the markup that computes nothing (the pages'
  rendered values are modelled by \<open>card_render\<close>, \<open>home_render\<close>,
  \<open>detail_render\<close>, \<open>create_render\<close> and \<open>login_render\<close>), LoadingSpinner (size classes only), the locale formatting of
  dates (\<open>formatDate\<close>) and of attachment sizes (\<open>toFixed\<close>); of the server
  bootstrap (src/server/index.js) the cors and helmet middleware, which only set
  headers, the console logging and the socket of \<open>listen\<close>, which are I/O (the
  connection's outcome is an input, \<open>connects\<close>); the seed script (src/server/seed.js) apart from its post collection (the
  User model it also fills is not in the sources); the authentication routes
  (routes/auth.js, not in the sources, whose answers are inputs of the client
  model); token signing and verification, the ObjectId cast and MongoDB's text
  index are parameters of the model (\<open>env\<close>).

  \<^bold>\<open>Plan.\<close> Next: the post page
  and the provider's list kept in step on a like, in the Session relation; a
  client-side fix of the stale-answer race (ignore answers of superseded requests)
  proved to restore the agreement of list and filter.
\<close>

section \<open>Example data for the witnesses\<close>

text \<open>
  A collection of three published job posts (two by ann, one by bob), an environment
  with two active users (ann, role user; moe, role moderator) whose tokens are
  \<open>ann-token\<close> and \<open>moe-token\<close>, ObjectId strings \<open>''0''\<close> to \<open>''3''\<close> and
  \<open>''9''\<close>, and a text index that matches a search word against the words of the
  title. A create body whose content is 301 characters long drives the excerpt finding.
\<close>

definition demo_post :: "string \<Rightarrow> string \<Rightarrow> time \<Rightarrow> post" where
  "demo_post t a n =
     \<lparr>title = t, excerpt = ''hello world'', author = a, category = ''job'', tags = [''x''],
      featured = False, published = True, views = 0, likes = 0, imageUrl = [], attachments = [],
      createdAt = n, updatedAt = n, content = ''hello world''\<rparr>"

definition demo_store :: store where
  "demo_store =
     snd (insert_doc (demo_post ''c'' ''bob'' 30)
       (snd (insert_doc (demo_post ''b'' ''ann'' 20)
         (snd (insert_doc (demo_post ''a'' ''ann'' 10) empty_store)))))"

definition ann :: user where "ann = \<lparr>name = ''ann'', role = User, isActive = True\<rparr>"
definition moe :: user where "moe = \<lparr>name = ''moe'', role = Moderator, isActive = True\<rparr>"

definition demo_env :: env where
  "demo_env =
     \<lparr>verify = (\<lambda>t. if t = ''ann-token'' then JwtValid ''0''
                    else if t = ''moe-token'' then JwtValid ''1'' else JwtInvalid),
      users = Map.empty(0 \<mapsto> ann, 1 \<mapsto> moe),
      cast_id = map_of [(''0'', 0), (''1'', 1), (''2'', 2), (''3'', 3), (''9'', 9)],
      text_idx = (\<lambda>q p. q \<in> set (js_words (title p)))\<rparr>"

definition demo_filters :: filters where
  "demo_filters = \<lparr>f_category = Some ''job'', f_search = None, f_tags = Some [''x'']\<rparr>"

definition long_body :: create_body where
  "long_body = \<lparr>cb_title = Some ''Long'', cb_content = Some (replicate 301 (CHR ''a'')),
                cb_category = None, cb_tags = None, cb_featured = None, cb_imageUrl = None\<rparr>"



definition ann_session :: auth_ctx where
  "ann_session = \<lparr>a_user = Some ann, a_token = Some ''ann-token'', a_loading = False\<rparr>"

definition wordy_text :: string where
  "wordy_text = concat (map (\<lambda>w. w @ '' '') (replicate 201 ''ab''))"

definition wordy_post :: post where
  "wordy_post = (demo_post ''w'' ''ann'' 5)\<lparr>content := wordy_text\<rparr>"

definition race_job :: post where "race_job = demo_post ''j'' ''ann'' 10"
definition race_intern :: post where "race_intern = (demo_post ''i'' ''ann'' 20)\<lparr>category := ''internship''\<rparr>"
definition race_store :: store where
  "race_store = snd (insert_doc race_intern (snd (insert_doc race_job empty_store)))"
definition race_start :: sys where
  "race_start = \<lparr>srv = race_store, hm = home_init, pc = ctx_init, au = auth_init None, sent = [], recv = []\<rparr>"

definition race_s1 :: sys where
  "race_s1 = race_start\<lparr>hm := fst (category_action ''job'' (hm race_start)),
     pc := list_started (pc race_start), sent := [(LoadPage 1, fetch_request 1 ''job'')]\<rparr>"

definition no_filters :: filters where
  "no_filters = \<lparr>f_category = None, f_search = None, f_tags = None\<rparr>"

definition e2e_body :: create_body where
  "e2e_body = \<lparr>cb_title = Some ''T'', cb_content = Some ''hello world'',
               cb_category = None, cb_tags = None, cb_featured = None, cb_imageUrl = None\<rparr>"

section \<open>Evaluation of the examples\<close>

lemma demo_pages:
  "get_posts (text_idx demo_env) 2 10 no_filters demo_store =
     Inr ([], \<lparr>current = 2, pages = 1, total = 3, hasNext = False, hasPrev = True\<rparr>)"
  "get_posts (text_idx demo_env) 1 10 (no_filters\<lparr>f_category := Some ''training''\<rparr>) demo_store =
     Inr ([], \<lparr>current = 1, pages = 0, total = 0, hasNext = False, hasPrev = False\<rparr>)"
  "matching (text_idx demo_env) (build_query (no_filters\<lparr>f_category := Some ''training''\<rparr>)) demo_store = []"
  by code_simp+


lemma race_answers:
  "snd (handle demo_env 0 race_store (fetch_request 1 ''job'')) = ListOk [project (0, race_job)]
        \<lparr>current = 1, pages = 1, total = 1, hasNext = False, hasPrev = False\<rparr>"
  "snd (handle demo_env 0 race_store (fetch_request 1 ''internship'')) = ListOk [project (1, race_intern)]
        \<lparr>current = 1, pages = 1, total = 1, hasNext = False, hasPrev = False\<rparr>"
  by code_simp+

lemma race_handle:
  "handle demo_env 0 race_store (fetch_request 1 ''job'') = (race_store, ListOk [project (0, race_job)]
        \<lparr>current = 1, pages = 1, total = 1, hasNext = False, hasPrev = False\<rparr>)"
  "handle demo_env 0 race_store (fetch_request 1 ''internship'') = (race_store, ListOk [project (1, race_intern)]
        \<lparr>current = 1, pages = 1, total = 1, hasNext = False, hasPrev = False\<rparr>)"
  by (metis prod.collapse race_answers list_request_store)+

lemma wf_race_store: "wf_store race_store"
proof -
  have "post_inv race_job" "post_inv race_intern"
    by (simp_all add: post_inv_def race_job_def race_intern_def demo_post_def parse_category_def category_enum_def)
  then show ?thesis unfolding race_store_def by (intro wf_insert_doc wf_empty_store)
qed

lemma race_step1: "sys_step demo_env sid race_start race_s1"
proof -
  have "sys_step demo_env sid race_start (race_start\<lparr>hm := fst (category_action ''job'' (hm race_start)),
      pc := list_started (pc race_start), sent := sent race_start @ [(LoadPage 1, fetch_request 1 ''job'')]\<rparr>)"
    by (rule sys_step.category[where c = "''job''"]) (simp add: category_action_def race_start_def home_init_def)
  then show ?thesis by (simp add: race_s1_def race_start_def)
qed

text \<open>C17: The list on the home page can show the posts of a category other than the selected one: when the user picks one category and then another before the first answer arrives, and the server answers the two requests in the opposite order, the provider applies the stale answer last and nothing marks it as stale.\<close>

theorem stale_category_race:
  "\<exists>s. (sys_step demo_env sid)\<^sup>*\<^sup>* race_start s \<and> selectedCategory (hm s) = ''internship'' \<and>
       sent s = [] \<and> recv s = [] \<and> \<not> ctx_loading (pc s) \<and> ctx_posts (pc s) \<noteq> [] \<and>
       list_all (\<lambda>c. category (c_doc c) = ''job'') (ctx_posts (pc s))"
proof -
  let ?rj = "fetch_request 1 ''job''" and ?ri = "fetch_request 1 ''internship''"
  let ?pg = "\<lparr>current = 1, pages = 1, total = 1, hasNext = False, hasPrev = False\<rparr>"
  define Rj where "Rj = ListOk [project (0, race_job)] ?pg"
  define Ri where "Ri = ListOk [project (1, race_intern)] ?pg"
  define s1 where "s1 = race_start\<lparr>hm := fst (category_action ''job'' (hm race_start)),
    pc := list_started (pc race_start), sent := sent race_start @ [(LoadPage 1, ?rj)]\<rparr>"
  define s2 where "s2 = s1\<lparr>hm := fst (category_action ''internship'' (hm s1)),
    pc := list_started (pc s1), sent := sent s1 @ [(LoadPage 1, ?ri)]\<rparr>"
  define s3 where "s3 = s2\<lparr>srv := race_store, sent := [(LoadPage 1, ?rj)] @ [], recv := recv s2 @ [(LoadPage 1, Ri)]\<rparr>"
  define s4 where "s4 = s3\<lparr>srv := race_store, sent := [] @ [], recv := recv s3 @ [(LoadPage 1, Rj)]\<rparr>"
  define s5 where "s5 = s4\<lparr>pc := apply_answer (LoadPage 1) Ri (pc s4), recv := [] @ [(LoadPage 1, Rj)]\<rparr>"
  define s6 where "s6 = s5\<lparr>pc := apply_answer (LoadPage 1) Rj (pc s5), recv := [] @ []\<rparr>"
  have st: "srv s2 = race_store" "srv s3 = race_store"
    by (simp_all add: s1_def s2_def s3_def race_start_def)
  have hi: "handle demo_env 0 (srv s2) ?ri = (race_store, Ri)" unfolding st Ri_def by (rule race_handle(2))
  have hj: "handle demo_env 0 (srv s3) ?rj = (race_store, Rj)" unfolding st Rj_def by (rule race_handle(1))
  have "sys_step demo_env sid race_start s1" unfolding s1_def
    by (rule sys_step.category[where c = "''job''"]) (simp add: category_action_def race_start_def home_init_def)
  moreover have "sys_step demo_env sid s1 s2" unfolding s2_def
    by (rule sys_step.category[where c = "''internship''"]) (simp add: category_action_def s1_def race_start_def home_init_def)
  moreover have "sys_step demo_env sid s2 s3" unfolding s3_def
    by (rule sys_step.serve[where t = 0, OF _ hi]) (simp add: s1_def s2_def race_start_def)
  moreover have "sys_step demo_env sid s3 s4" unfolding s4_def
    by (rule sys_step.serve[where t = 0, OF _ hj]) (simp add: s3_def)
  moreover have "sys_step demo_env sid s4 s5" unfolding s5_def
    by (rule sys_step.deliver) (simp add: s4_def s3_def s2_def s1_def race_start_def)
  moreover have "sys_step demo_env sid s5 s6" unfolding s6_def
    by (rule sys_step.deliver) (simp add: s5_def)
  ultimately have "(sys_step demo_env sid)\<^sup>*\<^sup>* race_start s6"
    by (meson rtranclp.rtrancl_into_rtrancl rtranclp.rtrancl_refl)
  moreover have "selectedCategory (hm s6) = ''internship'' \<and> sent s6 = [] \<and> recv s6 = [] \<and>
       \<not> ctx_loading (pc s6) \<and> ctx_posts (pc s6) \<noteq> [] \<and>
       list_all (\<lambda>c. category (c_doc c) = ''job'') (ctx_posts (pc s6))"
    by (simp add: s6_def s5_def s4_def s3_def s2_def s1_def race_start_def category_action_def
        list_loaded_def Rj_def Ri_def item_card_def project_def race_job_def demo_post_def summary.defs)
  ultimately show ?thesis by blast
qed


lemma demo_store_posts:
  "posts demo_store = Map.empty(0 \<mapsto> demo_post ''a'' ''ann'' 10, 1 \<mapsto> demo_post ''b'' ''ann'' 20,
                                2 \<mapsto> demo_post ''c'' ''bob'' 30)"
  "next_id demo_store = 3"
  by (simp_all add: demo_store_def insert_doc_def empty_store_def numeral_2_eq_2 numeral_3_eq_3)

lemma demo_auth:
  "authenticate demo_env (Some ''Bearer ann-token'') = Inr ann"
  "authenticate demo_env (Some ''Bearer moe-token'') = Inr moe"
  by (simp_all add: authenticate_def auth_def demo_env_def ann_def moe_def)

lemma demo_valid: "validate_post (demo_post t a n) = [] \<longleftrightarrow> t \<noteq> [] \<and> length t \<le> 200 \<and> a \<noteq> []"
  by (auto simp: validate_post_def demo_post_def parse_category_def category_enum_def)

lemma demo_listing:
  "get_posts (text_idx demo_env) 1 2 demo_filters demo_store =
     Inr ([(2, summary.truncate (demo_post ''c'' ''bob'' 30)), (1, summary.truncate (demo_post ''b'' ''ann'' 20))],
          \<lparr>current = 1, pages = 2, total = 3, hasNext = True, hasPrev = False\<rparr>)"
  by code_simp



lemma demo_lookup: "cast_id demo_env ''0'' = Some 0" "cast_id demo_env ''2'' = Some 2" "cast_id demo_env ''9'' = Some 9"
  by (simp_all add: demo_env_def)

lemma wf_demo_store: "wf_store demo_store"
proof -
  have "post_inv (demo_post t a n)" if "t \<noteq> []" "length t \<le> 200" "a \<noteq> []" for t a n
    using that by (simp add: post_inv_def demo_post_def parse_category_def category_enum_def)
  then show ?thesis unfolding demo_store_def
    by (intro wf_insert_doc wf_empty_store) simp_all
qed

section \<open>Properties across components\<close>


section \<open>Witnesses\<close>

theorem get_posts_pagination_witness:
  "0 < (2::int) \<and> 1 \<le> (1::int) \<and>
   get_posts (text_idx demo_env) 1 2 demo_filters demo_store =
     Inr ([(2, summary.truncate (demo_post ''c'' ''bob'' 30)), (1, summary.truncate (demo_post ''b'' ''ann'' 20))],
          \<lparr>current = 1, pages = 2, total = 3, hasNext = True, hasPrev = False\<rparr>) \<and>
   3 \<le> 2 * (2::int) \<and> (2 - 1) * 2 < (3::int)"
  using get_posts_pagination[OF _ _ demo_listing] demo_listing by simp

theorem get_posts_items_sound_witness:
  "get_posts (text_idx demo_env) 1 2 demo_filters demo_store =
     Inr ([(2, summary.truncate (demo_post ''c'' ''bob'' 30)), (1, summary.truncate (demo_post ''b'' ''ann'' 20))],
          \<lparr>current = 1, pages = 2, total = 3, hasNext = True, hasPrev = False\<rparr>) \<and>
   list_all (\<lambda>(i, sm). \<exists>p. posts demo_store i = Some p \<and> sm = summary.truncate p \<and> published p \<and>
                          category p = ''job'' \<and> ''x'' \<in> set (tags p))
     [(2::nat, summary.truncate (demo_post ''c'' ''bob'' 30)), (1, summary.truncate (demo_post ''b'' ''ann'' 20))]"
proof -
  have "\<forall>(i, sm)\<in>set [(2::nat, summary.truncate (demo_post ''c'' ''bob'' 30)), (1, summary.truncate (demo_post ''b'' ''ann'' 20))].
      \<exists>p. posts demo_store i = Some p \<and> sm = summary.truncate p \<and> published p \<and>
        (str_truthy (f_category demo_filters) \<longrightarrow> f_category demo_filters = Some (category p)) \<and>
        (\<forall>t. str_truthy (f_search demo_filters) \<longrightarrow> f_search demo_filters = Some t \<longrightarrow> text_idx demo_env t p) \<and>
        (\<forall>ts. f_tags demo_filters = Some ts \<longrightarrow> ts \<noteq> [] \<longrightarrow> (\<exists>t\<in>set ts. t \<in> set (tags p)))"
    by (rule get_posts_items_sound[OF demo_listing])
  then show ?thesis using demo_listing by (auto simp add: demo_filters_def str_truthy_def)
qed

theorem get_posts_all_pages_witness:
  "0 < (2::int) \<and>
   concat (map (\<lambda>k. fst (projr (get_posts (text_idx demo_env) (int k) 2 demo_filters demo_store))) [1..<Suc 2]) =
   map project (take (2 * nat 2) (find_sorted (text_idx demo_env) (build_query demo_filters) demo_store))"
  using get_posts_all_pages[of 2 "text_idx demo_env" demo_filters demo_store 2] by simp

theorem get_post_repeated_witness:
  "cast_id demo_env ''0'' = Some 0 \<and> posts demo_store 0 = Some (demo_post ''a'' ''ann'' 10) \<and>
   validate_post (demo_post ''a'' ''ann'' 10) = [] \<and>
   (\<exists>q. posts (fst (run demo_env demo_store (map (\<lambda>t. (t, GetPost ''0'')) [41, 42, 43, 44, 45]))) 0 = Some q \<and>
        views q = views (demo_post ''a'' ''ann'' 10) + 5 \<and> validate_post q = [])"
proof -
  have p: "posts demo_store 0 = Some (demo_post ''a'' ''ann'' 10)" by (simp add: demo_store_posts)
  have v: "validate_post (demo_post ''a'' ''ann'' 10) = []" by (simp add: demo_valid)
  show ?thesis using get_post_repeated[OF demo_lookup(1) p v, of "[41, 42, 43, 44, 45]"] demo_lookup(1) p v
    by simp
qed

theorem missing_post_not_found_witness:
  "authenticate demo_env (Some ''Bearer ann-token'') = Inr ann \<and> cast_id demo_env ''9'' = Some 9 \<and>
   posts demo_store 9 = None \<and>
   get_post demo_env 5 demo_store ''9'' = (demo_store, NotFound) \<and>
   update_post demo_env 5 demo_store (Some ''Bearer ann-token'') ''9'' no_update = (demo_store, NotFound) \<and>
   delete_post demo_env demo_store (Some ''Bearer ann-token'') ''9'' = (demo_store, NotFound) \<and>
   like_post demo_env 5 demo_store (Some ''Bearer ann-token'') ''9'' = (demo_store, NotFound)"
proof -
  have n: "posts demo_store 9 = None" by (simp add: demo_store_posts)
  show ?thesis using missing_post_not_found[OF demo_auth(1) demo_lookup(3) n] demo_auth(1) demo_lookup(3) n
    by simp
qed

theorem delete_post_policy_witness:
  "authenticate demo_env (Some ''Bearer ann-token'') = Inr ann \<and> cast_id demo_env ''2'' = Some 2 \<and>
   posts demo_store 2 = Some (demo_post ''c'' ''bob'' 30) \<and>
   delete_post demo_env demo_store (Some ''Bearer ann-token'') ''2'' = (demo_store, Forbidden) \<and>
   authenticate demo_env (Some ''Bearer moe-token'') = Inr moe \<and>
   delete_post demo_env demo_store (Some ''Bearer moe-token'') ''2'' = (delete_doc 2 demo_store, Deleted)"
proof -
  have p: "posts demo_store 2 = Some (demo_post ''c'' ''bob'' 30)" by (simp add: demo_store_posts)
  have "\<not> canMutate ann (demo_post ''c'' ''bob'' 30)" "canMutate moe (demo_post ''c'' ''bob'' 30)"
    by (simp_all add: canMutate_def ann_def moe_def demo_post_def)
  then show ?thesis
    using delete_post_policy[OF demo_auth(1) demo_lookup(2) p] delete_post_policy[OF demo_auth(2) demo_lookup(2) p]
      demo_auth demo_lookup(2) p by simp
qed

theorem update_post_policy_witness:
  "authenticate demo_env (Some ''Bearer ann-token'') = Inr ann \<and> cast_id demo_env ''2'' = Some 2 \<and>
   posts demo_store 2 = Some (demo_post ''c'' ''bob'' 30) \<and>
   update_post demo_env 5 demo_store (Some ''Bearer ann-token'') ''2'' no_update = (demo_store, Forbidden)"
proof -
  have p: "posts demo_store 2 = Some (demo_post ''c'' ''bob'' 30)" by (simp add: demo_store_posts)
  have "\<not> canMutate ann (demo_post ''c'' ''bob'' 30)" by (simp add: canMutate_def ann_def demo_post_def)
  then show ?thesis
    using update_post_policy[OF demo_auth(1) demo_lookup(2) p, of 5 no_update] demo_auth demo_lookup(2) p by simp
qed

theorem update_featured_only_witness:
  "authenticate demo_env (Some ''Bearer ann-token'') = Inr ann \<and> cast_id demo_env ''0'' = Some 0 \<and>
   posts demo_store 0 = Some (demo_post ''a'' ''ann'' 10) \<and> canMutate ann (demo_post ''a'' ''ann'' 10) \<and>
   validate_post (demo_post ''a'' ''ann'' 10) = [] \<and>
   (\<exists>q. update_post demo_env 7 demo_store (Some ''Bearer ann-token'') ''0'' (no_update\<lparr>ub_featured := Some True\<rparr>) =
          (replace_doc 0 q demo_store, PostOk 0 q) \<and>
        featured q \<and> title q = ''a'' \<and> content q = ''hello world'' \<and> category q = ''job'' \<and> tags q = [''x''])"
proof -
  have p: "posts demo_store 0 = Some (demo_post ''a'' ''ann'' 10)" by (simp add: demo_store_posts)
  have c: "canMutate ann (demo_post ''a'' ''ann'' 10)" by (simp add: canMutate_def ann_def demo_post_def)
  have v: "validate_post (demo_post ''a'' ''ann'' 10) = []" by (simp add: demo_valid)
  show ?thesis using update_featured_only[OF demo_auth(1) demo_lookup(1) p c v, of 7] demo_auth(1) demo_lookup(1) p c v
    by (simp add: demo_post_def)
qed

theorem run_preserves_wf_witness:
  "wf_store demo_store \<and>
   wf_store (fst (run demo_env demo_store [(60, CreatePost (Some ''Bearer ann-token'') long_body), (61, GetPost ''0'')]))"
  using run_preserves_wf[OF wf_demo_store] wf_demo_store by simp


theorem canEdit_agrees_witness:
  "a_user ann_session = Some ann \<and>
   \<not> canEdit ann_session (summary.truncate (demo_post ''c'' ''bob'' 30)) \<and>
   forbidden ann (demo_post ''c'' ''bob'' 30)"
  using Client.canEdit_agrees[of ann_session ann "demo_post ''c'' ''bob'' 30"]
  by (simp add: ann_session_def ann_def demo_post_def forbidden_def)

theorem auth_header_token_witness:
  "a_token ann_session = Some ''ann-token'' \<and>
   map_option (replace_first ''Bearer '' []) (auth_header ann_session) = Some ''ann-token''"
  using Client.auth_header_token[of ann_session "''ann-token''"] by (simp add: ann_session_def)

theorem card_readingTime_differs_witness:
  "200 < length (js_words (content wordy_post)) \<and>
   c_readingTime (item_card (project (7, wordy_post))) < c_readingTime (post_card 7 wordy_post)"
proof -
  have w: "js_words wordy_text = replicate 201 ''ab''"
    unfolding wordy_text_def by (rule js_words_join) (simp add: space_free_def is_js_space_def)
  then have "200 < length (js_words (content wordy_post))" by (simp add: wordy_post_def)
  then show ?thesis using Client.card_readingTime_differs[of wordy_post 7] by simp
qed

theorem reachable_sys_inv_witness:
  "(sys_step demo_env (\<lambda>i. [])) \<^sup>*\<^sup>* race_start race_s1 \<and> sys_inv race_start \<and> sys_inv race_s1"
proof -
  have r: "(sys_step demo_env (\<lambda>i. []))\<^sup>*\<^sup>* race_start race_s1" using race_step1 by blast
  have i: "sys_inv race_start" by (simp add: sys_inv_def race_start_def ctx_init_def wf_race_store)
  show ?thesis using Session.reachable_sys_inv[OF r i] r i by simp
qed

theorem search_then_same_category_witness:
  "js_trim ''java'' \<noteq> [] \<and> hasNext (ctx_pagination ctx_init\<lparr>hasNext := True\<rparr>) \<and>
   scroll_request (home_init\<lparr>searchQuery := []\<rparr>)
     (list_loaded 1 (ListOk [] (ctx_pagination ctx_init\<lparr>hasNext := True\<rparr>)) ctx_init) =
     Some (2, fetch_request 2 [])"
  using Client.search_then_same_category[of "''java''" "ctx_pagination ctx_init\<lparr>hasNext := True\<rparr>" home_init "[]" ctx_init]
  by (simp add: js_trim_def is_js_space_def ctx_init_def home_init_def)

theorem blank_search_scroll_witness:
  "''  '' \<noteq> [] \<and> js_trim ''  '' = [] \<and> hasNext (ctx_pagination ctx_init\<lparr>hasNext := True\<rparr>) \<and>
   scroll_request (home_init\<lparr>searchQuery := ''  ''\<rparr>)
     (list_loaded 1 (ListOk [] (ctx_pagination ctx_init\<lparr>hasNext := True\<rparr>)) ctx_init) =
     Some (2, search_request ''  '' 2)"
  using Client.blank_search_scroll[of "''  ''" "ctx_pagination ctx_init\<lparr>hasNext := True\<rparr>" home_init "[]" ctx_init]
  by (simp add: js_trim_def is_js_space_def ctx_init_def home_init_def)

lemma demo_like_load:
  "like_load demo_env demo_store (Some ''Bearer ann-token'') ''0'' = Inr (0, demo_post ''a'' ''ann'' 10)"
  by (simp add: like_load_def demo_auth demo_lookup demo_store_posts)

theorem concurrent_likes_lost_witness:
  "like_load demo_env demo_store (Some ''Bearer ann-token'') ''0'' = Inr (0, demo_post ''a'' ''ann'' 10) \<and>
   validate_post (demo_post ''a'' ''ann'' 10) = [] \<and>
   map_option likes (posts (fst (like_save 41 (fst (like_save 40 demo_store 0 (demo_post ''a'' ''ann'' 10)))
     0 (demo_post ''a'' ''ann'' 10))) 0) = Some 1 \<and>
   map_option likes (posts (fst (like_post demo_env 41 (fst (like_post demo_env 40 demo_store
     (Some ''Bearer ann-token'') ''0'')) (Some ''Bearer ann-token'') ''0'')) 0) = Some 2 \<and>
   map_option views (posts (fst (get_post demo_env 41 (fst (get_post demo_env 40 demo_store ''0'')) ''0'')) 0) = Some 2"
proof -
  have v: "validate_post (demo_post ''a'' ''ann'' 10) = []" by (simp add: demo_valid)
  show ?thesis using Counters.concurrent_likes_lost[OF demo_like_load demo_like_load v, of 40 41] demo_like_load v
    by (simp add: demo_post_def)
qed

theorem like_keeps_concurrent_update_witness:
  "like_load demo_env demo_store (Some ''Bearer ann-token'') ''0'' = Inr (0, demo_post ''a'' ''ann'' 10) \<and>
   validate_post (demo_post ''a'' ''ann'' 10) = [] \<and>
   update_post demo_env 7 demo_store (Some ''Bearer moe-token'') ''0'' (no_update\<lparr>ub_title := Some ''A2''\<rparr>) =
     (replace_doc 0 ((demo_post ''a'' ''ann'' 10)\<lparr>title := ''A2'', updatedAt := 7\<rparr>) demo_store,
      PostOk 0 ((demo_post ''a'' ''ann'' 10)\<lparr>title := ''A2'', updatedAt := 7\<rparr>)) \<and>
   map_option title (posts (fst (like_save 8 (replace_doc 0 ((demo_post ''a'' ''ann'' 10)\<lparr>title := ''A2'', updatedAt := 7\<rparr>) demo_store)
     0 (demo_post ''a'' ''ann'' 10))) 0) = Some ''A2''"
proof -
  have u: "update_post demo_env 7 demo_store (Some ''Bearer moe-token'') ''0'' (no_update\<lparr>ub_title := Some ''A2''\<rparr>) =
     (replace_doc 0 ((demo_post ''a'' ''ann'' 10)\<lparr>title := ''A2'', updatedAt := 7\<rparr>) demo_store,
      PostOk 0 ((demo_post ''a'' ''ann'' 10)\<lparr>title := ''A2'', updatedAt := 7\<rparr>))"
    by (simp add: authenticated_handlers(1)[OF demo_auth(2) demo_lookup(1)] demo_store_posts forbidden_def moe_def
        apply_update_def no_update_def str_truthy_def str_or_def js_trim_def is_js_space_def
        save_document_same_content demo_post_def validate_post_def parse_category_def category_enum_def)
  have v: "validate_post (demo_post ''a'' ''ann'' 10) = []" by (simp add: demo_valid)
  show ?thesis using Counters.like_keeps_concurrent_update[OF demo_like_load v u, of 8] u demo_like_load v
    by (simp add: replace_doc_def)
qed

theorem like_after_delete_witness:
  "like_load demo_env demo_store (Some ''Bearer ann-token'') ''0'' = Inr (0, demo_post ''a'' ''ann'' 10) \<and>
   delete_post demo_env demo_store (Some ''Bearer ann-token'') ''0'' = (delete_doc 0 demo_store, Deleted) \<and>
   like_save 9 (delete_doc 0 demo_store) 0 (demo_post ''a'' ''ann'' 10) = (delete_doc 0 demo_store, ServerError)"
proof -
  have d: "delete_post demo_env demo_store (Some ''Bearer ann-token'') ''0'' = (delete_doc 0 demo_store, Deleted)"
    by (simp add: authenticated_handlers(2)[OF demo_auth(1) demo_lookup(1)] demo_store_posts forbidden_def ann_def
        demo_post_def)
  show ?thesis using Counters.like_after_delete[OF demo_like_load d, of 9] demo_like_load d by simp
qed

theorem get_posts_beyond_last_witness:
  "0 < (10::int) \<and> 1 \<le> (2::int) \<and>
   get_posts (text_idx demo_env) 2 10 no_filters demo_store =
     Inr ([], \<lparr>current = 2, pages = 1, total = 3, hasNext = False, hasPrev = True\<rparr>) \<and>
   pages \<lparr>current = 2, pages = 1, total = 3, hasNext = False, hasPrev = True\<rparr> < 2"
  using Query.get_posts_beyond_last[OF _ _ demo_pages(1)] demo_pages(1) by simp

theorem view_resurfaces_witness:
  "wf_store demo_store \<and> cast_id demo_env ''0'' = Some 0 \<and>
   posts demo_store 0 = Some (demo_post ''a'' ''ann'' 10) \<and> validate_post (demo_post ''a'' ''ann'' 10) = [] \<and>
   matches (text_idx demo_env) (build_query no_filters) ((demo_post ''a'' ''ann'' 10)\<lparr>views := 1, updatedAt := 50\<rparr>) \<and>
   hd (find_sorted (text_idx demo_env) (build_query no_filters) (fst (get_post demo_env 50 demo_store ''0''))) =
     (0, (demo_post ''a'' ''ann'' 10)\<lparr>views := 1, updatedAt := 50\<rparr>)"
proof -
  have p: "posts demo_store 0 = Some (demo_post ''a'' ''ann'' 10)" by (simp add: demo_store_posts)
  have v: "validate_post (demo_post ''a'' ''ann'' 10) = []" by (simp add: demo_valid)
  have u: "\<forall>j q. posts demo_store j = Some q \<longrightarrow> updatedAt q < 50"
    by (simp add: demo_store_posts demo_post_def)
  have m: "matches (text_idx demo_env) (build_query no_filters) ((demo_post ''a'' ''ann'' 10)\<lparr>views := views (demo_post ''a'' ''ann'' 10) + 1, updatedAt := 50\<rparr>)"
    by (simp add: matches_def build_query_def no_filters_def str_truthy_def demo_post_def)
  show ?thesis using Routes.view_resurfaces[OF wf_demo_store demo_lookup(1) p v u m] wf_demo_store demo_lookup(1) p v u m
    by (simp add: demo_post_def)
qed

theorem malformed_id_server_error_witness:
  "authenticate demo_env (Some ''Bearer ann-token'') = Inr ann \<and> cast_id demo_env ''zz'' = None \<and>
   get_post demo_env 5 demo_store ''zz'' = (demo_store, ServerError) \<and>
   delete_post demo_env demo_store (Some ''Bearer ann-token'') ''zz'' = (demo_store, ServerError)"
proof -
  have c: "cast_id demo_env ''zz'' = None" by (simp add: demo_env_def)
  show ?thesis using Routes.malformed_id_server_error[OF demo_auth(1) c, of 5 demo_store no_update] demo_auth(1) c
    by simp
qed

theorem create_short_content_server_error_witness:
  "authenticate demo_env (Some ''Bearer ann-token'') = Inr ann \<and>
   cb_content (e2e_body\<lparr>cb_content := Some ''short''\<rparr>) = Some ''short'' \<and> length ''short'' < 10 \<and>
   create_post demo_env 5 demo_store (Some ''Bearer ann-token'') (e2e_body\<lparr>cb_content := Some ''short''\<rparr>) =
     (demo_store, ServerError)"
  using Routes.create_short_content_server_error[OF demo_auth(1), of "e2e_body\<lparr>cb_content := Some ''short''\<rparr>" "''short''" 5 demo_store]
    demo_auth(1) by simp

theorem update_empty_strings_ignored_witness:
  "authenticate demo_env (Some ''Bearer ann-token'') = Inr ann \<and> cast_id demo_env ''0'' = Some 0 \<and>
   posts demo_store 0 = Some (demo_post ''a'' ''ann'' 10) \<and> canMutate ann (demo_post ''a'' ''ann'' 10) \<and>
   validate_post (demo_post ''a'' ''ann'' 10) = [] \<and>
   update_post demo_env 5 demo_store (Some ''Bearer ann-token'') ''0''
     (no_update\<lparr>ub_title := Some [], ub_content := Some [], ub_category := Some []\<rparr>) =
     (demo_store, PostOk 0 (demo_post ''a'' ''ann'' 10))"
proof -
  have p: "posts demo_store 0 = Some (demo_post ''a'' ''ann'' 10)" by (simp add: demo_store_posts)
  have v: "validate_post (demo_post ''a'' ''ann'' 10) = []" by (simp add: demo_valid)
  have c: "canMutate ann (demo_post ''a'' ''ann'' 10)" by (simp add: canMutate_def ann_def demo_post_def)
  show ?thesis using Routes.update_empty_strings_ignored[OF demo_auth(1) demo_lookup(1) p c v, of 5]
      demo_auth(1) demo_lookup(1) p c v by simp
qed

theorem create_end_to_end_witness:
  "authenticate demo_env (Some ''Bearer ann-token'') = Inr ann \<and> js_trim (name ann) \<noteq> [] \<and>
   js_trim ''T'' \<noteq> [] \<and> length (js_trim ''T'') \<le> 200 \<and> tag_free ''hello world'' \<and>
   length (js_words ''hello world'') \<le> 200 \<and>
   (\<exists>p. create_post demo_env 5 demo_store (Some ''Bearer ann-token'') e2e_body =
      (snd (insert_doc p demo_store), Created (next_id demo_store) p) \<and> excerpt p = ''hello world'' \<and>
      reading_time (Some (content p)) = 1)"
proof -
  have n: "js_trim (name ann) \<noteq> []" by (simp add: ann_def js_trim_def is_js_space_def)
  have t: "js_trim ''T'' = ''T''" by (simp add: js_trim_def is_js_space_def)
  have f: "tag_free ''hello world''" by (rule tag_free_no_lt) simp
  have w: "length (js_words ''hello world'') \<le> 200" by (simp add: js_words_def is_js_space_def)
  show ?thesis
    using Routes.create_end_to_end[OF demo_auth(1) n, of e2e_body "''T''" "''hello world''" 5 demo_store]
      demo_auth(1) n t f w by (auto simp: e2e_body_def)
qed

theorem scroll_terminates_witness:
  "0 \<le> current (ctx_pagination ctx_init) \<and> (\<exists>c'. scroll_to_end demo_env 0 demo_store home_init ctx_init = Some c')"
proof -
  have z: "0 \<le> current (ctx_pagination ctx_init)" by (simp add: ctx_init_def)
  show ?thesis using scroll_terminates[OF z] z by blast
qed

theorem handle_answers_witness:
  "(\<exists>p. snd (handle demo_env 5 demo_store (GetPost ''0'')) = PostOk 0 p) \<and>
   route_answers (GetPost ''0'') (snd (handle demo_env 5 demo_store (GetPost ''0''))) \<and>
   (\<exists>idstr. (GetPost ''0'' = GetPost idstr \<or> (\<exists>h b. GetPost ''0'' = UpdatePost h idstr b)) \<and> cast_id demo_env idstr = Some 0)"
proof -
  have "case snd (handle demo_env 5 demo_store (GetPost ''0'')) of PostOk i _ \<Rightarrow> i = 0 | _ \<Rightarrow> False"
    by code_simp
  then obtain p where a: "snd (handle demo_env 5 demo_store (GetPost ''0'')) = PostOk 0 p"
    by (auto split: response.splits)
  show ?thesis using handle_answers[of "GetPost ''0''" demo_env 5 demo_store] a by blast
qed

theorem path_param_roundtrip_witness:
  "request_of GET (search_url ''java dev'' 2) None e2e_body no_update = Some (search_request ''java dev'' 2) \<and>
   request_of GET (post_url ''65a1f0'') None e2e_body no_update = Some (GetPost ''65a1f0'') \<and>
   request_of POST (like_url ''65a1f0'') (Some ''Bearer ann-token'') e2e_body no_update =
     Some (LikePost (Some ''Bearer ann-token'') ''65a1f0'')"
  using path_param_roundtrip[of "''java dev''" "''65a1f0''" 2 None e2e_body no_update]
    path_param_roundtrip[of "''java dev''" "''65a1f0''" 2 "Some ''Bearer ann-token''" e2e_body no_update]
  by simp

theorem detail_delete_flow_witness:
  "authenticate demo_env (auth_header \<lparr>a_user = Some ann, a_token = Some ''ann-token'', a_loading = False\<rparr>) = Inr ann \<and>
   cast_id demo_env (d_id (detail_init ''2'')) = Some 2 \<and> posts demo_store 2 = Some (demo_post ''c'' ''bob'' 30) \<and>
   forbidden ann (demo_post ''c'' ''bob'' 30) \<and>
   (let (s', r) = handle demo_env 5 demo_store (DeletePost (Some ''Bearer ann-token'') ''2'');
        d' = delete_done r ((detail_init ''2'')\<lparr>d_deleting := True\<rparr>)
    in s' = demo_store \<and> d_alert d' = Some ''Not authorized to delete this post'' \<and> \<not> d_deleting d')"
proof -
  let ?a = "\<lparr>a_user = Some ann, a_token = Some ''ann-token'', a_loading = False\<rparr>"
  have h: "auth_header ?a = Some ''Bearer ann-token''" by (simp add: auth_header_def str_truthy_def str_or_def)
  have a: "authenticate demo_env (auth_header ?a) = Inr ann" unfolding h by (rule demo_auth(1))
  have c: "cast_id demo_env (d_id (detail_init ''2'')) = Some 2" by (simp add: detail_init_def demo_lookup)
  have p: "posts demo_store 2 = Some (demo_post ''c'' ''bob'' 30)" by (simp add: demo_store_posts)
  have f: "forbidden ann (demo_post ''c'' ''bob'' 30)"
    by (simp add: forbidden_def canMutate_def ann_def demo_post_def)
  have dp: "delete_post demo_env demo_store (Some ''Bearer ann-token'') ''2'' = (demo_store, Forbidden)"
    using a c p f h by (simp add: delete_post_def detail_init_def)
  show ?thesis using h f a c p dp detail_delete_flow[OF a c p, of 5] by (simp add: detail_init_def Let_def)
qed

theorem detail_like_flow_witness:
  "isAuthenticated \<lparr>a_user = Some ann, a_token = Some ''ann-token'', a_loading = False\<rparr> \<and>
   authenticate demo_env (auth_header \<lparr>a_user = Some ann, a_token = Some ''ann-token'', a_loading = False\<rparr>) = Inr ann \<and>
   cast_id demo_env (d_id (detail_init ''0'')) = Some 0 \<and> posts demo_store 0 = Some (demo_post ''a'' ''ann'' 10) \<and>
   validate_post ((demo_post ''a'' ''ann'' 10)\<lparr>likes := 1\<rparr>) = [] \<and>
   (let (s', r) = handle demo_env 5 demo_store (LikePost (Some ''Bearer ann-token'') ''0'');
        d' = like_done r ((detail_init ''0'')\<lparr>d_post := Some (demo_post ''a'' ''ann'' 10), d_liking := True\<rparr>)
    in r = Liked 1 \<and> (\<exists>p'. posts s' 0 = Some p' \<and> likes p' = 1) \<and>
       d_post d' = Some ((demo_post ''a'' ''ann'' 10)\<lparr>likes := 1\<rparr>) \<and> \<not> d_liking d')"
proof -
  let ?a = "\<lparr>a_user = Some ann, a_token = Some ''ann-token'', a_loading = False\<rparr>"
  let ?d = "(detail_init ''0'')\<lparr>d_post := Some (demo_post ''a'' ''ann'' 10)\<rparr>"
  have h: "auth_header ?a = Some ''Bearer ann-token''" by (simp add: auth_header_def str_truthy_def str_or_def)
  have i: "isAuthenticated ?a" by (simp add: isAuthenticated_def)
  have a: "authenticate demo_env (auth_header ?a) = Inr ann" unfolding h by (rule demo_auth(1))
  have c: "cast_id demo_env (d_id ?d) = Some 0" by (simp add: detail_init_def demo_lookup)
  have p: "posts demo_store 0 = Some (demo_post ''a'' ''ann'' 10)" by (simp add: demo_store_posts)
  have q: "d_post ?d = Some (demo_post ''a'' ''ann'' 10)" by simp
  have v: "validate_post ((demo_post ''a'' ''ann'' 10)\<lparr>likes := likes (demo_post ''a'' ''ann'' 10) + 1\<rparr>) = []"
    by (simp add: validate_post_def demo_post_def parse_category_def category_enum_def)
  show ?thesis using h i a c p v detail_like_flow[OF i a c p q v, of 5]
    by (simp add: detail_init_def demo_post_def)
qed

theorem create_page_flow_witness:
  "authenticate demo_env (auth_header \<lparr>a_user = Some ann, a_token = Some ''ann-token'', a_loading = False\<rparr>) = Inr ann \<and>
   create_submit (cp_form (fold handle_change [FTitle '' Hello '', FContent ''hello world'', FTags ''a, ,b''] create_page_init)) =
     Some \<lparr>cb_title = Some '' Hello '', cb_content = Some ''hello world'', cb_category = Some ''general'',
           cb_tags = Some [''a'', ''b''], cb_featured = Some False, cb_imageUrl = Some []\<rparr> \<and>
   (\<exists>p. handle demo_env 7 demo_store (CreatePost (Some ''Bearer ann-token'')
          \<lparr>cb_title = Some '' Hello '', cb_content = Some ''hello world'', cb_category = Some ''general'',
           cb_tags = Some [''a'', ''b''], cb_featured = Some False, cb_imageUrl = Some []\<rparr>) =
          (snd (insert_doc p demo_store), Created 3 p) \<and>
        title p = ''Hello'' \<and> tags p = [''a'', ''b''] \<and> author p = ''ann'')"
proof -
  let ?a = "\<lparr>a_user = Some ann, a_token = Some ''ann-token'', a_loading = False\<rparr>"
  let ?c = "fold handle_change [FTitle '' Hello '', FContent ''hello world'', FTags ''a, ,b''] create_page_init"
  let ?b = "\<lparr>cb_title = Some '' Hello '', cb_content = Some ''hello world'', cb_category = Some ''general'',
           cb_tags = Some [''a'', ''b''], cb_featured = Some False, cb_imageUrl = Some []\<rparr>"
  have h: "auth_header ?a = Some ''Bearer ann-token''" by (simp add: auth_header_def str_truthy_def str_or_def)
  have a: "authenticate demo_env (auth_header ?a) = Inr ann" unfolding h by (rule demo_auth(1))
  have cs: "create_submit (cp_form ?c) = Some ?b" by code_simp
  have v: "validate_post (new_document (create_input ann ?b)) = []" by code_simp
  have n: "next_id demo_store = 3" by (simp add: demo_store_posts)
  have f: "js_trim (fm_title (cp_form ?c)) = ''Hello''" "parse_tags (fm_tags (cp_form ?c)) = [''a'', ''b'']"
      "js_trim (name ann) = ''ann''"
    by code_simp+
  show ?thesis using h a cs n f create_page_flow[OF a cs v, where t = 7 and s = demo_store and ub = no_update and sid = "\<lambda>i. []"]
    by auto
qed

theorem create_page_short_content_witness:
  "authenticate demo_env (Some ''Bearer ann-token'') = Inr ann \<and>
   create_submit (cp_form (fold handle_change [FTitle ''Hi'', FContent ''short''] create_page_init)) =
     Some \<lparr>cb_title = Some ''Hi'', cb_content = Some ''short'', cb_category = Some ''general'',
           cb_tags = Some [], cb_featured = Some False, cb_imageUrl = Some []\<rparr> \<and>
   handle demo_env 7 demo_store (CreatePost (Some ''Bearer ann-token'')
     \<lparr>cb_title = Some ''Hi'', cb_content = Some ''short'', cb_category = Some ''general'',
      cb_tags = Some [], cb_featured = Some False, cb_imageUrl = Some []\<rparr>) = (demo_store, ServerError) \<and>
   cp_alert (submit_done (\<lambda>i. []) (CreatePost (Some ''Bearer ann-token'')
     \<lparr>cb_title = Some ''Hi'', cb_content = Some ''short'', cb_category = Some ''general'',
      cb_tags = Some [], cb_featured = Some False, cb_imageUrl = Some []\<rparr>) ServerError
     ((fold handle_change [FTitle ''Hi'', FContent ''short''] create_page_init)\<lparr>cp_loading := True\<rparr>)) =
     Some ''Server error while creating post''"
proof -
  let ?a = "\<lparr>a_user = Some ann, a_token = Some ''ann-token'', a_loading = False\<rparr>"
  let ?c = "fold handle_change [FTitle ''Hi'', FContent ''short''] create_page_init"
  let ?b = "\<lparr>cb_title = Some ''Hi'', cb_content = Some ''short'', cb_category = Some ''general'',
      cb_tags = Some [], cb_featured = Some False, cb_imageUrl = Some []\<rparr>"
  have h: "auth_header ?a = Some ''Bearer ann-token''" by (simp add: auth_header_def str_truthy_def str_or_def)
  have a: "authenticate demo_env (auth_header ?a) = Inr ann" unfolding h by (rule demo_auth(1))
  have cs: "create_submit (cp_form ?c) = Some ?b" by code_simp
  have l: "length (fm_content (cp_form ?c)) < 10" by code_simp
  show ?thesis using h a cs create_page_short_content[OF a cs l, where t = 7 and s = demo_store and sid = "\<lambda>i. []"]
    by simp
qed

theorem client_links_witness:
  "client_route (cv_link (card_render (\<lambda>i. ''x'') (post_card 0 (demo_post ''a'' ''ann'' 10)))) = Some (PPostDetail ''x'') \<and>
   map_option client_route (cp_nav (submit_done (\<lambda>i. ''x'') (GetPost ''0'') (Created 0 (demo_post ''a'' ''ann'' 10))
     create_page_init)) = Some (Some (PPostDetail ''x'')) \<and>
   map_option client_route (cp_nav (create_redirect (auth_init None) create_page_init)) \<in> {None, Some (Some PLogin)} \<and>
   client_route (edit_link ''x'') = None"
  using client_links[of "\<lambda>i. ''x''" "post_card 0 (demo_post ''a'' ''ann'' 10)" 0 "GetPost ''0''"
      "demo_post ''a'' ''ann'' 10" create_page_init "auth_init None" "''t''" ann login_page_init "detail_init ''0''"]
  by simp


end
